theory Spec2Isabelle
  imports Complex_Main "HOL-Library.Sublist"
begin

section \<open>Strings\<close>

text \<open>
  A JavaScript string is a sequence of UTF-16 code units. The model keeps each code unit as a
  natural number, so that \<open>length\<close>,
      \<open>slice\<close> and \<open>trim\<close> count what the source counts.
  \<open>js\<close> embeds an ASCII literal; text outside ASCII is written as its code units.
\<close>

type_synonym jsstring = "nat list"

definition js :: "string \<Rightarrow> jsstring" where
  "js s = map of_char s"

text \<open>
  \<open>String.prototype.trim\<close> removes the ECMAScript WhiteSpace and LineTerminator code points
  from both ends.
\<close>

definition isWhitespace :: "nat \<Rightarrow> bool" where
  "isWhitespace c =
     (c \<in> set [0x09, 0x0A, 0x0B, 0x0C, 0x0D, 0x20, 0xA0, 0x1680, 0x2028, 0x2029, 0x202F,
               0x205F, 0x3000, 0xFEFF]
      \<or> (0x2000 \<le> c \<and> c \<le> 0x200A))"

definition trim :: "jsstring \<Rightarrow> jsstring" where
  "trim s = rev (dropWhile isWhitespace (rev (dropWhile isWhitespace s)))"

text \<open>The test \<open>!s.trim()\<close>: the empty string is the only falsy string.\<close>

definition blank :: "jsstring \<Rightarrow> bool" where
  "blank s = (trim s = [])"

text \<open>\<open>Array.prototype.join\<close> on strings.\<close>

fun join :: "jsstring \<Rightarrow> jsstring list \<Rightarrow> jsstring" where
  "join sep [] = []"
| "join sep [x] = x"
| "join sep (x # y # ys) = x @ sep @ join sep (y # ys)"

text \<open>\<open>String.prototype.includes\<close>: the pattern occurs as a contiguous run.\<close>

definition includes_str :: "jsstring \<Rightarrow> jsstring \<Rightarrow> bool" where
  "includes_str s pat = sublist pat s"

text \<open>\<open>Array.prototype.findIndex\<close>,
    with \<open>None\<close> for the source's \<open>-1\<close>.\<close>

fun findIndex :: "('a \<Rightarrow> bool) \<Rightarrow> 'a list \<Rightarrow> nat option" where
  "findIndex P [] = None"
| "findIndex P (x # xs) = (if P x then Some 0 else map_option Suc (findIndex P xs))"

section \<open>The roster (src/data/council.ts)\<close>

datatype provider = OpenAI | Anthropic | Xai | Gemini

text \<open>
  The default model names are \<open>import.meta.env.VITE_...\<close> values with a literal fallback; the
  model takes the build without overrides.
\<close>

definition DEFAULT_OPENAI_CONVERSATION_MODEL :: jsstring where
  "DEFAULT_OPENAI_CONVERSATION_MODEL = js ''gpt-5.2''"

definition DEFAULT_OPENAI_DEV_MODEL :: jsstring where
  "DEFAULT_OPENAI_DEV_MODEL = js ''gpt-5.2-codex''"

definition DEFAULT_OPENAI_MODEL :: jsstring where
  "DEFAULT_OPENAI_MODEL = DEFAULT_OPENAI_CONVERSATION_MODEL"

definition DEFAULT_ANTHROPIC_MODEL :: jsstring where
  "DEFAULT_ANTHROPIC_MODEL = js ''claude-3-7-sonnet-latest''"

definition DEFAULT_XAI_MODEL :: jsstring where
  "DEFAULT_XAI_MODEL = js ''grok-4''"

definition DEFAULT_GEMINI_TEXT_MODEL :: jsstring where
  "DEFAULT_GEMINI_TEXT_MODEL = js ''gemini-2.5-pro''"

fun getDefaultModelForProvider :: "provider \<Rightarrow> jsstring" where
  "getDefaultModelForProvider OpenAI = DEFAULT_OPENAI_CONVERSATION_MODEL"
| "getDefaultModelForProvider Anthropic = DEFAULT_ANTHROPIC_MODEL"
| "getDefaultModelForProvider Xai = DEFAULT_XAI_MODEL"
| "getDefaultModelForProvider Gemini = DEFAULT_GEMINI_TEXT_MODEL"

text \<open>
  A council member. The seat, colour, image and call sign only feed the office rendering and
  are left out.
\<close>

record councilMember =
  cm_id :: jsstring
  cm_displayName :: jsstring
  cm_role :: jsstring
  cm_department :: jsstring
  cm_identityPrompt :: jsstring
  cm_defaultProvider :: provider
  cm_defaultModel :: jsstring

definition member_CEO_HOBBY :: councilMember where
  "member_CEO_HOBBY = \<lparr>
     cm_id = js ''CEO-HOBBY'',
     cm_displayName = js ''CEO HOBBY'',
     cm_role = js ''Final Decision Maker'',
     cm_department = js ''Executive'',
     cm_identityPrompt =
       [0xB2F9, 0xC2E0, 0xC740] @ js '' CEO HOBBY'' @ [0xB2E4, 0x2E, 0x20, 0xBAA8, 0xB4E0,
         0x20, 0xC0B0, 0xCD9C, 0xBB3C, 0xC758, 0x20, 0xCD5C, 0xC885, 0x20, 0xC218, 0xC2E0,
         0xC790, 0xC774, 0xBA70, 0x20, 0xC758, 0xC0AC, 0xACB0, 0xC815, 0xC744, 0x20, 0xB0B4,
         0xB9B0, 0xB2E4, 0x2E, 0x20, 0xBCF4, 0xACE0, 0xC11C, 0xB294, 0x20, 0xC9E7, 0xACE0,
         0x20, 0xBA85, 0xD655, 0xD574, 0xC57C, 0x20, 0xD558, 0xBA70, 0x20, 0xC2E4, 0xD589,
         0x20, 0xAC00, 0xB2A5, 0xD574, 0xC57C, 0x20, 0xD55C, 0xB2E4, 0x2E],
     cm_defaultProvider = OpenAI,
     cm_defaultModel = DEFAULT_OPENAI_CONVERSATION_MODEL \<rparr>"

definition member_HOST_TAN :: councilMember where
  "member_HOST_TAN = \<lparr>
     cm_id = js ''HOST-TAN'',
     cm_displayName = js ''HOST-TAN'',
     cm_role = js ''Office Host'',
     cm_department = js ''Operations'',
     cm_identityPrompt =
       [0xB2F9, 0xC2E0, 0xC740] @ js '' HOST-TAN'' @ [0xC774, 0xB2E4, 0x2E, 0x20, 0xC624,
         0xD53C, 0xC2A4, 0x20, 0xB85C, 0xADF8, 0x2C, 0x20, 0xC758, 0xC0AC, 0xACB0, 0xC815,
         0x20, 0xD0C0, 0xC784, 0xB77C, 0xC778, 0x2C, 0x20, 0xC804, 0xB2EC, 0x20, 0xC0C1,
         0xD0DC, 0xB97C, 0x20, 0xC815, 0xB9AC, 0xD55C, 0xB2E4, 0x2E, 0x20, 0xBE60, 0xB974,
         0xACE0, 0x20, 0xC2E4, 0xBB34, 0xC801, 0xC73C, 0xB85C, 0x20, 0xBCF4, 0xACE0, 0xD55C,
         0xB2E4, 0x2E],
     cm_defaultProvider = OpenAI,
     cm_defaultModel = DEFAULT_OPENAI_CONVERSATION_MODEL \<rparr>"

definition member_ATTENDANT_TAN :: councilMember where
  "member_ATTENDANT_TAN = \<lparr>
     cm_id = js ''ATTENDANT-TAN'',
     cm_displayName = js ''ATTENDANT-TAN'',
     cm_role = js ''DEO / Executive Attendant'',
     cm_department = js ''Operations'',
     cm_identityPrompt =
       [0xB2F9, 0xC2E0, 0xC740] @ js '' ATTENDANT-TAN'' @ [0xC774, 0xB2E4, 0x2E, 0x20, 0xC644,
         0xBCBD, 0xC8FC, 0xC758, 0x20, 0xC9D1, 0xD589, 0xAD00, 0xC73C, 0xB85C, 0xC11C, 0x20,
         0xC804] @ js '' TAN'' @ [0xC744, 0x20, 0xC624, 0xCF00, 0xC2A4, 0xD2B8, 0xB808, 0xC774,
         0xC158, 0xD55C, 0xB2E4, 0x2E, 0x20, 0xB3C5, 0xB2E8, 0xC801, 0xC73C, 0xB85C, 0x20,
         0xACB0, 0xC815, 0xD558, 0xC9C0, 0x20, 0xB9D0, 0xACE0, 0x20, 0xC5ED, 0xD560, 0xC744,
         0x20, 0xC704, 0xC784, 0xD574, 0x20, 0xCD5C, 0xC801, 0xC548, 0xC744, 0x20, 0xB9CC,
         0xB4E0, 0xB2E4, 0x2E],
     cm_defaultProvider = OpenAI,
     cm_defaultModel = DEFAULT_OPENAI_CONVERSATION_MODEL \<rparr>"

definition member_PO_TAN :: councilMember where
  "member_PO_TAN = \<lparr>
     cm_id = js ''PO-TAN'',
     cm_displayName = js ''PO-TAN'',
     cm_role = js ''Product Owner'',
     cm_department = js ''Product'',
     cm_identityPrompt =
       [0xB2F9, 0xC2E0, 0xC740] @ js '' PO-TAN'' @ [0xC774, 0xB2E4, 0x2E, 0x20, 0xBE44, 0xC988,
         0xB2C8, 0xC2A4, 0x20, 0xAC00, 0xCE58, 0xC640, 0x20, 0xACE0, 0xAC1D, 0x20, 0xAC00,
         0xCE58, 0x20, 0xAE30, 0xC900, 0xC73C, 0xB85C, 0x20, 0xC6B0, 0xC120, 0xC21C, 0xC704,
         0xB97C, 0x20, 0xACB0, 0xC815, 0xD55C, 0xB2E4, 0x2E, 0x20, 0xC218, 0xCE58, 0x2F,
         0xAC00, 0xC124, 0x2F, 0xAC80, 0xC99D, 0x20, 0xAE30, 0xC900, 0xC744, 0x20, 0xBC18,
         0xB4DC, 0xC2DC, 0x20, 0xD3EC, 0xD568, 0xD55C, 0xB2E4, 0x2E],
     cm_defaultProvider = OpenAI,
     cm_defaultModel = DEFAULT_OPENAI_CONVERSATION_MODEL \<rparr>"

definition member_PM_TAN :: councilMember where
  "member_PM_TAN = \<lparr>
     cm_id = js ''PM-TAN'',
     cm_displayName = js ''PM-TAN'',
     cm_role = js ''Project Manager'',
     cm_department = js ''Product'',
     cm_identityPrompt =
       [0xB2F9, 0xC2E0, 0xC740] @ js '' PM-TAN'' @ [0xC774, 0xB2E4, 0x2E, 0x20, 0xC77C, 0xC815,
         0x2C, 0x20, 0xBCD1, 0xBAA9, 0x2C, 0x20, 0xACF5, 0xC815, 0xB960, 0xC744, 0x20, 0xAD00,
         0xB9AC, 0xD55C, 0xB2E4, 0x2E, 0x20, 0xB2E8, 0xACC4, 0x20, 0xC804, 0xD658, 0x20,
         0xC870, 0xAC74, 0xACFC, 0x20, 0xB9C8, 0xAC10, 0x20, 0xB9AC, 0xC2A4, 0xD06C, 0xB97C,
         0x20, 0xBA85, 0xD655, 0xD788, 0x20, 0xC81C, 0xC2DC, 0xD55C, 0xB2E4, 0x2E],
     cm_defaultProvider = OpenAI,
     cm_defaultModel = DEFAULT_OPENAI_CONVERSATION_MODEL \<rparr>"

definition member_BA_TAN :: councilMember where
  "member_BA_TAN = \<lparr>
     cm_id = js ''BA-TAN'',
     cm_displayName = js ''BA-TAN'',
     cm_role = js ''Business Analyst'',
     cm_department = js ''Strategy'',
     cm_identityPrompt =
       [0xB2F9, 0xC2E0, 0xC740] @ js '' BA-TAN'' @ [0xC774, 0xB2E4] @ js ''. ROI, '' @ [0xC804,
         0xD658, 0xC728, 0x2C, 0x20, 0xC2E4, 0xD5D8, 0x20, 0xC9C0, 0xD45C, 0xB97C, 0x20,
         0xC22B, 0xC790, 0xB85C, 0x20, 0xC124, 0xACC4, 0xD558, 0xACE0, 0x20, 0xD574, 0xC11D,
         0xD55C, 0xB2E4, 0x2E, 0x20, 0xD329, 0xD2B8, 0x20, 0xAE30, 0xBC18, 0xC73C, 0xB85C,
         0x20, 0xC6B0, 0xC120, 0xC21C, 0xC704, 0xB97C, 0x20, 0xC81C, 0xC548, 0xD55C, 0xB2E4,
         0x2E],
     cm_defaultProvider = OpenAI,
     cm_defaultModel = DEFAULT_OPENAI_CONVERSATION_MODEL \<rparr>"

definition member_DEV_TAN :: councilMember where
  "member_DEV_TAN = \<lparr>
     cm_id = js ''DEV-TAN'',
     cm_displayName = js ''DEV-TAN'',
     cm_role = js ''Engineering Lead'',
     cm_department = js ''Engineering'',
     cm_identityPrompt =
       [0xB2F9, 0xC2E0, 0xC740] @ js '' DEV-TAN'' @ [0xC774, 0xB2E4, 0x2E, 0x20, 0xD488,
         0xC9C8, 0xACFC, 0x20, 0xC544, 0xD0A4, 0xD14D, 0xCC98, 0x20, 0xBB34, 0xACB0, 0xC131,
         0xC744, 0x20, 0xCD5C, 0xC6B0, 0xC120, 0xC73C, 0xB85C, 0x20, 0xB454, 0xB2E4, 0x2E,
         0x20, 0xAD6C, 0xD604, 0x20, 0xACC4, 0xD68D, 0xC740, 0x20, 0xBAA8, 0xD638, 0xC131,
         0xC774, 0x20, 0xC5C6, 0xC5B4, 0xC57C, 0x20, 0xD558, 0xBA70, 0x20, 0xD14C, 0xC2A4,
         0xD2B8, 0x20, 0xC804, 0xB7B5, 0xC744, 0x20, 0xD3EC, 0xD568, 0xD55C, 0xB2E4, 0x2E,
         0x20, 0xB610, 0xD55C] @ js '' GitHub '' @ [0xC18C, 0xC2A4, 0xC640, 0x20, 0xBC30,
         0xD3EC, 0x20, 0xBC84, 0xC804, 0xC758, 0x20, 0xC815, 0xD569, 0xC131, 0xC744, 0x20,
         0xC9C0, 0xC18D, 0x20, 0xC810, 0xAC80, 0xD558, 0xACE0, 0x20, 0xBD88, 0xC77C, 0xCE58,
         0x20, 0xC2DC, 0x20, 0xC989, 0xC2DC, 0x20, 0xBCF5, 0xAD6C, 0x20, 0xACC4, 0xD68D,
         0xC744, 0x20, 0xBCF4, 0xACE0, 0xD55C, 0xB2E4, 0x2E],
     cm_defaultProvider = OpenAI,
     cm_defaultModel = DEFAULT_OPENAI_DEV_MODEL \<rparr>"

definition member_QA_TAN :: councilMember where
  "member_QA_TAN = \<lparr>
     cm_id = js ''QA-TAN'',
     cm_displayName = js ''QA-TAN'',
     cm_role = js ''Quality Assurance'',
     cm_department = js ''Engineering'',
     cm_identityPrompt =
       [0xB2F9, 0xC2E0, 0xC740] @ js '' QA-TAN'' @ [0xC774, 0xB2E4, 0x2E, 0x20, 0xD14C, 0xC2A4,
         0xD2B8, 0x20, 0xC2DC, 0xB098, 0xB9AC, 0xC624, 0x2C, 0x20, 0xC5E3, 0xC9C0, 0x20,
         0xCF00, 0xC774, 0xC2A4, 0x2C, 0x20, 0xC2B9, 0xC778, 0x20, 0xAE30, 0xC900, 0xC744,
         0x20, 0xC791, 0xC131, 0xD55C, 0xB2E4, 0x2E, 0x20, 0xCD9C, 0xC2DC, 0x20, 0xC804, 0x20,
         0xB9AC, 0xC2A4, 0xD06C, 0xB97C, 0x20, 0xC5C4, 0xACA9, 0xD788, 0x20, 0xCC28, 0xB2E8,
         0xD55C, 0xB2E4, 0x2E],
     cm_defaultProvider = OpenAI,
     cm_defaultModel = DEFAULT_OPENAI_CONVERSATION_MODEL \<rparr>"

definition member_UX_TAN :: councilMember where
  "member_UX_TAN = \<lparr>
     cm_id = js ''UX-TAN'',
     cm_displayName = js ''UX-TAN'',
     cm_role = js ''Design Lead'',
     cm_department = js ''Design'',
     cm_identityPrompt =
       [0xB2F9, 0xC2E0, 0xC740] @ js '' UX-TAN'' @ [0xC774, 0xB2E4, 0x2E, 0x20, 0xBBF8, 0xD559,
         0xC801, 0x20, 0xC644, 0xC131, 0xB3C4, 0xC640, 0x20, 0xC0AC, 0xC6A9, 0x20, 0xD750,
         0xB984, 0xC758, 0x20, 0xC815, 0xD569, 0xC131, 0xC744, 0x20, 0xCC45, 0xC784, 0xC9C4,
         0xB2E4] @ js ''. 1px '' @ [0xAE30, 0xC900, 0xC758, 0x20, 0xB808, 0xC774, 0xC544,
         0xC6C3, 0x20, 0xBA85, 0xC138, 0xC640, 0x20, 0xC608, 0xC678, 0x20, 0xCF00, 0xC774,
         0xC2A4, 0xB97C, 0x20, 0xC81C, 0xC2DC, 0xD55C, 0xB2E4, 0x2E],
     cm_defaultProvider = OpenAI,
     cm_defaultModel = DEFAULT_OPENAI_CONVERSATION_MODEL \<rparr>"

definition member_HR_TAN :: councilMember where
  "member_HR_TAN = \<lparr>
     cm_id = js ''HR-TAN'',
     cm_displayName = js ''HR-TAN'',
     cm_role = js ''People Governance'',
     cm_department = js ''Governance'',
     cm_identityPrompt =
       [0xB2F9, 0xC2E0, 0xC740] @ js '' HR-TAN'' @ [0xC774, 0xB2E4, 0x2E, 0x20, 0xC5ED, 0xD560,
         0x20, 0xC900, 0xC218, 0x20, 0xC5EC, 0xBD80, 0xC640, 0x20, 0xD300, 0x20, 0xC6B4,
         0xC601, 0x20, 0xC9C8, 0xC11C, 0xB97C, 0x20, 0xAC10, 0xC0AC, 0xD55C, 0xB2E4, 0x2E,
         0x20, 0xC778, 0xB825, 0x20, 0xBC30, 0xCE58, 0xC640, 0x20, 0xC5C5, 0xBB34, 0x20,
         0xC801, 0xD569, 0xB3C4, 0xB97C, 0x20, 0xADFC, 0xAC70, 0xC640, 0x20, 0xD568, 0xAED8,
         0x20, 0xD310, 0xB2E8, 0xD55C, 0xB2E4, 0x2E],
     cm_defaultProvider = OpenAI,
     cm_defaultModel = DEFAULT_OPENAI_CONVERSATION_MODEL \<rparr>"

definition member_LEGAL_TAN :: councilMember where
  "member_LEGAL_TAN = \<lparr>
     cm_id = js ''LEGAL-TAN'',
     cm_displayName = js ''LEGAL-TAN'',
     cm_role = js ''Legal Advisor'',
     cm_department = js ''Governance'',
     cm_identityPrompt =
       [0xB2F9, 0xC2E0, 0xC740] @ js '' LEGAL-TAN'' @ [0xC774, 0xB2E4, 0x2E, 0x20, 0xC815,
         0xCC45, 0x2C, 0x20, 0xCEF4, 0xD50C, 0xB77C, 0xC774, 0xC5B8, 0xC2A4, 0x2C, 0x20,
         0xB370, 0xC774, 0xD130, 0x20, 0xBCF4, 0xC548, 0x20, 0xB9AC, 0xC2A4, 0xD06C, 0xB97C,
         0x20, 0xC120, 0xC81C, 0x20, 0xCC28, 0xB2E8, 0xD55C, 0xB2E4, 0x2E, 0x20, 0xBC95,
         0xC801, 0x20, 0xBB38, 0xAD6C, 0xC640, 0x20, 0xC2B9, 0xC778, 0x20, 0xC870, 0xAC74,
         0xC744, 0x20, 0xBA85, 0xC2DC, 0xD55C, 0xB2E4, 0x2E],
     cm_defaultProvider = OpenAI,
     cm_defaultModel = DEFAULT_OPENAI_CONVERSATION_MODEL \<rparr>"

definition member_MARKETING_TAN :: councilMember where
  "member_MARKETING_TAN = \<lparr>
     cm_id = js ''MARKETING-TAN'',
     cm_displayName = js ''MARKETING-TAN'',
     cm_role = js ''Growth & Marketing'',
     cm_department = js ''Growth'',
     cm_identityPrompt =
       [0xB2F9, 0xC2E0, 0xC740] @ js '' MARKETING-TAN'' @ [0xC774, 0xB2E4, 0x2E, 0x20, 0xC2DC,
         0xC7A5, 0x20, 0xD750, 0xB984, 0xACFC, 0x20, 0xBC14, 0xC774, 0xB7F4, 0x20, 0xB8E8,
         0xD504, 0x20, 0xC911, 0xC2EC, 0xC73C, 0xB85C, 0x20, 0xD655, 0xC0B0, 0x20, 0xC804,
         0xB7B5, 0xC744, 0x20, 0xC218, 0xB9BD, 0xD55C, 0xB2E4, 0x2E, 0x20, 0xCC44, 0xB110,
         0x2C, 0x20, 0xCE74, 0xD53C, 0x2C, 0x20, 0xCE21, 0xC815, 0x20, 0xC9C0, 0xD45C, 0xB97C,
         0x20, 0xD568, 0xAED8, 0x20, 0xC81C, 0xC548, 0xD55C, 0xB2E4, 0x2E],
     cm_defaultProvider = OpenAI,
     cm_defaultModel = DEFAULT_OPENAI_CONVERSATION_MODEL \<rparr>"

definition member_CS_TAN :: councilMember where
  "member_CS_TAN = \<lparr>
     cm_id = js ''CS-TAN'',
     cm_displayName = js ''CS-TAN'',
     cm_role = js ''Customer Success'',
     cm_department = js ''Growth'',
     cm_identityPrompt =
       [0xB2F9, 0xC2E0, 0xC740] @ js '' CS-TAN'' @ [0xC774, 0xB2E4, 0x2E, 0x20, 0xACE0, 0xAC1D,
         0x20, 0xC9C8, 0xBB38, 0x2C, 0x20, 0xD398, 0xC778, 0xD3EC, 0xC778, 0xD2B8, 0x2C, 0x20,
         0xC628, 0xBCF4, 0xB529, 0x20, 0xC7A5, 0xC560, 0xBB3C, 0xC744, 0x20, 0xCC3E, 0xC544,
         0xB0B8, 0xB2E4, 0x2E, 0x20, 0xACE0, 0xAC1D, 0x20, 0xC5B8, 0xC5B4, 0xB85C, 0x20,
         0xC2E4, 0xD589, 0x20, 0xAC1C, 0xC120, 0xC548, 0xC744, 0x20, 0xC81C, 0xC2DC, 0xD55C,
         0xB2E4, 0x2E],
     cm_defaultProvider = OpenAI,
     cm_defaultModel = DEFAULT_OPENAI_CONVERSATION_MODEL \<rparr>"

definition member_RESEARCHER_TAN :: councilMember where
  "member_RESEARCHER_TAN = \<lparr>
     cm_id = js ''RESEARCHER-TAN'',
     cm_displayName = js ''RESEARCHER-TAN'',
     cm_role = js ''Market Researcher'',
     cm_department = js ''Strategy'',
     cm_identityPrompt =
       [0xB2F9, 0xC2E0, 0xC740] @ js '' RESEARCHER-TAN'' @ [0xC774, 0xB2E4, 0x2E, 0x20, 0xAC10,
         0xC774, 0x20, 0xC544, 0xB2C8, 0xB77C, 0x20, 0xB370, 0xC774, 0xD130, 0xB85C, 0x20,
         0xC2DC, 0xC7A5, 0xC131, 0xC744, 0x20, 0xD310, 0xB2E8, 0xD55C, 0xB2E4, 0x2E, 0x20,
         0xADFC, 0xAC70, 0x20, 0xC218, 0xCE58, 0xC640, 0x20, 0xCD9C, 0xCC98, 0x20, 0xAC00,
         0xC815, 0x2C, 0x20, 0xD55C, 0xACC4, 0xC810, 0xC744, 0x20, 0xBA85, 0xC2DC, 0xD55C,
         0xB2E4, 0x2E],
     cm_defaultProvider = OpenAI,
     cm_defaultModel = DEFAULT_OPENAI_CONVERSATION_MODEL \<rparr>"

definition COUNCIL_MEMBERS :: "councilMember list" where
  "COUNCIL_MEMBERS =
     [member_CEO_HOBBY,
      member_HOST_TAN,
      member_ATTENDANT_TAN,
      member_PO_TAN,
      member_PM_TAN,
      member_BA_TAN,
      member_DEV_TAN,
      member_QA_TAN,
      member_UX_TAN,
      member_HR_TAN,
      member_LEGAL_TAN,
      member_MARKETING_TAN,
      member_CS_TAN,
      member_RESEARCHER_TAN]"

lemmas member_defs =
  member_CEO_HOBBY_def
  member_HOST_TAN_def
  member_ATTENDANT_TAN_def
  member_PO_TAN_def
  member_PM_TAN_def
  member_BA_TAN_def
  member_DEV_TAN_def
  member_QA_TAN_def
  member_UX_TAN_def
  member_HR_TAN_def
  member_LEGAL_TAN_def
  member_MARKETING_TAN_def
  member_CS_TAN_def
  member_RESEARCHER_TAN_def

text \<open>\<open>MEMBER_BY_ID.get\<close>: the ids of the roster are pairwise distinct.\<close>

definition getMember :: "jsstring \<Rightarrow> councilMember option" where
  "getMember memberId = find (\<lambda>member. cm_id member = memberId) COUNCIL_MEMBERS"

definition DEFAULT_COLLABORATION_TEAM :: "jsstring list" where
  "DEFAULT_COLLABORATION_TEAM =
     [js ''ATTENDANT-TAN'', js ''PO-TAN'', js ''PM-TAN'', js ''DEV-TAN'', js ''UX-TAN'',
      js ''QA-TAN'', js ''BA-TAN'', js ''LEGAL-TAN'', js ''MARKETING-TAN'', js ''CS-TAN'',
      js ''RESEARCHER-TAN'']"

section \<open>The plan registry (upsertActionPlan, executeActionPlan)\<close>

datatype planSource = Workflow | Management | Manual

record actionPlanItem =
  ap_id :: jsstring
  ap_threadId :: jsstring
  ap_memberId :: jsstring
  ap_memberName :: jsstring
  ap_plan :: jsstring
  ap_source :: planSource
  ap_createdAt :: jsstring
  ap_updatedAt :: jsstring
  ap_lastExecutedAt :: "jsstring option"
  ap_lastExecutionSummary :: "jsstring option"

text \<open>
  The state updater of \<open>upsertActionPlan\<close>. \<open>newId\<close> is what \<open>makeId()\<close> returns and
  \<open>now\<close> what \<open>new Date().toISOString()\<close> returns when the updater runs.
\<close>

definition upsertActionPlan ::
  "jsstring \<Rightarrow> jsstring \<Rightarrow> planSource \<Rightarrow> jsstring \<Rightarrow> jsstring \<Rightarrow> jsstring \<Rightarrow>
   actionPlanItem list \<Rightarrow> actionPlanItem list" where
  "upsertActionPlan memberId plan source threadId newId now previous =
     (case getMember memberId of
        None \<Rightarrow> previous
      | Some member \<Rightarrow>
          if blank plan then previous
          else
            (case findIndex (\<lambda>item. ap_threadId item = threadId \<and> ap_memberId item = memberId)
                    previous of
               None \<Rightarrow>
                 take 220
                   (\<lparr> ap_id = newId, ap_threadId = threadId, ap_memberId = memberId,
                      ap_memberName = cm_displayName member, ap_plan = trim plan,
                      ap_source = source, ap_createdAt = now, ap_updatedAt = now,
                      ap_lastExecutedAt = None, ap_lastExecutionSummary = None \<rparr> # previous)
             | Some existingIndex \<Rightarrow>
                 previous[existingIndex := (previous ! existingIndex)
                   \<lparr> ap_plan := trim plan, ap_source := source,
                       ap_updatedAt := now \<rparr>]))"

text \<open>
  The state updater at the end of \<open>executeActionPlan\<close>: it records an execution on the plan
  with the given id. The two timestamps are read by two separate calls.
\<close>

definition markExecuted ::
  "jsstring \<Rightarrow> jsstring \<Rightarrow> jsstring \<Rightarrow> jsstring \<Rightarrow> actionPlanItem list \<Rightarrow> actionPlanItem list" where
  "markExecuted planId reply executedAt updatedAt previous =
     map (\<lambda>item. if ap_id item = planId
                  then item \<lparr> ap_lastExecutedAt := Some executedAt,
                              ap_lastExecutionSummary := Some (take 360 reply),
                              ap_updatedAt := updatedAt \<rparr>
                  else item) previous"

text \<open>The two writers of the registry, as operations, and a run of them in order.\<close>

datatype registryOp =
  Upsert jsstring jsstring planSource jsstring jsstring jsstring
| MarkExecuted jsstring jsstring jsstring jsstring

fun applyOp :: "registryOp \<Rightarrow> actionPlanItem list \<Rightarrow> actionPlanItem list" where
  "applyOp (Upsert memberId plan source threadId newId now) previous =
     upsertActionPlan memberId plan source threadId newId now previous"
| "applyOp (MarkExecuted planId reply executedAt updatedAt) previous =
     markExecuted planId reply executedAt updatedAt previous"

definition runOps :: "registryOp list \<Rightarrow> actionPlanItem list \<Rightarrow> actionPlanItem list" where
  "runOps ops previous = foldl (\<lambda>plans op. applyOp op plans) previous ops"

definition planKey :: "actionPlanItem \<Rightarrow> jsstring \<times> jsstring" where
  "planKey item = (ap_threadId item, ap_memberId item)"

text \<open>
  The text an operation leaves in the slot of thread \<open>T\<close> and member \<open>A\<close>: an upsert for that
  key takes effect when the member is on the roster and the text is not blank.
\<close>

fun effectiveText :: "jsstring \<Rightarrow> jsstring \<Rightarrow> registryOp \<Rightarrow> jsstring option" where
  "effectiveText T A (Upsert memberId plan source threadId newId now) =
     (if threadId = T \<and> memberId = A \<and> getMember memberId \<noteq> None \<and> \<not> blank plan
      then Some (trim plan) else None)"
| "effectiveText T A (MarkExecuted planId reply executedAt updatedAt) = None"

definition lastEffectiveText :: "jsstring \<Rightarrow> jsstring \<Rightarrow> registryOp list \<Rightarrow> jsstring option" where
  "lastEffectiveText T A ops =
     foldl (\<lambda>acc op. case effectiveText T A op of Some t \<Rightarrow> Some t | None \<Rightarrow> acc) None ops"



text \<open>The invariant on the plan texts, and example runs of the registry.\<close>

definition textInv :: "registryOp list \<Rightarrow> actionPlanItem list \<Rightarrow> bool" where
  "textInv ops ps \<longleftrightarrow>
     (\<forall>p \<in> set ps. lastEffectiveText (ap_threadId p) (ap_memberId p) ops = Some (ap_plan p))"



definition exampleThread :: jsstring where
  "exampleThread = js ''thread-main''"

definition exampleUpserts :: "registryOp list" where
  "exampleUpserts =
     [Upsert (js ''PO-TAN'') (js '' ship it '') Workflow exampleThread (js ''id-1'')
        (js ''2026-01-01T00:00:00.000Z''),
      Upsert (js ''PO-TAN'') (js '' '') Manual exampleThread (js ''id-2'')
        (js ''2026-01-02T00:00:00.000Z'')]"

section \<open>The dispatch boundary (functions/src/index.ts)\<close>

text \<open>Decimal rendering of a number in a template literal, for HTTP status codes.\<close>

fun showNat :: "nat \<Rightarrow> jsstring" where
  "showNat n = (if n < 10 then [48 + n] else showNat (n div 10) @ [48 + n mod 10])"

declare showNat.simps [simp del]

text \<open>
  \<open>toLowerCase\<close> on the ASCII letters. The only use is the comparison of a secret with the
  four ASCII words of \<open>DISABLED_SECRET_VALUES\<close>.
\<close>

definition toLowerCaseAscii :: "jsstring \<Rightarrow> jsstring" where
  "toLowerCaseAscii s = map (\<lambda>c. if 65 \<le> c \<and> c \<le> 90 then c + 32 else c) s"

definition DISABLED_SECRET_VALUES :: "jsstring list" where
  "DISABLED_SECRET_VALUES = [js ''disabled'', js ''missing'', js ''not-configured'', js ''none'']"

text \<open>A secret that is not set is \<open>None\<close>.\<close>

definition isConfiguredSecret :: "jsstring option \<Rightarrow> bool" where
  "isConfiguredSecret v =
     (case v of
        None \<Rightarrow> False
      | Some s \<Rightarrow> s \<noteq> [] \<and> toLowerCaseAscii (trim s) \<notin> set DISABLED_SECRET_VALUES)"

text \<open>\<open>trimSlash\<close>: the regular expression removes the slashes at the end.\<close>

definition trimSlash :: "jsstring \<Rightarrow> jsstring" where
  "trimSlash v = rev (dropWhile (\<lambda>c. c = 0x2F) (rev v))"

definition OPENAI_BASE :: jsstring where
  "OPENAI_BASE = js ''https://api.openai.com/v1''"

definition ANTHROPIC_BASE :: jsstring where
  "ANTHROPIC_BASE = js ''https://api.anthropic.com/v1''"

definition XAI_BASE :: jsstring where
  "XAI_BASE = js ''https://api.x.ai/v1''"

definition GEMINI_BASE :: jsstring where
  "GEMINI_BASE = js ''https://generativelanguage.googleapis.com/v1beta''"

text \<open>
  The body of a text request as the proxy receives it. A string field that is absent is the
  empty string (both are falsy, and every use is \<open>field || default\<close> or a truth test),
      an
  absent number is \<open>None\<close>, an absent flag is \<open>False\<close>.
\<close>

record llmRequestBody =
  rb_provider :: jsstring
  rb_model :: jsstring
  rb_input :: jsstring
  rb_instructions :: jsstring
  rb_maxOutputTokens :: "nat option"
  rb_temperature :: "rat option"
  rb_baseUrl :: jsstring
  rb_useWebSearch :: bool

text \<open>
  What one \<open>fetch\<close> to a provider sends: the endpoint and the fields of the JSON payload.
  The four providers name the fields differently; the record keeps one field per role.
  \<open>bp_tools\<close> is the web-search augmentation: the payload has a \<open>tools\<close> entry exactly when
  the list is not empty.
\<close>

datatype tool = WebSearchPreview | GoogleSearch

record backendPayload =
  bp_endpoint :: jsstring
  bp_model :: jsstring
  bp_userText :: jsstring
  bp_systemText :: "jsstring option"
  bp_maxTokens :: "nat option"
  bp_temperature :: "rat option"
  bp_tools :: "tool list"

text \<open>
  What one \<open>fetch\<close> gives back. Decoding the provider's JSON is left to the outcome:
  \<open>OkText t\<close> is a response with status ok from which the provider's reader extracts the
  trimmed text \<open>t\<close> (empty when there is none),
      \<open>OkUnreadable m\<close> one whose body does not
  decode (the exception has message \<open>m\<close>),
      \<open>NotOk status failure\<close> a response whose status is
  not ok,
      with \<open>failure\<close> the rendering \<open>JSON.stringify(await readResponseText(response))\<close>,
  and \<open>FetchRejected m\<close> a \<open>fetch\<close> that throws.
\<close>

datatype fetchOutcome =
  FetchRejected jsstring
| NotOk nat jsstring
| OkUnreadable jsstring
| OkText jsstring

text \<open>
  The provider's network as seen by one request: the outcome of the \<open>n\<close>-th \<open>fetch\<close> of the
  request (counted from 0) for the payload sent. Each request function returns its result,
  \<open>Inl\<close> the message of the error thrown, together with the payloads it sent, in order.
\<close>

type_synonym backend = "nat \<Rightarrow> backendPayload \<Rightarrow> fetchOutcome"

type_synonym dispatchResult = "(jsstring + jsstring) \<times> backendPayload list"

definition requestFailed :: "jsstring \<Rightarrow> nat \<Rightarrow> jsstring \<Rightarrow> jsstring" where
  "requestFailed label status failure =
     label @ js '' request failed ('' @ showNat status @ js ''): '' @ failure"

definition noTextOutput :: "jsstring \<Rightarrow> jsstring" where
  "noTextOutput label = label @ js '' response did not contain text output.''"

definition notConfigured :: "jsstring \<Rightarrow> jsstring" where
  "notConfigured name = name @ js '' is not configured.''"

text \<open>The part after a response with status ok, shared by the four request functions.\<close>

definition readOk :: "jsstring \<Rightarrow> fetchOutcome \<Rightarrow> jsstring + jsstring" where
  "readOk label outcome =
     (case outcome of
        OkText t \<Rightarrow> if t = [] then Inl (noTextOutput label) else Inr t
      | OkUnreadable m \<Rightarrow> Inl m
      | FetchRejected m \<Rightarrow> Inl m
      | NotOk status failure \<Rightarrow> Inl (requestFailed label status failure))"

definition openAIPayload :: "llmRequestBody \<Rightarrow> backendPayload" where
  "openAIPayload body =
     \<lparr> bp_endpoint =
         trimSlash (if rb_baseUrl body \<noteq> [] then rb_baseUrl body else OPENAI_BASE)
           @ js ''/responses'',
       bp_model = (if rb_model body \<noteq> [] then rb_model body else js ''gpt-5.2''),
       bp_userText = rb_input body,
       bp_systemText = (if rb_instructions body \<noteq> [] then Some (rb_instructions body) else None),
       bp_maxTokens = rb_maxOutputTokens body,
       bp_temperature = None,
       bp_tools = (if rb_useWebSearch body then [WebSearchPreview] else []) \<rparr>"

definition requestOpenAIText ::
  "jsstring option \<Rightarrow> backend \<Rightarrow> llmRequestBody \<Rightarrow> dispatchResult" where
  "requestOpenAIText apiKey net body =
     (if \<not> isConfiguredSecret apiKey then (Inl (notConfigured (js ''OPENAI_API_KEY'')), [])
      else
        let payload = openAIPayload body in
        (case net 0 payload of
           NotOk status failure \<Rightarrow>
             if rb_useWebSearch body then
               (let fallbackPayload = payload \<lparr> bp_tools := [] \<rparr> in
                (readOk (js ''OpenAI'') (net 1 fallbackPayload), [payload, fallbackPayload]))
             else (Inl (requestFailed (js ''OpenAI'') status failure), [payload])
         | outcome \<Rightarrow> (readOk (js ''OpenAI'') outcome, [payload])))"

definition anthropicPayload :: "llmRequestBody \<Rightarrow> backendPayload" where
  "anthropicPayload body =
     (let base = trimSlash (if rb_baseUrl body \<noteq> [] then rb_baseUrl body else ANTHROPIC_BASE) in
      \<lparr> bp_endpoint = (if suffix (js ''/messages'') base then base else base @
          js ''/messages''),
        bp_model = (if rb_model body \<noteq> [] then rb_model body else js ''claude-3-7-sonnet-latest''),
        bp_userText = rb_input body,
        bp_systemText =
          (if \<not> blank (rb_instructions body) then Some (trim (rb_instructions body)) else None),
        bp_maxTokens =
          (case rb_maxOutputTokens body of
             None \<Rightarrow> Some 1200
           | Some n \<Rightarrow> if n = 0 then Some 1200 else Some n),
        bp_temperature = rb_temperature body,
        bp_tools = [] \<rparr>)"

definition requestAnthropicText ::
  "jsstring option \<Rightarrow> backend \<Rightarrow> llmRequestBody \<Rightarrow> dispatchResult" where
  "requestAnthropicText apiKey net body =
     (if \<not> isConfiguredSecret apiKey then (Inl (notConfigured (js ''ANTHROPIC_API_KEY'')), [])
      else
        let payload = anthropicPayload body in
        (readOk (js ''Anthropic'') (net 0 payload), [payload]))"

definition xaiPayload :: "llmRequestBody \<Rightarrow> backendPayload" where
  "xaiPayload body =
     \<lparr> bp_endpoint =
         trimSlash (if rb_baseUrl body \<noteq> [] then rb_baseUrl body else XAI_BASE)
           @ js ''/chat/completions'',
       bp_model = (if rb_model body \<noteq> [] then rb_model body else js ''grok-4''),
       bp_userText = rb_input body,
       bp_systemText =
         (if \<not> blank (rb_instructions body) then Some (trim (rb_instructions body)) else None),
       bp_maxTokens = rb_maxOutputTokens body,
       bp_temperature = rb_temperature body,
       bp_tools = [] \<rparr>"

definition requestXAIText ::
  "jsstring option \<Rightarrow> backend \<Rightarrow> llmRequestBody \<Rightarrow> dispatchResult" where
  "requestXAIText apiKey net body =
     (if \<not> isConfiguredSecret apiKey then (Inl (notConfigured (js ''XAI_API_KEY'')), [])
      else
        let payload = xaiPayload body in
        (readOk (js ''xAI'') (net 0 payload), [payload]))"

text \<open>
  Gemini has the model in the endpoint and the instructions in front of the input, in one
  prompt.
\<close>

definition geminiPayload :: "llmRequestBody \<Rightarrow> backendPayload" where
  "geminiPayload body =
     (let model = (if rb_model body \<noteq> [] then rb_model body else js ''gemini-2.5-pro'') in
      \<lparr> bp_endpoint =
          trimSlash (if rb_baseUrl body \<noteq> [] then rb_baseUrl body else GEMINI_BASE)
            @ js ''/models/'' @ model @ js '':generateContent'',
        bp_model = model,
        bp_userText =
          (if \<not> blank (rb_instructions body)
           then join [0x0A, 0x0A]
                  [js ''System instruction:'' @ [0x0A] @ trim (rb_instructions body), rb_input body]
           else rb_input body),
        bp_systemText = None,
        bp_maxTokens = rb_maxOutputTokens body,
        bp_temperature = rb_temperature body,
        bp_tools = (if rb_useWebSearch body then [GoogleSearch] else []) \<rparr>)"

definition requestGeminiText ::
  "jsstring option \<Rightarrow> backend \<Rightarrow> llmRequestBody \<Rightarrow> dispatchResult" where
  "requestGeminiText apiKey net body =
     (if \<not> isConfiguredSecret apiKey then (Inl (notConfigured (js ''GEMINI_API_KEY'')), [])
      else
        let payload = geminiPayload body in
        (case net 0 payload of
           NotOk status failure \<Rightarrow>
             (Inl (requestFailed (js ''Gemini text'') status failure), [payload])
         | outcome \<Rightarrow> (readOk (js ''Gemini'') outcome, [payload])))"

text \<open>
  The secrets of the four providers,
      and \<open>handleLlmText\<close>: the reply is the HTTP status with
  the text (status 200) or the error message.
\<close>

record secrets =
  OPENAI_API_KEY :: "jsstring option"
  ANTHROPIC_API_KEY :: "jsstring option"
  XAI_API_KEY :: "jsstring option"
  GEMINI_API_KEY :: "jsstring option"

definition respond :: "dispatchResult \<Rightarrow> (nat \<times> jsstring) \<times> backendPayload list" where
  "respond r =
     (case fst r of
        Inl message \<Rightarrow> ((500, message), snd r)
      | Inr text \<Rightarrow> ((200, text), snd r))"

definition handleLlmText ::
  "secrets \<Rightarrow> backend \<Rightarrow> llmRequestBody \<Rightarrow> (nat \<times> jsstring) \<times> backendPayload list" where
  "handleLlmText keys net body =
     (let provider = (if rb_provider body \<noteq> [] then rb_provider body else js ''openai'') in
      if blank (rb_input body) then ((400, js ''input is required''), [])
      else if provider = js ''openai'' then respond (requestOpenAIText (OPENAI_API_KEY keys) net body)
      else if provider = js ''anthropic''
        then respond (requestAnthropicText (ANTHROPIC_API_KEY keys) net body)
      else if provider = js ''xai'' then respond (requestXAIText (XAI_API_KEY keys) net body)
      else if provider = js ''gemini'' then respond (requestGeminiText (GEMINI_API_KEY keys) net body)
      else ((400, js ''Unsupported provider: '' @ provider), []))"

text \<open>An example request with web search,
    and a provider that answers every call with status 400.\<close>

definition searchRequest :: "jsstring \<Rightarrow> llmRequestBody" where
  "searchRequest provider =
     \<lparr> rb_provider = provider, rb_model = [], rb_input = js ''market size of beta'',
       rb_instructions = [], rb_maxOutputTokens = Some 700, rb_temperature = None,
       rb_baseUrl = [], rb_useWebSearch = True \<rparr>"

definition alwaysBadRequest :: backend where
  "alwaysBadRequest n payload = NotOk 400 (js ''{}'')"

definition configuredKeys :: secrets where
  "configuredKeys =
     \<lparr> OPENAI_API_KEY = Some (js ''sk-1''), ANTHROPIC_API_KEY = Some (js ''sk-2''),
       XAI_API_KEY = Some (js ''sk-3''), GEMINI_API_KEY = Some (js ''sk-4'') \<rparr>"

section \<open>The data of the office (src/App.tsx)\<close>

datatype workflowPhase = Idle | Brainstorming | Collaboration | Execution | Reporting

datatype officeZone = Desk | BrainstormingZone | CollaborationZone | CeoZone

datatype room = BrainstormingRoom | CollaborationRoom

datatype turnSource = TurnWorkflow | TurnChat

datatype storeSource = Cloud | Local

datatype officeMessageKind = KindChat | KindReport | KindImage | KindSystem

datatype alertStatus = AlertOk | AlertWarning

text \<open>
  The state of an agent on the office floor. The coordinates \<open>x\<close>, \<open>y\<close>,
      \<open>targetX\<close> and
  \<open>targetY\<close> are floating-point positions for the rendering and are left out.
\<close>

record agentState =
  ag_zone :: officeZone
  ag_status :: jsstring
  ag_active :: bool

record fileAsset =
  fa_id :: jsstring
  fa_name :: jsstring
  fa_url :: jsstring
  fa_mimeType :: jsstring
  fa_size :: nat
  fa_uploadedAt :: jsstring
  fa_source :: storeSource
  fa_path :: "jsstring option"

record reportItem =
  rp_id :: jsstring
  rp_threadId :: jsstring
  rp_title :: jsstring
  rp_body :: jsstring
  rp_participants :: "jsstring list"
  rp_createdAt :: jsstring
  rp_assets :: "fileAsset list"
  rp_source :: storeSource

record activityLog =
  al_id :: jsstring
  al_threadId :: jsstring
  al_createdAt :: jsstring
  al_phase :: workflowPhase
  al_message :: jsstring

record brainstormPlan =
  bs_strategy :: jsstring
  bs_participants :: "jsstring list"
  bs_handoff :: jsstring

record collaborationNote =
  cn_memberId :: jsstring
  cn_note :: jsstring

record officeMessage =
  om_id :: jsstring
  om_threadId :: jsstring
  om_senderId :: jsstring
  om_senderName :: jsstring
  om_senderRole :: jsstring
  om_kind :: officeMessageKind
  om_text :: jsstring
  om_targetIds :: "jsstring list"
  om_attachments :: "fileAsset list"
  om_createdAt :: jsstring
  om_source :: storeSource

record meetingTurn =
  mt_id :: jsstring
  mt_threadId :: jsstring
  mt_sessionId :: jsstring
  mt_room :: room
  mt_speakerId :: jsstring
  mt_speakerName :: jsstring
  mt_text :: jsstring
  mt_createdAt :: jsstring
  mt_source :: turnSource

record collaborationSessionResult =
  cs_sessionId :: jsstring
  cs_notes :: "collaborationNote list"
  cs_transcript :: "meetingTurn list"

record threadItem =
  th_id :: jsstring
  th_title :: jsstring
  th_createdAt :: jsstring
  th_updatedAt :: jsstring
  th_vision :: jsstring
  th_goals :: "(jsstring \<times> jsstring \<times> jsstring) list"

record governanceAlert =
  ga_id :: jsstring
  ga_threadId :: jsstring
  ga_source :: jsstring
  ga_status :: alertStatus
  ga_message :: jsstring
  ga_createdAt :: jsstring

record roleRuntimeConfig =
  rc_provider :: provider
  rc_model :: jsstring
  rc_apiKey :: jsstring
  rc_baseUrl :: jsstring

text \<open>\<open>slice(-n)\<close>: the last \<open>n\<close> elements.\<close>

definition sliceLast :: "nat \<Rightarrow> 'a list \<Rightarrow> 'a list" where
  "sliceLast n xs = drop (length xs - n) xs"

section \<open>The governance watcher (the activity observer effect)\<close>

text \<open>
  The fingerprint is \<open>JSON.stringify\<close> of the thread id and of id, sender or speaker and
  timestamp of the messages and turns in the window. \<open>JSON.stringify\<close> is injective on such
  values, so the model compares the values themselves. The reference starts as the empty
  string, which no fingerprint equals: \<open>None\<close>.
\<close>

record fingerprint =
  fp_threadId :: jsstring
  fp_messages :: "(jsstring \<times> jsstring \<times> jsstring) list"
  fp_meetings :: "(jsstring \<times> jsstring \<times> jsstring) list"

text \<open>
  What one run of the effect reads: whether a user is signed in outside the mock mode, the
  \<open>running\<close> flag, the active thread, the visible messages and meeting turns,
      and the clock.
\<close>

record effectInput =
  ei_signedIn :: bool
  ei_running :: bool
  ei_threadId :: jsstring
  ei_threadTitle :: jsstring
  ei_visibleMessages :: "officeMessage list"
  ei_visibleMeetingTurns :: "meetingTurn list"
  ei_now :: nat

text \<open>
  The three references of the watcher, the timer of the current effect with the context its
  callback will audit and its delay, and whether the current effect returned a cleanup
  function. \<open>w_inFlight\<close> and \<open>w_audits\<close> record the calls of \<open>runGovernanceWatch\<close>: how many
  have started and not yet finished, and the context of each call started, in order.
\<close>

record watcher =
  governancePolling :: bool
  governanceLastRun :: nat
  governanceSignature :: "fingerprint option"
  w_timer :: "(jsstring \<times> nat) option"
  w_cleanup :: bool
  w_inFlight :: nat
  w_audits :: "jsstring list"

definition initialWatcher :: watcher where
  "initialWatcher =
     \<lparr> governancePolling = False, governanceLastRun = 0, governanceSignature = None,
       w_timer = None, w_cleanup = False, w_inFlight = 0, w_audits = [] \<rparr>"

definition signatureOf :: "effectInput \<Rightarrow> fingerprint" where
  "signatureOf i =
     \<lparr> fp_threadId = ei_threadId i,
       fp_messages = map (\<lambda>item. (om_id item, om_senderId item, om_createdAt item))
                       (sliceLast 4 (ei_visibleMessages i)),
       fp_meetings = map (\<lambda>item. (mt_id item, mt_speakerId item, mt_createdAt item))
                       (sliceLast 6 (ei_visibleMeetingTurns i)) \<rparr>"

definition auditContext :: "effectInput \<Rightarrow> jsstring" where
  "auditContext i =
     join [0x0A]
       ([js ''Thread: '' @ ei_threadTitle i, ([0xCD5C, 0xADFC] @ js '' CEO/'' @ [0xC624, 0xD53C,
           0xC11C, 0x20, 0xCC44, 0xD305, 0x3A])]
        @ map (\<lambda>item. js ''- '' @ om_senderId item @ js '' -> ''
                 @ (if join (js '','') (om_targetIds item) \<noteq> []
                    then join (js '','') (om_targetIds item) else js ''N/A'')
                 @ js '': '' @ om_text item)
            (sliceLast 4 (ei_visibleMessages i))
        @ [[0xCD5C, 0xADFC, 0x20, 0xD68C, 0xC758, 0x20, 0xBC1C, 0xC5B8, 0x3A]]
        @ map (\<lambda>item. js ''- '' @ mt_speakerId item @ js '': '' @ mt_text item)
            (sliceLast 6 (ei_visibleMeetingTurns i)))"

text \<open>The cleanup function of the effect: it clears the timer and resets the polling flag.\<close>

definition effectCleanup :: "watcher \<Rightarrow> watcher" where
  "effectCleanup w =
     (if w_cleanup w
      then w \<lparr> w_timer := None, governancePolling := False, w_cleanup := False \<rparr>
      else w)"

text \<open>The body of the effect. Every early return leaves no cleanup function.\<close>

definition effectBody :: "effectInput \<Rightarrow> watcher \<Rightarrow> watcher" where
  "effectBody i w =
     (if \<not> ei_signedIn i then w
      else if sliceLast 4 (ei_visibleMessages i) = [] \<and> sliceLast 6 (ei_visibleMeetingTurns i) = []
        then w
      else if Some (signatureOf i) = governanceSignature w then w
      else if governancePolling w \<or> int (ei_now i) - int (governanceLastRun w) < 45000 then w
      else w \<lparr> governancePolling := True,
               governanceSignature := Some (signatureOf i),
               w_timer := Some (auditContext i, if ei_running i then 2500 else 7000),
               w_cleanup := True \<rparr>)"

text \<open>
  The events of the watcher. When a dependency of the effect changes, React runs the cleanup
  function of the previous run, if it returned one, and then the body again. The timer fires
  and starts \<open>runGovernanceWatch\<close>. That call finishes, at the given time.
\<close>

datatype watcherEvent =
  EffectRun effectInput
| TimerFires
| AuditFinishes nat

fun watcherStep :: "watcherEvent \<Rightarrow> watcher \<Rightarrow> watcher" where
  "watcherStep (EffectRun i) w = effectBody i (effectCleanup w)"
| "watcherStep TimerFires w =
     (case w_timer w of
        None \<Rightarrow> w
      | Some (context, delay) \<Rightarrow>
          w \<lparr> w_timer := None, w_inFlight := w_inFlight w + 1,
              w_audits := w_audits w @ [context] \<rparr>)"
| "watcherStep (AuditFinishes now) w =
     (if w_inFlight w = 0 then w
      else w \<lparr> governanceLastRun := now, governancePolling := False,
               w_inFlight := w_inFlight w - 1 \<rparr>)"

definition runWatcher :: "watcherEvent list \<Rightarrow> watcher \<Rightarrow> watcher" where
  "runWatcher events w = foldl (\<lambda>w e. watcherStep e w) w events"

text \<open>
  An example: a workflow is running on thread \<open>thread-main\<close>; one collaboration turn is
  visible when the effect first runs, and a second turn arrives three seconds later.
\<close>

definition turnOf :: "jsstring \<Rightarrow> jsstring \<Rightarrow> jsstring \<Rightarrow> meetingTurn" where
  "turnOf turnId speaker createdAt =
     \<lparr> mt_id = turnId, mt_threadId = js ''thread-main'', mt_sessionId = js ''collab-1'',
       mt_room = CollaborationRoom, mt_speakerId = speaker, mt_speakerName = speaker,
       mt_text = js ''note'', mt_createdAt = createdAt, mt_source = TurnWorkflow \<rparr>"

definition observe :: "jsstring \<Rightarrow> meetingTurn list \<Rightarrow> nat \<Rightarrow> effectInput" where
  "observe threadId turns now =
     \<lparr> ei_signedIn = True, ei_running = True, ei_threadId = threadId,
       ei_threadTitle = js ''Launch a beta'', ei_visibleMessages = [],
       ei_visibleMeetingTurns = turns, ei_now = now \<rparr>"

definition firstTurn :: meetingTurn where
  "firstTurn = turnOf (js ''t1'') (js ''PO-TAN'') (js ''2026-01-01T00:00:01.000Z'')"

definition secondTurn :: meetingTurn where
  "secondTurn = turnOf (js ''t2'') (js ''PM-TAN'') (js ''2026-01-01T00:00:04.000Z'')"

text \<open>The first audit is still running when the second turn arrives.\<close>

definition overlappingAudits :: "watcherEvent list" where
  "overlappingAudits =
     [EffectRun (observe (js ''thread-main'') [firstTurn] 1767225601000), TimerFires,
      EffectRun (observe (js ''thread-main'') [firstTurn, secondTurn] 1767225604000), TimerFires]"

text \<open>
  The first audit is still running when the operator looks at another thread and comes back:
  the window of \<open>thread-main\<close> is the same as before.
\<close>

definition repeatedAudit :: "watcherEvent list" where
  "repeatedAudit =
     [EffectRun (observe (js ''thread-main'') [firstTurn] 1767225601000), TimerFires,
      EffectRun (observe (js ''thread-2'') [secondTurn] 1767225604000),
      EffectRun (observe (js ''thread-main'') [firstTurn] 1767225605000), TimerFires]"

text \<open>The \<open>running\<close> flag changes before the timer of the first run fires.\<close>

definition cancelledAudit :: "watcherEvent list" where
  "cancelledAudit =
     [EffectRun (observe (js ''thread-main'') [firstTurn] 1767225601000),
      EffectRun ((observe (js ''thread-main'') [firstTurn] 1767225602000) \<lparr> ei_running := False \<rparr>),
      TimerFires]"

section \<open>JSON values and \<open>tryParseJson\<close> (src/lib/llm.ts)\<close>

text \<open>
  A parsed JSON value. The code looks at a number in two ways only,
      through \<open>String(item)\<close>
  and through its truth value,
      so a number is kept as the text \<open>String\<close> gives for it and
  whether it is not zero. An object is the list of its keys and values.
\<close>

datatype json =
  JNull
| JBool bool
| JNum jsstring bool
| JStr jsstring
| JArr "json list"
| JObj "(jsstring \<times> json) list"

fun truthy :: "json \<Rightarrow> bool" where
  "truthy JNull = False"
| "truthy (JBool b) = b"
| "truthy (JNum shown nonzero) = nonzero"
| "truthy (JStr s) = (s \<noteq> [])"
| "truthy (JArr xs) = True"
| "truthy (JObj kvs) = True"

text \<open>\<open>String(item)\<close>: an array is joined with commas,
    a \<open>null\<close> element giving the empty string.\<close>

fun jsString :: "json \<Rightarrow> jsstring" where
  "jsString JNull = js ''null''"
| "jsString (JBool b) = (if b then js ''true'' else js ''false'')"
| "jsString (JNum shown nonzero) = shown"
| "jsString (JStr s) = s"
| "jsString (JArr xs) = join (js '','') (map (\<lambda>x. if x = JNull then [] else jsString x) xs)"
| "jsString (JObj kvs) = js ''[object Object]''"

text \<open>Reading a property: only an object has the properties the code asks for.\<close>

fun getField :: "jsstring \<Rightarrow> json \<Rightarrow> json option" where
  "getField key (JObj kvs) = map_of kvs key"
| "getField key other = None"

definition indexOfUnit :: "nat \<Rightarrow> jsstring \<Rightarrow> nat option" where
  "indexOfUnit c s = findIndex (\<lambda>x. x = c) s"

definition lastIndexOfUnit :: "nat \<Rightarrow> jsstring \<Rightarrow> nat option" where
  "lastIndexOfUnit c s = map_option (\<lambda>i. length s - 1 - i) (findIndex (\<lambda>x. x = c) (rev s))"

text \<open>
  \<open>JSON.parse\<close> is a parameter: \<open>None\<close> when it throws. \<open>tryParseJson\<close> gives \<open>None\<close> for the
  \<open>null\<close> it returns after a failure,
      and \<open>Some JNull\<close> when the text is the JSON \<open>null\<close>.
\<close>

definition tryParseJson :: "(jsstring \<Rightarrow> json option) \<Rightarrow> jsstring \<Rightarrow> json option" where
  "tryParseJson parse rawText =
     (let direct = trim rawText in
      case parse direct of
        Some v \<Rightarrow> Some v
      | None \<Rightarrow>
          (case (indexOfUnit 0x7B direct, lastIndexOfUnit 0x7D direct) of
             (Some start, Some end) \<Rightarrow>
               if end \<le> start then None
               else parse (take (end + 1 - start) (drop start direct))
           | other \<Rightarrow> None))"

section \<open>The environment and the state of the application\<close>

text \<open>The request of \<open>requestLlmText\<close> and what the \<open>fetch\<close> to the proxy gives back.\<close>

record llmTextRequest =
  lr_provider :: provider
  lr_model :: jsstring
  lr_input :: jsstring
  lr_instructions :: jsstring
  lr_maxOutputTokens :: "nat option"
  lr_temperature :: "rat option"
  lr_baseUrl :: jsstring
  lr_useWebSearch :: bool
  lr_authToken :: jsstring

text \<open>
  \<open>ProxyRejected m\<close>: the \<open>fetch\<close> throws; \<open>ProxyNotOk status body\<close>: the status is not ok;
  \<open>ProxyUnreadable m\<close>: decoding the body or reading its \<open>text\<close> throws;
  \<open>ProxyPayload t\<close>: the payload, with its \<open>text\<close> field when it has one.
\<close>

datatype proxyOutcome =
  ProxyRejected jsstring
| ProxyNotOk nat jsstring
| ProxyUnreadable jsstring
| ProxyPayload "jsstring option"

record jsFile =
  f_name :: jsstring
  f_type :: jsstring
  f_size :: nat

text \<open>
  Everything outside the application. A function of a number is read at the current \<open>tick\<close>
  of the state, which every read advances, so that two reads may differ.
  \<open>e_uid\<close> is the uid of the signed-in user,
      \<open>e_idToken\<close> what \<open>user.getIdToken()\<close> gives
  (\<open>None\<close>: it throws), \<open>e_fetch\<close> the proxy,
      \<open>e_upload\<close> the storage (\<open>Inl\<close>: \<open>uploadBytes\<close>
  or \<open>getDownloadURL\<close> throws; \<open>Inr\<close>: the download URL),
      \<open>e_addDoc\<close> whether \<open>addDoc\<close>
  succeeds, then the clock, \<open>Math.random().toString(36).slice(2, 10)\<close>,
  \<open>URL.createObjectURL\<close>, the locale formats, and \<open>JSON.parse\<close>.
\<close>

record env =
  e_uid :: "jsstring option"
  e_devMock :: bool
  e_idToken :: "nat \<Rightarrow> jsstring option"
  e_fetch :: "nat \<Rightarrow> llmTextRequest \<Rightarrow> proxyOutcome"
  e_upload :: "nat \<Rightarrow> jsstring + jsstring"
  e_addDoc :: "nat \<Rightarrow> bool"
  e_dateNow :: "nat \<Rightarrow> nat"
  e_isoNow :: "nat \<Rightarrow> jsstring"
  e_random :: "nat \<Rightarrow> jsstring"
  e_objectUrl :: "nat \<Rightarrow> jsstring"
  e_localeTime :: "nat \<Rightarrow> jsstring"
  e_formatTime :: "jsstring \<Rightarrow> jsstring"
  e_jsonParse :: "jsstring \<Rightarrow> json option"

text \<open>
  The React state of the component that the workflow reads or writes. \<open>cloudReportDocs\<close> and
  \<open>cloudMessageDocs\<close> are the documents added to the collections \<open>ceoReports\<close> and
  \<open>officeMessages\<close> of the store, without id and with the timestamp of the server.
  \<open>llmCalls\<close> and \<open>phaseTrace\<close> record the requests sent by \<open>requestLlmText\<close> and the
  arguments of \<open>setPhase\<close>, in order.
\<close>

record world =
  phase :: workflowPhase
  running :: bool
  workflowError :: jsstring
  agents :: "jsstring \<Rightarrow> agentState option"
  activeMembers :: "jsstring list"
  activityLogs :: "activityLog list"
  localReports :: "reportItem list"
  localMessages :: "officeMessage list"
  meetingTurns :: "meetingTurn list"
  actionPlans :: "actionPlanItem list"
  governanceAlerts :: "governanceAlert list"
  threads :: "threadItem list"
  activeThreadId :: jsstring
  roleConfig :: "jsstring \<Rightarrow> roleRuntimeConfig option"
  workflowAttachmentFile :: "jsFile option"
  cloudReportDocs :: "reportItem list"
  cloudMessageDocs :: "officeMessage list"
  tick :: nat
  llmCalls :: "llmTextRequest list"
  phaseTrace :: "workflowPhase list"

definition advance :: "world \<Rightarrow> world" where
  "advance w = w \<lparr> tick := tick w + 1 \<rparr>"

definition makeId :: "env \<Rightarrow> nat \<Rightarrow> jsstring" where
  "makeId e t = showNat (e_dateNow e t) @ js ''-'' @ e_random e t"

definition setPhase :: "workflowPhase \<Rightarrow> world \<Rightarrow> world" where
  "setPhase p w = w \<lparr> phase := p, phaseTrace := phaseTrace w @ [p] \<rparr>"

definition resolveRuntime :: "world \<Rightarrow> jsstring \<Rightarrow> roleRuntimeConfig" where
  "resolveRuntime w memberId =
     (let member = getMember memberId;
          saved = roleConfig w memberId;
          provider = (case saved of
                        Some c \<Rightarrow> rc_provider c
                      | None \<Rightarrow> (case member of Some m \<Rightarrow> cm_defaultProvider m | None \<Rightarrow> OpenAI));
          roleDefault = (case member of
                           None \<Rightarrow> getDefaultModelForProvider provider
                         | Some m \<Rightarrow> if provider = cm_defaultProvider m then cm_defaultModel m
                                     else getDefaultModelForProvider provider);
          savedModel = (case saved of Some c \<Rightarrow> trim (rc_model c) | None \<Rightarrow> [])
      in \<lparr> rc_provider = provider,
           rc_model = (if savedModel \<noteq> [] then savedModel
                       else if roleDefault \<noteq> [] then roleDefault else DEFAULT_OPENAI_MODEL),
           rc_apiKey = (case saved of Some c \<Rightarrow> trim (rc_apiKey c) | None \<Rightarrow> []),
           rc_baseUrl = (case saved of Some c \<Rightarrow> trim (rc_baseUrl c) | None \<Rightarrow> []) \<rparr>)"

definition appendLog :: "env \<Rightarrow> workflowPhase \<Rightarrow> jsstring \<Rightarrow> jsstring \<Rightarrow> world \<Rightarrow> world" where
  "appendLog e currentPhase message threadId w =
     advance (w \<lparr> activityLogs :=
       take 140 (\<lparr> al_id = makeId e (tick w), al_threadId = threadId,
                    al_createdAt = e_isoNow e (tick w), al_phase = currentPhase,
                    al_message = message \<rparr> # activityLogs w) \<rparr>)"

definition appendMeetingTurn ::
  "env \<Rightarrow> jsstring \<Rightarrow> room \<Rightarrow> jsstring \<Rightarrow> jsstring \<Rightarrow> jsstring \<Rightarrow> turnSource \<Rightarrow> jsstring \<Rightarrow>
   world \<Rightarrow> world" where
  "appendMeetingTurn e sessionId room speakerId speakerName text source threadId w =
     advance (w \<lparr> meetingTurns :=
       take 320 (\<lparr> mt_id = makeId e (tick w), mt_threadId = threadId,
           mt_sessionId = sessionId,
                    mt_room = room, mt_speakerId = speakerId, mt_speakerName = speakerName,
                    mt_text = text, mt_createdAt = e_isoNow e (tick w), mt_source = source \<rparr>
                 # meetingTurns w) \<rparr>)"

text \<open>\<open>upsertActionPlan\<close> on the state,
    with the id and the time read from the environment.\<close>

definition upsertPlan ::
  "env \<Rightarrow> jsstring \<Rightarrow> jsstring \<Rightarrow> planSource \<Rightarrow> jsstring \<Rightarrow> world \<Rightarrow> world" where
  "upsertPlan e memberId plan source threadId w =
     advance (w \<lparr> actionPlans :=
       upsertActionPlan memberId plan source threadId (makeId e (tick w)) (e_isoNow e (tick w))
         (actionPlans w) \<rparr>)"

definition getProxyAuthToken :: "env \<Rightarrow> world \<Rightarrow> jsstring \<times> world" where
  "getProxyAuthToken e w =
     (if e_uid e = None \<or> e_devMock e then ([], w)
      else ((case e_idToken e (tick w) of None \<Rightarrow> [] | Some token \<Rightarrow> token),
          advance w))"

definition updateThreadTitle :: "env \<Rightarrow> jsstring \<Rightarrow> jsstring \<Rightarrow> world \<Rightarrow> world" where
  "updateThreadTitle e threadId title w =
     advance (w \<lparr> threads :=
       map (\<lambda>item. if th_id item = threadId
                    then item \<lparr> th_title := title,
                        th_updatedAt := e_isoNow e (tick w) \<rparr>
                    else item) (threads w) \<rparr>)"

definition CEO_HOBBY :: jsstring where
  "CEO_HOBBY = js ''CEO-HOBBY''"

text \<open>
  \<open>setMembersToDesk\<close>,
      always called with a status factory. A member that has no entry yet
  gets one from the fields the function writes.
\<close>

definition setMembersToDesk ::
  "jsstring list \<Rightarrow> bool \<Rightarrow> (jsstring \<Rightarrow> jsstring) \<Rightarrow> world \<Rightarrow> world" where
  "setMembersToDesk memberIds active statusFactory w =
     w \<lparr> agents := (\<lambda>memberId.
            if memberId \<in> set memberIds \<and> getMember memberId \<noteq> None
            then Some \<lparr> ag_zone = (if memberId = CEO_HOBBY then CeoZone else Desk),
                        ag_status = statusFactory memberId, ag_active = active \<rparr>
            else agents w memberId) \<rparr>"

definition moveMembersToRoom :: "jsstring list \<Rightarrow> room \<Rightarrow> jsstring \<Rightarrow> world \<Rightarrow> world" where
  "moveMembersToRoom memberIds room status w =
     w \<lparr> agents := (\<lambda>memberId.
            if memberId \<in> set memberIds \<and> agents w memberId \<noteq> None
            then Some \<lparr> ag_zone = (case room of BrainstormingRoom \<Rightarrow> BrainstormingZone
                                              | CollaborationRoom \<Rightarrow> CollaborationZone),
                        ag_status = status, ag_active = True \<rparr>
            else agents w memberId) \<rparr>"

definition moveReportersToCEO :: "jsstring list \<Rightarrow> world \<Rightarrow> world" where
  "moveReportersToCEO memberIds w =
     w \<lparr> agents := (\<lambda>memberId.
            if memberId \<in> set memberIds \<and> agents w memberId \<noteq> None
            then Some \<lparr> ag_zone = CeoZone, ag_status = (js ''CEO '' @ [0xBCF4, 0xACE0, 0x20,
                0xC804, 0xB2EC]), ag_active = True \<rparr>
            else agents w memberId) \<rparr>"

fun randomStatusByDepartment :: "jsstring \<Rightarrow> jsstring" where
  "randomStatusByDepartment department =
     (if department = js ''Product'' then [0xC6B0, 0xC120, 0xC21C, 0xC704, 0x20, 0xC815, 0xB82C]
      else if department = js ''Engineering'' then [0xCF54, 0xB4DC, 0x2F, 0xD14C, 0xC2A4, 0xD2B8,
          0x20, 0xC218, 0xD589]
      else if department = js ''Design'' then (js ''UI '' @ [0xBA85, 0xC138, 0x20, 0xAC80, 0xC99D])
      else if department = js ''Governance'' then [0xC815, 0xCC45, 0x20, 0xB9AC, 0xC2A4, 0xD06C,
          0x20, 0xC810, 0xAC80]
      else if department = js ''Growth'' then [0xD655, 0xC0B0, 0x20, 0xC2DC, 0xB098, 0xB9AC,
          0xC624, 0x20, 0xC810, 0xAC80]
      else if department = js ''Strategy'' then [0xC2DC, 0xC7A5, 0x20, 0xB370, 0xC774, 0xD130,
          0x20, 0xBD84, 0xC11D]
      else [0xC5C5, 0xBB34, 0x20, 0xCC98, 0xB9AC])"

definition addLocalMessage :: "env \<Rightarrow> officeMessage \<Rightarrow> world \<Rightarrow> world" where
  "addLocalMessage e message w =
     advance (w \<lparr> localMessages :=
       localMessages w @ [message \<lparr> om_id := js ''local-'' @ makeId e (tick w),
           om_source := Local \<rparr>] \<rparr>)"

definition addLocalReport :: "env \<Rightarrow> reportItem \<Rightarrow> world \<Rightarrow> world" where
  "addLocalReport e report w =
     advance (w \<lparr> localReports :=
       report \<lparr> rp_id := js ''local-'' @ makeId e (tick w),
           rp_source := Local \<rparr> # localReports w \<rparr>)"

text \<open>
  \<open>persistOfficeMessage\<close> and \<open>persistReport\<close>: the payload comes without id and source; the
  local copy gets the time read at the start, the document of the store the server's.
\<close>

definition persistOfficeMessage :: "env \<Rightarrow> officeMessage \<Rightarrow> world \<Rightarrow> world" where
  "persistOfficeMessage e payload w =
     (let createdAt = e_isoNow e (tick w); w1 = advance w in
      if e_uid e = None then addLocalMessage e (payload \<lparr> om_createdAt := createdAt \<rparr>) w1
      else if e_addDoc e (tick w1)
        then advance (w1 \<lparr> cloudMessageDocs :=
               cloudMessageDocs w1 @ [payload \<lparr> om_id := [], om_createdAt := [],
                   om_source := Cloud \<rparr>] \<rparr>)
      else addLocalMessage e (payload \<lparr> om_createdAt := createdAt \<rparr>) (advance w1))"

definition persistReport :: "env \<Rightarrow> reportItem \<Rightarrow> world \<Rightarrow> world" where
  "persistReport e payload w =
     (if e_uid e = None then addLocalReport e payload w
      else if e_addDoc e (tick w)
        then advance (w \<lparr> cloudReportDocs :=
               cloudReportDocs w @ [payload \<lparr> rp_id := [], rp_createdAt := [],
                   rp_source := Cloud \<rparr>] \<rparr>)
      else addLocalReport e payload (advance w))"

text \<open>The size of a text file is the length of its UTF-8 encoding.\<close>

fun utf8Length :: "jsstring \<Rightarrow> nat" where
  "utf8Length [] = 0"
| "utf8Length [c] = (if c < 0x80 then 1 else if c < 0x800 then 2 else 3)"
| "utf8Length (c # d # rest) =
     (if c < 0x80 then 1 + utf8Length (d # rest)
      else if c < 0x800 then 2 + utf8Length (d # rest)
      else if 0xD800 \<le> c \<and> c < 0xDC00 \<and> 0xDC00 \<le> d \<and> d < 0xE000 then 4 + utf8Length rest
      else 3 + utf8Length (d # rest))"

definition safeNameOf :: "jsstring \<Rightarrow> jsstring" where
  "safeNameOf name =
     map (\<lambda>c. if (97 \<le> c \<and> c \<le> 122) \<or> (65 \<le> c \<and> c \<le> 90) \<or> (48 \<le> c \<and> c \<le> 57)
                  \<or> c = 0x2E \<or> c = 0x5F \<or> c = 0x2D
               then c else 0x5F) name"

definition uploadFileAsset :: "env \<Rightarrow> jsFile \<Rightarrow> jsstring \<Rightarrow> world \<Rightarrow> (jsstring + fileAsset) \<times> world" where
  "uploadFileAsset e file category w =
     (let t = tick w;
          mimeType = (if f_type file \<noteq> [] then f_type file else js ''application/octet-stream'')
      in case e_uid e of
           None \<Rightarrow>
             (Inr \<lparr> fa_id = makeId e t, fa_name = f_name file, fa_url = e_objectUrl e t,
                    fa_mimeType = mimeType, fa_size = f_size file, fa_uploadedAt = e_isoNow e t,
                    fa_source = Local, fa_path = None \<rparr>, advance w)
         | Some uid \<Rightarrow>
             (let storagePath = js ''hobbytan-office/'' @ uid @ js ''/'' @ category @ js ''/''
                    @ showNat (e_dateNow e t) @ js ''-'' @ safeNameOf (f_name file)
              in case e_upload e t of
                   Inl message \<Rightarrow> (Inl message, advance w)
                 | Inr url \<Rightarrow>
                     (Inr \<lparr> fa_id = makeId e t, fa_name = f_name file, fa_url = url,
                            fa_mimeType = mimeType, fa_size = f_size file,
                            fa_uploadedAt = e_isoNow e t, fa_source = Cloud,
                            fa_path = Some storagePath \<rparr>, advance w)))"

definition uploadTextAsset ::
  "env \<Rightarrow> jsstring \<Rightarrow> jsstring \<Rightarrow> jsstring \<Rightarrow> jsstring \<Rightarrow> world \<Rightarrow> (jsstring + fileAsset) \<times> world" where
  "uploadTextAsset e content filename category mimeType w =
     (let normalizedMimeType =
            (if prefix (js ''text/'') mimeType
                \<and> \<not> includes_str (toLowerCaseAscii mimeType) (js ''charset='')
             then mimeType @ js ''; charset=utf-8'' else mimeType)
      in uploadFileAsset e
           \<lparr> f_name = filename, f_type = normalizedMimeType,
             f_size = utf8Length (0xFEFF # content) \<rparr> category w)"

text \<open>
  \<open>requestLlmText\<close>: one \<open>fetch\<close> to the proxy. The result is \<open>Inl\<close> the message of the error
  thrown, or \<open>Inr\<close> the trimmed text.
\<close>

definition requestLlmText :: "env \<Rightarrow> llmTextRequest \<Rightarrow> world \<Rightarrow> (jsstring + jsstring) \<times> world" where
  "requestLlmText e request w =
     (let w1 = advance (w \<lparr> llmCalls := llmCalls w @ [request] \<rparr>) in
      case e_fetch e (tick w) request of
        ProxyRejected message \<Rightarrow> (Inl message, w1)
      | ProxyNotOk status errorBody \<Rightarrow>
          (Inl (js ''Proxy LLM request failed ('' @ showNat status @ js ''): '' @ errorBody), w1)
      | ProxyUnreadable message \<Rightarrow> (Inl message, w1)
      | ProxyPayload None \<Rightarrow> (Inl (js ''Proxy LLM response did not contain output text.''), w1)
      | ProxyPayload (Some text) \<Rightarrow>
          if blank text then (Inl (js ''Proxy LLM response did not contain output text.''), w1)
          else (Inr (trim text), w1))"

text \<open>
  \<open>toUpperCase\<close>, used on participant ids before they are looked up in the roster. The
  model is exact where the result is ASCII: the ASCII letters, and the ten characters outside
  ASCII whose upper case is ASCII (dotless i, long s, sharp s and the Latin ligatures). Every
  other character is left as it is; its upper case is not ASCII either, so the lookup of the
  result among the ASCII ids of the roster is the same.
\<close>

definition upperUnit :: "nat \<Rightarrow> jsstring" where
  "upperUnit c =
     (if 97 \<le> c \<and> c \<le> 122 then [c - 32]
      else if c = 0x131 then js ''I''
      else if c = 0x17F then js ''S''
      else if c = 0xDF then js ''SS''
      else if c = 0xFB00 then js ''FF''
      else if c = 0xFB01 then js ''FI''
      else if c = 0xFB02 then js ''FL''
      else if c = 0xFB03 then js ''FFI''
      else if c = 0xFB04 then js ''FFL''
      else if c = 0xFB05 \<or> c = 0xFB06 then js ''ST''
      else [c])"

definition toUpperCase :: "jsstring \<Rightarrow> jsstring" where
  "toUpperCase s = concat (map upperUnit s)"

text \<open>\<open>Array.from(new Set(xs))\<close>: the first occurrence of each element,
    in order.\<close>

definition uniqueInOrder :: "'a list \<Rightarrow> 'a list" where
  "uniqueInOrder xs = rev (remdups (rev xs))"

section \<open>The steps of a workflow (src/App.tsx)\<close>

definition ATTENDANT_TAN :: jsstring where
  "ATTENDANT_TAN = js ''ATTENDANT-TAN''"

definition PO_TAN :: jsstring where
  "PO_TAN = js ''PO-TAN''"

definition PM_TAN :: jsstring where
  "PM_TAN = js ''PM-TAN''"

definition nonCeoMembers :: "jsstring list" where
  "nonCeoMembers = map cm_id (filter (\<lambda>member. cm_id member \<noteq> CEO_HOBBY) COUNCIL_MEMBERS)"

definition rosterText :: jsstring where
  "rosterText =
     join [0x0A]
       (map (\<lambda>member. cm_id member @ js '': '' @ cm_identityPrompt member)
          (filter (\<lambda>member. cm_id member \<noteq> CEO_HOBBY) COUNCIL_MEMBERS))"

definition offlineBrainstorm :: brainstormPlan where
  "offlineBrainstorm =
     \<lparr> bs_strategy =
         ([0xC624, 0xD504, 0xB77C, 0xC778, 0x20, 0xC804, 0xB7B5] @ js '': ATTENDANT-TAN'' @
             [0xC774] @ js '' PM/PO/DEV/UX/QA/LEGAL '' @ [0xC911, 0xC2EC, 0xC73C, 0xB85C, 0x20,
                 0x33, 0xB2E8, 0xACC4, 0x20, 0xC2E4, 0xD589, 0xC548, 0xC744, 0x20, 0xAD6C, 0xC131,
                     0xD558, 0xACE0] @ js '' CEO'' @ [0xC5D0, 0x20, 0xB2E8, 0xACC4, 0xBCC4, 0x20,
                         0xBCF4, 0xACE0, 0xD55C, 0xB2E4, 0x2E]),
       bs_participants = DEFAULT_COLLABORATION_TEAM,
       bs_handoff = ([0xD611, 0xC5C5, 0xC2E4, 0xC5D0, 0xC11C, 0x20, 0xC138, 0xBD80, 0x20, 0xC2E4,
           0xD589, 0xC548, 0x20, 0xC791, 0xC131, 0x20, 0xD6C4, 0x20, 0xB2F4, 0xB2F9, 0xC790,
               0xBCC4, 0x20, 0xC0B0, 0xCD9C, 0xBB3C, 0xC744] @ js '' CEO '' @ [0xC88C, 0xC11D,
                   0xC73C, 0xB85C, 0x20, 0xC804, 0xB2EC]) \<rparr>"

definition brainstormRequest :: "world \<Rightarrow> jsstring \<Rightarrow> jsstring \<Rightarrow> llmTextRequest" where
  "brainstormRequest w task authToken =
     (let runtime = resolveRuntime w ATTENDANT_TAN in
      \<lparr> lr_provider = rc_provider runtime, lr_model = rc_model runtime,
        lr_input =
          join [0x0A]
            [(js ''CEO '' @ [0xC9C0, 0xC2DC, 0x3A, 0x20]) @ task,
             [0xA, 0xCC38, 0xC5EC, 0x20, 0xAC00, 0xB2A5, 0xD55C, 0x20, 0xAD6C, 0xC131, 0xC6D0,
                 0x2F, 0xC815, 0xCCB4, 0xC131, 0x3A],
             rosterText,
             [0xA, 0xBC18, 0xD658, 0x20, 0xD615, 0xC2DD, 0x3A],
             ([0x7B, 0x22] @ js ''strategy'' @ [0x22, 0x3A, 0x22, 0xBB38, 0xC7A5, 0x22, 0x2C,
                 0x22] @ js ''participants'' @ [0x22, 0x3A, 0x5B, 0x22] @ js ''PO-TAN'' @ [0x22,
                     0x5D, 0x2C, 0x22] @ js ''handoff'' @ [0x22, 0x3A, 0x22, 0xBB38, 0xC7A5, 0x22,
                         0x7D])],
        lr_instructions = ([0xB2F9, 0xC2E0, 0xC740] @ js '' HOBBYTAN Council '' @ [0xC870, 0xC815,
            0xC790, 0xB2E4, 0x2E, 0x20, 0xBC18, 0xB4DC, 0xC2DC] @ js '' JSON '' @ [0xAC1D, 0xCCB4,
                0xB9CC, 0x20, 0xC751, 0xB2F5, 0xD558, 0xB77C, 0x2E, 0x20, 0xCF54, 0xB4DC, 0xBE14,
                    0xB85D, 0x20, 0xAE08, 0xC9C0, 0x2E]),
        lr_maxOutputTokens = Some 700, lr_temperature = Some 0.35,
        lr_baseUrl = rc_baseUrl runtime, lr_useWebSearch = False,
            lr_authToken = authToken \<rparr>)"

text \<open>The plan read from a parsed response that is truthy.\<close>

definition planFromParsed :: "json \<Rightarrow> brainstormPlan" where
  "planFromParsed parsed =
     \<lparr> bs_strategy =
         (case getField (js ''strategy'') parsed of
            Some (JStr s) \<Rightarrow>
              if \<not> blank s then trim s
              else [0xC804, 0xB7B5, 0x20, 0xCD08, 0xC548, 0xC774, 0x20, 0xC0DD, 0xC131, 0xB418,
                  0xC5C8, 0xC9C0, 0xB9CC, 0x20, 0xC694, 0xC57D, 0xC774, 0x20, 0xBE44, 0xC5B4, 0x20,
                      0xC788, 0xC5B4, 0x20, 0xAE30, 0xBCF8, 0x20, 0xD50C, 0xB79C, 0xC744, 0x20,
                          0xC0AC, 0xC6A9, 0xD569, 0xB2C8, 0xB2E4, 0x2E]
          | other \<Rightarrow> [0xC804, 0xB7B5, 0x20, 0xCD08, 0xC548, 0xC774, 0x20, 0xC0DD,
              0xC131, 0xB418, 0xC5C8, 0xC9C0, 0xB9CC, 0x20, 0xC694, 0xC57D, 0xC774, 0x20, 0xBE44,
                  0xC5B4, 0x20, 0xC788, 0xC5B4, 0x20, 0xAE30, 0xBCF8, 0x20, 0xD50C, 0xB79C, 0xC744,
                      0x20, 0xC0AC, 0xC6A9, 0xD569, 0xB2C8, 0xB2E4, 0x2E]),
       bs_participants =
         (case getField (js ''participants'') parsed of
            Some (JArr items) \<Rightarrow> filter (\<lambda>s. s \<noteq> []) (map (\<lambda>item. trim (jsString item)) items)
          | other \<Rightarrow> DEFAULT_COLLABORATION_TEAM),
       bs_handoff =
         (case getField (js ''handoff'') parsed of
            Some (JStr s) \<Rightarrow>
              if \<not> blank s then trim s else ([0xD611, 0xC5C5, 0xC2E4, 0x20, 0xB17C, 0xC758,
                  0x20, 0xC885, 0xB8CC, 0x20, 0xD6C4] @ js '' CEO'' @ [0xC5D0, 0xAC8C, 0x20,
                      0xCD5C, 0xC885, 0x20, 0xB9AC, 0xD3EC, 0xD2B8, 0x20, 0xC804, 0xB2EC])
          | other \<Rightarrow> ([0xD611, 0xC5C5, 0xC2E4, 0x20, 0xB17C, 0xC758, 0x20, 0xC885,
              0xB8CC, 0x20, 0xD6C4] @ js '' CEO'' @ [0xC5D0, 0xAC8C, 0x20, 0xCD5C, 0xC885, 0x20,
                  0xB9AC, 0xD3EC, 0xD2B8, 0x20, 0xC804, 0xB2EC])) \<rparr>"

text \<open>
  The test \<open>!parsed\<close> sends the \<open>null\<close> of a failed parse and every falsy value that
  \<open>JSON.parse\<close> returns to the same branch.
\<close>

definition unparsedPlan :: "jsstring \<Rightarrow> brainstormPlan" where
  "unparsedPlan text =
     \<lparr> bs_strategy = text, bs_participants = DEFAULT_COLLABORATION_TEAM,
       bs_handoff = ([0xD611, 0xC5C5, 0xC2E4, 0x20, 0xC138, 0xC158, 0x20, 0xD6C4, 0x20, 0xB2F4,
           0xB2F9, 0xC790, 0xAC00] @ js '' CEO'' @ [0xC5D0, 0xAC8C, 0x20, 0xBCF4, 0xACE0]) \<rparr>"

definition runBrainstorm :: "env \<Rightarrow> jsstring \<Rightarrow> world \<Rightarrow> (jsstring + brainstormPlan) \<times> world" where
  "runBrainstorm e task w =
     (let (authToken, w1) = getProxyAuthToken e w in
      if authToken = [] then (Inr offlineBrainstorm, w1)
      else
        (case requestLlmText e (brainstormRequest w task authToken) w1 of
           (Inl message, w2) \<Rightarrow> (Inl message, w2)
         | (Inr text, w2) \<Rightarrow>
             (case tryParseJson (e_jsonParse e) text of
                None \<Rightarrow> (Inr (unparsedPlan text), w2)
              | Some parsed \<Rightarrow>
                  if \<not> truthy parsed then (Inr (unparsedPlan text), w2)
                  else (Inr (planFromParsed parsed), w2))))"

definition poRequest ::
  "world \<Rightarrow> jsstring \<Rightarrow> jsstring \<Rightarrow> jsstring \<Rightarrow> jsstring \<Rightarrow> llmTextRequest" where
  "poRequest w task strategy participantText authToken =
     (let poRuntime = resolveRuntime w PO_TAN in
      \<lparr> lr_provider = rc_provider poRuntime, lr_model = rc_model poRuntime,
        lr_input =
          join [0x0A, 0x0A]
            [(js ''CEO '' @ [0xC9C0, 0xC2DC, 0x3A, 0x20]) @ task,
             [0xBE0C, 0xB808, 0xC778, 0xC2A4, 0xD1A0, 0xBC0D, 0x20, 0xC804, 0xB7B5, 0x3A, 0x20] @
                 strategy,
             [0xD611, 0xC5C5, 0x20, 0xCC38, 0xC5EC, 0xC790, 0x3A, 0x20] @ participantText,
             ([0xC5ED, 0xD560, 0x3A, 0x20, 0xCC38, 0xC5EC, 0xC790, 0xBCC4, 0x20, 0xC5C5, 0xBB34,
                 0x20, 0xBC30, 0xC815] @ js '' + '' @ [0xC6B0, 0xC120, 0xC21C, 0xC704] @
                     js '' + '' @ [0xC2B9, 0xC778, 0xAE30, 0xC900, 0xC744, 0x20, 0xC81C, 0xC2DC,
                         0xD558, 0xB77C, 0x2E]),
             [0xD615, 0xC2DD, 0x3A, 0x20, 0xB2F4, 0xB2F9, 0xC790, 0xBCC4, 0x20, 0xD56D, 0xBAA9,
                 0xC744, 0x20, 0xD3EC, 0xD568, 0xD55C, 0x20, 0xAC04, 0xACB0, 0xD55C, 0x20, 0xC2E4,
                     0xD589, 0x20, 0xC9C0, 0xC2DC, 0xBB38]],
        lr_instructions =
          (case getMember PO_TAN of
             Some poMember \<Rightarrow>
               if cm_identityPrompt poMember \<noteq> [] then cm_identityPrompt poMember
               else ([0xB2F9, 0xC2E0, 0xC740] @ js '' PO-TAN'' @ [0xC774, 0xB2E4, 0x2E, 0x20,
                   0xC6B0, 0xC120, 0xC21C, 0xC704, 0x20, 0xAE30, 0xC900, 0xC73C, 0xB85C, 0x20,
                       0xC5C5, 0xBB34, 0xB97C, 0x20, 0xBC30, 0xC815, 0xD55C, 0xB2E4, 0x2E])
           | None \<Rightarrow> ([0xB2F9, 0xC2E0, 0xC740] @ js '' PO-TAN'' @ [0xC774, 0xB2E4, 0x2E,
               0x20, 0xC6B0, 0xC120, 0xC21C, 0xC704, 0x20, 0xAE30, 0xC900, 0xC73C, 0xB85C, 0x20,
                   0xC5C5, 0xBB34, 0xB97C, 0x20, 0xBC30, 0xC815, 0xD55C, 0xB2E4, 0x2E])),
        lr_maxOutputTokens = Some 700, lr_temperature = Some 0.35,
        lr_baseUrl = rc_baseUrl poRuntime, lr_useWebSearch = False,
            lr_authToken = authToken \<rparr>)"

definition pmRequest ::
  "world \<Rightarrow> jsstring \<Rightarrow> jsstring \<Rightarrow> jsstring \<Rightarrow> jsstring \<Rightarrow> llmTextRequest" where
  "pmRequest w task strategy poPlan authToken =
     (let pmRuntime = resolveRuntime w PM_TAN in
      \<lparr> lr_provider = rc_provider pmRuntime, lr_model = rc_model pmRuntime,
        lr_input =
          join [0x0A, 0x0A]
            [(js ''CEO '' @ [0xC9C0, 0xC2DC, 0x3A, 0x20]) @ task,
             [0xBE0C, 0xB808, 0xC778, 0xC2A4, 0xD1A0, 0xBC0D, 0x20, 0xC804, 0xB7B5, 0x3A, 0x20] @
                 strategy,
             (js ''PO '' @ [0xBC30, 0xC815, 0xC548, 0x3A, 0x20]) @ poPlan,
             ([0xC5ED, 0xD560, 0x3A, 0x20, 0xB2F4, 0xB2F9, 0xC790, 0xBCC4, 0x20, 0xC77C, 0xC815] @
                 js ''/WBS, '' @ [0xC758, 0xC874, 0xC131, 0x2C, 0x20, 0xC644, 0xB8CC, 0x20, 0xC870,
                     0xAC74, 0x2C, 0x20, 0xB9AC, 0xC2A4, 0xD06C, 0x20, 0xC644, 0xD654, 0x20,
                         0xC21C, 0xC11C, 0xB97C, 0x20, 0xBA85, 0xC2DC, 0xD558, 0xB77C, 0x2E])],
        lr_instructions =
          (case getMember PM_TAN of
             Some pmMember \<Rightarrow>
               if cm_identityPrompt pmMember \<noteq> [] then cm_identityPrompt pmMember
               else ([0xB2F9, 0xC2E0, 0xC740] @ js '' PM-TAN'' @ [0xC774, 0xB2E4, 0x2E, 0x20,
                   0xC77C, 0xC815, 0xACFC, 0x20, 0xBCD1, 0xBAA9, 0xC744, 0x20, 0xAD00, 0xB9AC,
                       0xD55C, 0xB2E4, 0x2E])
           | None \<Rightarrow> ([0xB2F9, 0xC2E0, 0xC740] @ js '' PM-TAN'' @ [0xC774, 0xB2E4, 0x2E,
               0x20, 0xC77C, 0xC815, 0xACFC, 0x20, 0xBCD1, 0xBAA9, 0xC744, 0x20, 0xAD00, 0xB9AC,
                   0xD55C, 0xB2E4, 0x2E])),
        lr_maxOutputTokens = Some 700, lr_temperature = Some 0.35,
        lr_baseUrl = rc_baseUrl pmRuntime, lr_useWebSearch = False,
            lr_authToken = authToken \<rparr>)"

definition offlinePoPlan :: "jsstring \<Rightarrow> jsstring" where
  "offlinePoPlan participantText =
     (js ''PO-TAN '' @ [0xBC30, 0xC815, 0xC548, 0x28, 0xC624, 0xD504, 0xB77C, 0xC778] @
         js ''): '') @ participantText
       @ [0x20, 0xAE30, 0xC900, 0xC73C, 0xB85C, 0x20, 0xACE0, 0xAC1D, 0xAC00, 0xCE58, 0x2F, 0xB9AC,
           0xC2A4, 0xD06C, 0x20, 0xAE30, 0xBC18, 0x20, 0xC6B0, 0xC120, 0xC21C, 0xC704, 0xB97C,
               0x20, 0xC9C0, 0xC815]"

definition offlinePmPlan :: jsstring where
  "offlinePmPlan = (js ''PM-TAN '' @ [0xC77C, 0xC815, 0xC548, 0x28, 0xC624, 0xD504, 0xB77C,
      0xC778] @ js ''): '' @ [0xB2F4, 0xB2F9, 0xC790, 0xBCC4] @ js '' D1~D5 '' @ [0xB9C8, 0xC77C,
          0xC2A4, 0xD1A4, 0xACFC, 0x20, 0xC758, 0xC874, 0xC131, 0x20, 0xAD00, 0xB9AC])"

text \<open>The result is the pair of \<open>poPlan\<close> and \<open>pmPlan\<close>.\<close>

definition runPoPmManagementPlan ::
  "env \<Rightarrow> jsstring \<Rightarrow> jsstring \<Rightarrow> jsstring list \<Rightarrow> world \<Rightarrow>
   (jsstring + jsstring \<times> jsstring) \<times> world" where
  "runPoPmManagementPlan e task strategy participants w =
     (let (authToken, w1) = getProxyAuthToken e w;
          participantText = join (js '', '') participants
      in if authToken = [] then (Inr (offlinePoPlan participantText, offlinePmPlan), w1)
         else
           (case requestLlmText e (poRequest w task strategy participantText authToken) w1 of
              (Inl message, w2) \<Rightarrow> (Inl message, w2)
            | (Inr poPlan, w2) \<Rightarrow>
                (case requestLlmText e (pmRequest w task strategy poPlan authToken) w2 of
                   (Inl message, w3) \<Rightarrow> (Inl message, w3)
                 | (Inr pmPlan, w3) \<Rightarrow> (Inr (poPlan, pmPlan), w3))))"

definition collaborationInput :: "jsstring \<Rightarrow> jsstring \<Rightarrow> jsstring \<Rightarrow> jsstring \<Rightarrow> jsstring" where
  "collaborationInput task strategy managementContext priorDialogue =
     join [0x0A, 0x0A]
       [(js ''CEO '' @ [0xC9C0, 0xC2DC, 0x3A, 0x20]) @ task,
        [0xBE0C, 0xB808, 0xC778, 0xC2A4, 0xD1A0, 0xBC0D, 0x20, 0xC804, 0xB7B5, 0x3A, 0x20] @
            strategy,
        (js ''PO/PM '' @ [0xAD00, 0xB9AC, 0x20, 0xBC30, 0xC815, 0xC548, 0x3A, 0x20]) @
            (if managementContext \<noteq> [] then managementContext else [0xC5C6, 0xC74C]),
        [0xC774, 0xC804, 0x20, 0xBC1C, 0xC5B8, 0x20, 0xAE30, 0xB85D, 0x28, 0xBA3C, 0xC800, 0x20,
            0xB9D0, 0xD55C, 0x20, 0xC5D0, 0xC774, 0xC804, 0xD2B8, 0xC758, 0x20, 0xBC1C, 0xC5B8,
                0xC744, 0x20, 0xBC18, 0xB4DC, 0xC2DC, 0x20, 0xBC18, 0xC601, 0xD560, 0x20, 0xAC83,
                    0x29, 0x3A],
        (if priorDialogue \<noteq> [] then priorDialogue else [0xC544, 0xC9C1, 0x20, 0xBC1C,
            0xC5B8, 0x20, 0xC5C6, 0xC74C]),
        ([0xB2F9, 0xC2E0, 0x20, 0xCC28, 0xB840, 0x3A, 0x20, 0xC55E, 0xC120, 0x20, 0xBC1C, 0xC5B8,
            0xC744, 0x20, 0xC774, 0xC5B4, 0xBC1B, 0xC544, 0x20, 0xC561, 0xC158, 0x20, 0x32,
                0xAC1C] @ js '' + '' @ [0xB9AC, 0xC2A4, 0xD06C, 0x2F, 0xB300, 0xC751, 0x20, 0x31,
                    0xAC1C] @ js '' + '' @ [0xB2E4, 0xC74C, 0x20, 0xB2F4, 0xB2F9, 0xC790, 0xC5D0,
                        0xAC8C, 0x20, 0xB118, 0xAE38, 0x20, 0xD55C, 0x20, 0xC904, 0xC744, 0x20,
                            0xC81C, 0xC2DC, 0xD558, 0xB77C, 0x2E])]"

definition collaborationRequest ::
  "world \<Rightarrow> councilMember \<Rightarrow> jsstring \<Rightarrow> jsstring \<Rightarrow> jsstring \<Rightarrow> jsstring \<Rightarrow> jsstring \<Rightarrow>
   llmTextRequest" where
  "collaborationRequest w member task strategy managementContext priorDialogue authToken =
     (let runtime = resolveRuntime w (cm_id member) in
      \<lparr> lr_provider = rc_provider runtime, lr_model = rc_model runtime,
        lr_input = collaborationInput task strategy managementContext priorDialogue,
        lr_instructions = cm_identityPrompt member,
        lr_maxOutputTokens = Some 700, lr_temperature = Some 0.45,
        lr_baseUrl = rc_baseUrl runtime,
        lr_useWebSearch = (cm_id member = js ''RESEARCHER-TAN''),
        lr_authToken = authToken \<rparr>)"

definition offlineNote :: "councilMember \<Rightarrow> jsstring \<Rightarrow> jsstring" where
  "offlineNote member task =
     [0xC624, 0xD504, 0xB77C, 0xC778, 0x20, 0xC81C, 0xC548, 0x3A, 0x20] @ cm_role member @ [0x20,
         0xAD00, 0xC810, 0xC5D0, 0xC11C, 0x20, 0x27] @ task
       @ ([0x27, 0x20, 0xC2E4, 0xD589, 0xC744, 0x20, 0xC704, 0xD55C, 0x20, 0xD575, 0xC2EC, 0x20,
           0x32, 0xB2E8, 0xACC4, 0x20, 0xC561, 0xC158, 0x2C, 0x20, 0xB9AC, 0xC2A4, 0xD06C, 0x20,
               0x31, 0xAC1C] @ js '', CEO '' @ [0xD655, 0xC778, 0x20, 0xD3EC, 0xC778, 0xD2B8, 0x20,
                   0x31, 0xAC1C, 0xB97C, 0x20, 0xC81C, 0xC548, 0xD569, 0xB2C8, 0xB2E4, 0x2E])"

definition failureNote :: "jsstring \<Rightarrow> jsstring" where
  "failureNote message = [0xD638, 0xCD9C, 0x20, 0xC2E4, 0xD328, 0xB85C, 0x20, 0xAE30, 0xBCF8, 0x20,
      0xC81C, 0xC548, 0x20, 0xC0AC, 0xC6A9, 0x3A, 0x20] @ message"

text \<open>The note of a turn from the result of its request: the \<open>catch\<close> gives the substitute.\<close>

definition noteOfResult :: "jsstring + jsstring \<Rightarrow> jsstring" where
  "noteOfResult r = (case r of Inr text \<Rightarrow> text | Inl message \<Rightarrow> failureNote message)"

text \<open>
  The state of the loop of \<open>runCollaboration\<close>: the prior dialogue, the notes,
      the transcript
  and the state of the application.
\<close>

record collaborationLoop =
  cl_priorDialogue :: jsstring
  cl_notes :: "collaborationNote list"
  cl_transcript :: "meetingTurn list"
  cl_world :: world

text \<open>
  The note of one turn: the canned note without a credential, else the result of the
  request, whose input embeds the prior dialogue.
\<close>

definition turnNote ::
  "env \<Rightarrow> jsstring \<Rightarrow> jsstring \<Rightarrow> jsstring \<Rightarrow> jsstring \<Rightarrow> councilMember \<Rightarrow> collaborationLoop \<Rightarrow>
   jsstring \<times> world" where
  "turnNote e task strategy managementContext authToken member s =
     (if authToken = [] then (offlineNote member task, cl_world s)
      else
        (case requestLlmText e
                (collaborationRequest (cl_world s) member task strategy managementContext
                   (cl_priorDialogue s) authToken) (cl_world s) of
           (r, w') \<Rightarrow> (noteOfResult r, w')))"

text \<open>One turn of the loop, for a participant that is on the roster.\<close>

definition collaborationTurn ::
  "env \<Rightarrow> jsstring \<Rightarrow> jsstring \<Rightarrow> jsstring \<Rightarrow> jsstring \<Rightarrow> jsstring \<Rightarrow> jsstring \<Rightarrow>
   councilMember \<Rightarrow> collaborationLoop \<Rightarrow> collaborationLoop" where
  "collaborationTurn e task strategy managementContext authToken sessionId threadId member s =
     (let (note, w1) = turnNote e task strategy managementContext authToken member s;
          turn = \<lparr> mt_id = makeId e (tick w1), mt_threadId = threadId,
              mt_sessionId = sessionId,
                   mt_room = CollaborationRoom, mt_speakerId = cm_id member,
                   mt_speakerName = cm_displayName member, mt_text = note,
                   mt_createdAt = e_isoNow e (tick w1), mt_source = TurnWorkflow \<rparr>;
          w2 = appendMeetingTurn e sessionId CollaborationRoom (cm_id member)
                 (cm_displayName member) note TurnWorkflow threadId (advance w1);
          w3 = appendLog e Collaboration (cm_id member @ [0x20, 0xBC1C, 0xC5B8, 0x20, 0xACF5,
              0xC720, 0x20, 0xC644, 0xB8CC]) threadId w2
      in \<lparr> cl_priorDialogue = cl_priorDialogue s @ cm_id member @ js '': '' @ note @ [0x0A,
          0x0A],
           cl_notes = cl_notes s @ [\<lparr> cn_memberId = cm_id member, cn_note = note \<rparr>],
           cl_transcript = cl_transcript s @ [turn],
           cl_world = w3 \<rparr>)"

fun collaborationTurns ::
  "env \<Rightarrow> jsstring \<Rightarrow> jsstring \<Rightarrow> jsstring \<Rightarrow> jsstring \<Rightarrow> jsstring \<Rightarrow> jsstring \<Rightarrow>
   jsstring list \<Rightarrow> collaborationLoop \<Rightarrow> collaborationLoop" where
  "collaborationTurns e task strategy managementContext authToken sessionId threadId [] s = s"
| "collaborationTurns e task strategy managementContext authToken sessionId threadId
     (memberId # rest) s =
     (case getMember memberId of
        None \<Rightarrow>
          collaborationTurns e task strategy managementContext authToken sessionId threadId rest s
      | Some member \<Rightarrow>
          collaborationTurns e task strategy managementContext authToken sessionId threadId rest
            (collaborationTurn e task strategy managementContext authToken sessionId threadId
               member s))"

text \<open>The loop starts with the management context as prior dialogue, if there is one.\<close>

definition startSession :: "jsstring \<Rightarrow> world \<Rightarrow> collaborationLoop" where
  "startSession managementContext w =
     \<lparr> cl_priorDialogue =
         (if managementContext \<noteq> []
          then (js ''PO/PM '' @ [0xAD00, 0xB9AC, 0x20, 0xBC30, 0xC815, 0xC548, 0x3A, 0xA]) @
              managementContext @ [0x0A, 0x0A] else []),
       cl_notes = [], cl_transcript = [], cl_world = w \<rparr>"

definition runCollaboration ::
  "env \<Rightarrow> jsstring \<Rightarrow> jsstring \<Rightarrow> jsstring list \<Rightarrow> jsstring \<Rightarrow> world \<Rightarrow>
   collaborationSessionResult \<times> world" where
  "runCollaboration e task strategy participants managementContext w =
     (let selected = take 8 participants;
          sessionId = js ''collab-'' @ showNat (e_dateNow e (tick w));
          (authToken, w1) = getProxyAuthToken e (advance w);
          s = collaborationTurns e task strategy managementContext authToken sessionId
                (activeThreadId w) selected (startSession managementContext w1)
      in (\<lparr> cs_sessionId = sessionId, cs_notes = cl_notes s,
          cs_transcript = cl_transcript s \<rparr>,
          cl_world s))"

definition joinedPlansOf :: "actionPlanItem list \<Rightarrow> jsstring" where
  "joinedPlansOf detailedActionPlans =
     join [0x0A, 0x0A]
       (map (\<lambda>(index, plan). showNat (index + 1) @ js ''. '' @ ap_memberId plan @ js '' (''
                @ ap_memberName plan @ js '')'' @ [0x0A] @ ap_plan plan)
          (enumerate 0 detailedActionPlans))"

definition offlineReport :: "jsstring \<Rightarrow> jsstring \<Rightarrow> collaborationNote list \<Rightarrow> actionPlanItem list \<Rightarrow> jsstring" where
  "offlineReport task strategy notes detailedActionPlans =
     join [0x0A]
       ([(js ''[CEO '' @ [0xCD5C, 0xC885, 0x20, 0xBCF4, 0xACE0, 0xC11C] @ js '' - '' @ [0xC624,
           0xD504, 0xB77C, 0xC778, 0x20, 0xBAA8, 0xB4DC, 0x5D]),
         [0xC9C0, 0xC2DC, 0x20, 0xC0AC, 0xD56D, 0x3A, 0x20] @ task,
         [0xC804, 0xB7B5, 0x3A, 0x20] @ strategy,
         [0xC2E4, 0xD589, 0x20, 0xD575, 0xC2EC, 0x3A]]
        @ map (\<lambda>item. js ''- '' @ cn_memberId item @ js '': '' @ cn_note item) notes
        @ [[], (js ''TAN'' @ [0xBCC4, 0x20, 0xC561, 0xC158, 0xD50C, 0xB79C, 0x3A]),
           (if joinedPlansOf detailedActionPlans \<noteq> [] then joinedPlansOf detailedActionPlans
            else [0x2D, 0x20, 0xC5C6, 0xC74C])])"

definition finalReportRequest ::
  "world \<Rightarrow> jsstring \<Rightarrow> jsstring \<Rightarrow> collaborationNote list \<Rightarrow> actionPlanItem list \<Rightarrow> jsstring \<Rightarrow>
   llmTextRequest" where
  "finalReportRequest w task strategy notes detailedActionPlans authToken =
     (let runtime = resolveRuntime w ATTENDANT_TAN in
      \<lparr> lr_provider = rc_provider runtime, lr_model = rc_model runtime,
        lr_input =
          join [0x0A, 0x0A]
            [(js ''CEO '' @ [0xC9C0, 0xC2DC, 0x3A, 0x20]) @ task,
             [0xBE0C, 0xB808, 0xC778, 0xC2A4, 0xD1A0, 0xBC0D, 0x20, 0xC804, 0xB7B5, 0x3A, 0x20] @
                 strategy,
             [0xD611, 0xC5C5, 0xC2E4, 0x20, 0xC0B0, 0xCD9C, 0xBB3C, 0x3A],
             join [0x0A, 0x0A] (map (\<lambda>item. cn_memberId item @ js '': '' @
                 cn_note item) notes),
             (js ''TAN'' @ [0xBCC4, 0x20, 0xC561, 0xC158, 0xD50C, 0xB79C, 0x3A]),
             (if joinedPlansOf detailedActionPlans \<noteq> [] then joinedPlansOf detailedActionPlans
              else [0xC5C6, 0xC74C]),
             [0xC751, 0xB2F5, 0x20, 0xD615, 0xC2DD, 0x3A],
             (js ''1) '' @ [0xACBD, 0xC601, 0x20, 0xC694, 0xC57D] @ js ''(2~3'' @ [0xBB38, 0xB2E8,
                 0x29]),
             (js ''2) TAN'' @ [0xBCC4, 0x20, 0xC0C1, 0xC138, 0x20, 0xC561, 0xC158, 0xD50C, 0xB79C,
                 0x28, 0xB2F4, 0xB2F9, 0x2F, 0xC0B0, 0xCD9C, 0xBB3C, 0x2F, 0xC644, 0xB8CC, 0xC870,
                     0xAC74, 0x2F, 0xC608, 0xC0C1, 0xC18C, 0xC694, 0x2F, 0xC120, 0xD589, 0xC758,
                         0xC874, 0xC131, 0x29]),
             (js ''3) '' @ [0xAC1C, 0xBC1C, 0x20, 0xC2E4, 0xD589, 0xC548, 0x28, 0xAE30, 0xB2A5,
                 0x20, 0xAD6C, 0xD604, 0x20, 0xBC94, 0xC704, 0x2C, 0x20, 0xD14C, 0xC2A4, 0xD2B8,
                     0x20, 0xACC4, 0xD68D, 0x2C, 0x20, 0xD488, 0xC9C8, 0x20, 0xAC8C, 0xC774,
                         0xD2B8, 0x29]),
             (js ''4) '' @ [0xBC30, 0xD3EC, 0x20, 0xC2E4, 0xD589, 0xC548, 0x28, 0xD658, 0xACBD,
                 0x2F, 0xCCB4, 0xD06C, 0xB9AC, 0xC2A4, 0xD2B8, 0x2F, 0xB864, 0xBC31, 0x2F, 0xBAA8,
                     0xB2C8, 0xD130, 0xB9C1, 0x29]),
             (js ''5) '' @ [0xB9AC, 0xC2A4, 0xD06C, 0x2F, 0xBC95, 0xBB34] @ js ''/HR '' @ [0xAC10,
                 0xC2DC, 0x20, 0xD3EC, 0xC778, 0xD2B8]),
             (js ''6) CEO '' @ [0xC2B9, 0xC778, 0x20, 0xD544, 0xC694, 0x20, 0xD56D, 0xBAA9]),
             (js ''7) '' @ [0xC2B9, 0xC778, 0x20, 0xC9C1, 0xD6C4, 0x20, 0xB2E4, 0xC74C, 0x20,
                 0xD50C, 0xB85C, 0xC6B0, 0x28, 0xC624, 0xB298, 0x2F, 0xB0B4, 0xC77C, 0x2F, 0xC774,
                     0xBC88, 0xC8FC, 0x20, 0xC561, 0xC158, 0x29])],
        lr_instructions =
          ([0xB2F9, 0xC2E0, 0xC740] @ js '' ATTENDANT-TAN'' @ [0xC774, 0xB2E4, 0x2E, 0x20, 0xB300,
              0xD45C, 0xC5D0, 0xAC8C, 0x20, 0xC62C, 0xB9AC, 0xB294, 0x20, 0xC0C1, 0xC138, 0x20,
                  0xACBD, 0xC601, 0x20, 0xC2E4, 0xD589, 0xBCF4, 0xACE0, 0xC11C, 0xB97C, 0x20,
                      0xC791, 0xC131, 0xD55C, 0xB2E4, 0x2E, 0x20, 0xC808, 0xB300, 0x20, 0xC694,
                          0xC57D, 0xD615, 0xC73C, 0xB85C, 0x20, 0xB05D, 0xB0B4, 0xC9C0, 0x20,
                              0xB9D0, 0xACE0, 0x2C, 0x20, 0xC2E4, 0xC81C, 0x20, 0xC2E4, 0xD589,
                                  0x2F, 0xAC1C, 0xBC1C, 0x2F, 0xBC30, 0xD3EC, 0xAE4C, 0xC9C0, 0x20,
                                      0xC774, 0xC5B4, 0xC9C8, 0x20, 0xC218, 0xC900, 0xC73C, 0xB85C,
                                          0x20, 0xC0C1, 0xC138, 0xD558, 0xAC8C, 0x20, 0xC791,
                                              0xC131, 0xD55C, 0xB2E4, 0x2E]),
        lr_maxOutputTokens = Some 2400, lr_temperature = Some 0.3,
        lr_baseUrl = rc_baseUrl runtime, lr_useWebSearch = False,
            lr_authToken = authToken \<rparr>)"

definition runFinalReport ::
  "env \<Rightarrow> jsstring \<Rightarrow> jsstring \<Rightarrow> collaborationNote list \<Rightarrow> actionPlanItem list \<Rightarrow> world \<Rightarrow>
   (jsstring + jsstring) \<times> world" where
  "runFinalReport e task strategy notes detailedActionPlans w =
     (let (authToken, w1) = getProxyAuthToken e w in
      if authToken = [] then (Inr (offlineReport task strategy notes detailedActionPlans), w1)
      else requestLlmText e (finalReportRequest w task strategy notes detailedActionPlans authToken) w1)"

definition DEPLOYED_APP_URL :: jsstring where
  "DEPLOYED_APP_URL = js ''https://automagent-8d64c.web.app''"

definition officerRequest ::
  "world \<Rightarrow> councilMember \<Rightarrow> jsstring \<Rightarrow> fileAsset list \<Rightarrow> jsstring \<Rightarrow> jsstring \<Rightarrow> jsstring \<Rightarrow>
   llmTextRequest" where
  "officerRequest w member prompt attachments targetLabel priorDialogue authToken =
     (let runtime = resolveRuntime w (cm_id member);
          attachmentSummary =
            (if attachments \<noteq> []
             then join [0x0A]
                    (map (\<lambda>asset. fa_name asset @ js '' ('' @ fa_mimeType asset @ js '', ''
                             @ showNat (fa_size asset) @ js '' bytes)'') attachments)
             else [0xC5C6, 0xC74C]);
          devSyncInstruction =
            (if cm_id member = js ''DEV-TAN''
             then join [0x0A]
                    [(js ''DEV-TAN '' @ [0xCD94, 0xAC00, 0x20, 0xC758, 0xBB34, 0x3A]),
                     (js ''- GitHub '' @ [0xC18C, 0xC2A4, 0xC640, 0x20, 0xD604, 0xC7AC, 0x20,
                         0xBC30, 0xD3EC, 0x20, 0xBC84, 0xC804, 0x28]) @ DEPLOYED_APP_URL @ [0x29,
                             0x20, 0xC815, 0xD569, 0xC131, 0x20, 0xC810, 0xAC80],
                     [0x2D, 0x20, 0xBD88, 0xC77C, 0xCE58, 0x20, 0xBC1C, 0xACAC, 0x20, 0xC2DC, 0x20,
                         0xC7AC, 0xBC30, 0xD3EC, 0x20, 0xCCB4, 0xD06C, 0xB9AC, 0xC2A4, 0xD2B8,
                             0xC640, 0x20, 0xC989, 0xC2DC, 0x20, 0xC870, 0xCE58, 0xC548, 0x20,
                                 0xBCF4, 0xACE0]]
             else [])
      in \<lparr> lr_provider = rc_provider runtime, lr_model = rc_model runtime,
           lr_input =
             join [0x0A, 0x0A]
               [(js ''CEO '' @ [0xBA54, 0xC2DC, 0xC9C0, 0x3A, 0x20]) @ prompt,
                [0xB300, 0xC0C1, 0x3A, 0x20] @ targetLabel,
                [0xCCA8, 0xBD80, 0x20, 0xD30C, 0xC77C, 0x3A, 0x20] @ attachmentSummary,
                [0xC774, 0xC804, 0x20, 0xB300, 0xD654, 0x20, 0xC694, 0xC57D, 0x3A, 0x20] @
                    (if priorDialogue \<noteq> [] then priorDialogue else [0xC5C6, 0xC74C]),
                devSyncInstruction,
                ([0xD615, 0xC2DD, 0x3A, 0x20, 0xD575, 0xC2EC, 0x20, 0xC694, 0xC57D, 0x20, 0x31,
                    0xBB38, 0xB2E8] @ js '' + '' @ [0xC561, 0xC158, 0x20, 0x33, 0xAC1C] @
                        js '' + '' @ [0xB9AC, 0xC2A4, 0xD06C, 0x2F, 0xB300, 0xC751, 0x20, 0x31,
                            0xAC1C] @ js '' + '' @ [0xBCF4, 0xACE0, 0x20, 0xBB38, 0xC7A5, 0x20,
                                0x31, 0xAC1C])],
           lr_instructions = cm_identityPrompt member,
           lr_maxOutputTokens = Some 750, lr_temperature = Some 0.4,
           lr_baseUrl = rc_baseUrl runtime,
           lr_useWebSearch = (cm_id member = js ''RESEARCHER-TAN''),
           lr_authToken = authToken \<rparr>)"

definition runOfficerSingleReply ::
  "env \<Rightarrow> jsstring \<Rightarrow> jsstring \<Rightarrow> fileAsset list \<Rightarrow> jsstring \<Rightarrow> jsstring \<Rightarrow> world \<Rightarrow>
   (jsstring + jsstring) \<times> world" where
  "runOfficerSingleReply e memberId prompt attachments targetLabel priorDialogue w =
     (case getMember memberId of
        None \<Rightarrow> (Inr [0xC5ED, 0xD560, 0x20, 0xC815, 0xBCF4, 0xB97C, 0x20, 0xCC3E,
            0xC9C0, 0x20, 0xBABB, 0xD588, 0xC2B5, 0xB2C8, 0xB2E4, 0x2E], w)
      | Some member \<Rightarrow>
          (let (authToken, w1) = getProxyAuthToken e w in
           if authToken = []
           then (Inr (cm_role member @ [0x20, 0xC624, 0xD504, 0xB77C, 0xC778, 0x20, 0xC751, 0xB2F5,
               0x3A, 0x20, 0x27] @ prompt
                        @ ([0x27, 0xC5D0, 0x20, 0xB300, 0xD55C, 0x20, 0x33, 0xB2E8, 0xACC4, 0x20,
                            0xC2E4, 0xD589, 0xC548, 0x2C, 0x20, 0xB9AC, 0xC2A4, 0xD06C, 0x20, 0x31,
                                0xAC1C] @ js '', CEO '' @ [0xD655, 0xC778, 0x20, 0xD3EC, 0xC778,
                                    0xD2B8, 0x20, 0x31, 0xAC1C, 0xB97C, 0x20, 0xC81C, 0xC2DC,
                                        0xD569, 0xB2C8, 0xB2E4, 0x2E])), w1)
           else requestLlmText e
                  (officerRequest w member prompt attachments targetLabel priorDialogue authToken) w1))"

definition addGovernanceAlert ::
  "env \<Rightarrow> jsstring \<Rightarrow> jsstring \<Rightarrow> alertStatus \<Rightarrow> jsstring \<Rightarrow> world \<Rightarrow> world" where
  "addGovernanceAlert e source message status threadId w =
     advance (w \<lparr> governanceAlerts :=
       take 140 (\<lparr> ga_id = makeId e (tick w), ga_threadId = threadId, ga_source = source,
                    ga_status = status, ga_message = message,
                    ga_createdAt = e_isoNow e (tick w) \<rparr> # governanceAlerts w) \<rparr>)"

text \<open>
  The test of the regular expression on a reply: one of four Korean words,
      or \<open>warning\<close> in
  any case of its ASCII letters.
\<close>

definition riskIndicated :: "jsstring \<Rightarrow> bool" where
  "riskIndicated reply =
     (includes_str reply [0xC704, 0xBC18] \<or> includes_str reply [0xB9AC, 0xC2A4, 0xD06C]
      \<or> includes_str (toLowerCaseAscii reply) (js ''warning'')
      \<or> includes_str reply [0xAE08, 0xC9C0] \<or> includes_str reply [0xBD88, 0xAC00])"

definition governanceCheck :: "env \<Rightarrow> jsstring \<Rightarrow> jsstring \<Rightarrow> jsstring \<Rightarrow> world \<Rightarrow> world" where
  "governanceCheck e context threadId checker w =
     (case runOfficerSingleReply e checker
             (([0xB2E4, 0xC74C, 0x20, 0xC2E4, 0xD589, 0x20, 0xB9E5, 0xB77D, 0xC774] @
                 js '' HOBBYTAN '' @ [0xD5CC, 0xBC95, 0x28, 0xBC95, 0x2F, 0xADDC, 0xC815, 0x20,
                     0xC900, 0xC218, 0x2C, 0x20, 0xC5ED, 0xD560, 0x20, 0xCDA9, 0xB3CC, 0x20,
                         0xAE08, 0xC9C0, 0x2C, 0x20, 0xAC1C, 0xC778, 0xC815, 0xBCF4, 0x2F, 0xBCF4,
                             0xC548, 0x20, 0xBCF4, 0xD638, 0x29, 0xC744, 0x20, 0xC704, 0xBC18,
                                 0xD558, 0xB294, 0xC9C0, 0x20, 0xAC10, 0xC0AC, 0x3A, 0x20]) @
                                     context)
             [] CEO_HOBBY [] w of
        (Inr reply, w1) \<Rightarrow>
          (let status = (if riskIndicated reply then AlertWarning else AlertOk) in
           appendLog e Execution
             (checker @ [0x20, 0xAC10, 0xC2DC, 0x20, 0xBCF4, 0xACE0, 0x20, 0x28]
                @
                    (case status of AlertWarning \<Rightarrow> js ''warning'' | AlertOk \<Rightarrow> js ''ok'') @ js '')'')
             threadId (addGovernanceAlert e checker reply status threadId w1))
      | (Inl message, w1) \<Rightarrow>
          appendLog e Execution (checker @ [0x20, 0xAC10, 0xC2DC, 0x20, 0xC2E4, 0xD328, 0x3A,
              0x20] @ message) threadId
            (addGovernanceAlert e checker message AlertWarning threadId w1))"

definition runGovernanceWatch :: "env \<Rightarrow> jsstring \<Rightarrow> jsstring \<Rightarrow> world \<Rightarrow> world" where
  "runGovernanceWatch e context threadId w =
     governanceCheck e context threadId (js ''HR-TAN'')
       (governanceCheck e context threadId (js ''LEGAL-TAN'') w)"

section \<open>\<open>startWorkflow\<close>\<close>

text \<open>The title of a thread or report: the directive,
    cut after \<open>n\<close> code units.\<close>

definition titleOf :: "nat \<Rightarrow> jsstring \<Rightarrow> jsstring" where
  "titleOf n s = (if length s > n then trim (take n s) @ js ''...'' else s)"

definition departmentStatus :: "jsstring \<Rightarrow> jsstring \<Rightarrow> jsstring" where
  "departmentStatus fallback memberId =
     (case getMember memberId of
        Some member \<Rightarrow> randomStatusByDepartment (cm_department member)
      | None \<Rightarrow> fallback)"

text \<open>
  The stages of the body of the \<open>try\<close> block, each cut into the statements before and
  after its awaited generation calls. A stage returns \<open>Inl\<close> the message of the error that
  leaves the block, with the state at that point.
\<close>

definition brainstormingSetup :: "env \<Rightarrow> jsstring \<Rightarrow> jsstring \<Rightarrow> world \<Rightarrow> world" where
  "brainstormingSetup e trimmedTask threadId w =
     (let w1 = appendLog e Brainstorming ((js ''CEO '' @ [0xC9C0, 0xC2DC, 0x20, 0xC811, 0xC218,
         0x3A, 0x20]) @ trimmedTask) threadId w;
          w2 = setPhase Brainstorming w1;
          w3 = w2 \<lparr> activeMembers := nonCeoMembers \<rparr>;
          w4 = moveMembersToRoom nonCeoMembers BrainstormingRoom [0xBE0C, 0xB808, 0xC778, 0xC2A4,
              0xD1A0, 0xBC0D, 0x20, 0xD68C, 0xC758, 0x20, 0xC9C4, 0xD589] w3
      in setMembersToDesk [CEO_HOBBY] False (\<lambda>memberId. [0xC9C0, 0xC2DC, 0x2F, 0xC2B9,
          0xC778, 0x20, 0xB300, 0xAE30]) w4)"

definition recordStrategy :: "env \<Rightarrow> jsstring \<Rightarrow> brainstormPlan \<Rightarrow> world \<Rightarrow> world" where
  "recordStrategy e threadId brainstorm w =
     (let w1 = appendLog e Brainstorming ([0xC804, 0xB7B5, 0x20, 0xC218, 0xB9BD, 0x20, 0xC644,
         0xB8CC, 0x3A, 0x20] @ bs_strategy brainstorm) threadId w
      in appendMeetingTurn e (js ''brain-'' @ showNat (e_dateNow e (tick w1)))
           BrainstormingRoom ATTENDANT_TAN ATTENDANT_TAN (bs_strategy brainstorm)
           TurnWorkflow threadId w1)"

definition brainstormingStage ::
  "env \<Rightarrow> jsstring \<Rightarrow> jsstring \<Rightarrow> world \<Rightarrow> (jsstring + brainstormPlan) \<times> world" where
  "brainstormingStage e trimmedTask threadId w =
     (case runBrainstorm e trimmedTask (brainstormingSetup e trimmedTask threadId w) of
        (Inl message, w1) \<Rightarrow> (Inl message, w1)
      | (Inr brainstorm, w1) \<Rightarrow> (Inr brainstorm,
          recordStrategy e threadId brainstorm w1))"

definition collaborationMembersOf :: "brainstormPlan \<Rightarrow> jsstring list" where
  "collaborationMembersOf brainstorm =
     (let participants =
            uniqueInOrder
              (filter (\<lambda>memberId. getMember memberId \<noteq> None)
                 (filter (\<lambda>memberId. memberId \<noteq> CEO_HOBBY)
                    (map toUpperCase (bs_participants brainstorm))))
      in if participants \<noteq> [] then participants
         else filter (\<lambda>memberId. getMember memberId \<noteq> None) DEFAULT_COLLABORATION_TEAM)"

definition managementContextOf :: "jsstring \<Rightarrow> jsstring \<Rightarrow> jsstring" where
  "managementContextOf poPlan pmPlan =
     join [0x0A] [(js ''[PO-TAN '' @ [0xC5C5, 0xBB34, 0x20, 0xBC30, 0xC815, 0x5D]), poPlan, [],
         (js ''[PM-TAN '' @ [0xC77C, 0xC815, 0x20, 0xAD00, 0xB9AC, 0x5D]), pmPlan]"

text \<open>The result of the collaboration phase: the management plans and the session.\<close>

record collaborationOutcome =
  co_poPlan :: jsstring
  co_pmPlan :: jsstring
  co_session :: collaborationSessionResult

definition collaborationSetup :: "env \<Rightarrow> jsstring \<Rightarrow> jsstring list \<Rightarrow> world \<Rightarrow> world" where
  "collaborationSetup e threadId collaborationMembers w =
     (let w1 = setPhase Collaboration w;
          w2 = w1 \<lparr> activeMembers := collaborationMembers \<rparr>;
          w3 = moveMembersToRoom collaborationMembers CollaborationRoom
                 [0xD611, 0xC5C5, 0xD68C, 0xC758, 0xC2E4, 0x20, 0xC2E4, 0xD589, 0x20, 0xD50C,
                     0xB79C, 0x20, 0xC870, 0xC728] w2;
          deskMembers = filter (\<lambda>memberId. memberId \<notin> set collaborationMembers) nonCeoMembers;
          w4 = setMembersToDesk deskMembers False (departmentStatus [0xBC31, 0xB85C, 0xADF8, 0x20,
              0xC815, 0xB9AC]) w3
      in appendLog e Collaboration
           (showNat (length collaborationMembers)
              @ [0xBA85, 0xC774, 0x20, 0xD611, 0xC5C5, 0xD68C, 0xC758, 0xC2E4, 0xB85C, 0x20,
                  0xC774, 0xB3D9, 0xD574, 0x20, 0xC2E4, 0xD589, 0xC548, 0xC744, 0x20, 0xAD6C,
                      0xCCB4, 0xD654, 0xD569, 0xB2C8, 0xB2E4, 0x2E]) threadId w4)"

definition recordManagement :: "env \<Rightarrow> jsstring \<Rightarrow> jsstring \<Rightarrow> jsstring \<Rightarrow> world \<Rightarrow> world" where
  "recordManagement e threadId poPlan pmPlan w =
     (let w1 = appendMeetingTurn e (js ''manage-'' @ showNat (e_dateNow e (tick w)))
                 CollaborationRoom PO_TAN PO_TAN poPlan TurnWorkflow threadId w;
          w2 = upsertPlan e PO_TAN poPlan Management threadId w1;
          w3 = appendMeetingTurn e
                 (js ''manage-'' @ showNat (e_dateNow e (tick w2)) @ js ''-pm'')
                 CollaborationRoom PM_TAN PM_TAN pmPlan TurnWorkflow threadId w2;
          w4 = upsertPlan e PM_TAN pmPlan Management threadId w3
      in appendLog e Collaboration (js ''PO-TAN/PM-TAN '' @ [0xC5C5, 0xBB34, 0x20, 0xBC30, 0xC815,
          0x20, 0xBC0F, 0x20, 0xC77C, 0xC815, 0x20, 0xAD00, 0xB9AC, 0xC548, 0x20, 0xD655,
              0xC815]) threadId w4)"

text \<open>\<open>notes.forEach\<close>: one upsert per note of the session, in order.\<close>

definition upsertNotes :: "env \<Rightarrow> jsstring \<Rightarrow> collaborationNote list \<Rightarrow> world \<Rightarrow> world" where
  "upsertNotes e threadId ns w =
     foldl (\<lambda>w item. upsertPlan e (cn_memberId item) (cn_note item) Workflow threadId w) w ns"

definition collaborationStage ::
  "env \<Rightarrow> jsstring \<Rightarrow> jsstring \<Rightarrow> brainstormPlan \<Rightarrow> jsstring list \<Rightarrow> world \<Rightarrow>
   (jsstring + collaborationOutcome) \<times> world" where
  "collaborationStage e trimmedTask threadId brainstorm collaborationMembers w =
     (case runPoPmManagementPlan e trimmedTask (bs_strategy brainstorm) collaborationMembers
             (collaborationSetup e threadId collaborationMembers w) of
        (Inl message, w1) \<Rightarrow> (Inl message, w1)
      | (Inr (poPlan, pmPlan), w1) \<Rightarrow>
          (let (session, w2) =
                 runCollaboration e trimmedTask (bs_strategy brainstorm) collaborationMembers
                   (managementContextOf poPlan pmPlan) (recordManagement e threadId poPlan pmPlan w1);
               w3 = upsertNotes e threadId (cs_notes session) w2;
               w4 = appendLog e Collaboration
                      ([0xD68C, 0xC758, 0x20, 0xB85C, 0xADF8, 0x20, 0xAE30, 0xB85D, 0x20, 0xC644,
                          0xB8CC, 0x3A, 0x20, 0xC138, 0xC158, 0x20] @ cs_sessionId session @ [0x2C,
                              0x20, 0xBC1C, 0xC5B8, 0x20]
                         @ showNat (length (cs_transcript session)) @ [0xAC74]) threadId w3
           in (Inr \<lparr> co_poPlan = poPlan, co_pmPlan = pmPlan, co_session = session \<rparr>,
               w4)))"

text \<open>The execution phase gives the asset of the attachment,
    if there is one and its upload succeeds.\<close>

definition executionSetup :: "env \<Rightarrow> jsstring \<Rightarrow> jsstring list \<Rightarrow> world \<Rightarrow> world" where
  "executionSetup e threadId collaborationMembers w =
     (let w1 = setPhase Execution w;
          w2 = setMembersToDesk collaborationMembers True (\<lambda>memberId. [0xAC1C, 0xBCC4,
              0x20, 0xC0B0, 0xCD9C, 0xBB3C, 0x20, 0xC791, 0xC131, 0x20, 0xC911]) w1
      in appendLog e Execution [0xD611, 0xC5C5, 0x20, 0xACB0, 0xACFC, 0xB97C, 0x20, 0xAE30, 0xBC18,
          0xC73C, 0xB85C, 0x20, 0xAC01, 0x20, 0xBD80, 0xC11C, 0xAC00, 0x20, 0xC2E4, 0xC81C, 0x20,
              0xACB0, 0xACFC, 0xBB3C, 0xC744, 0x20, 0xC791, 0xC131, 0xD569, 0xB2C8, 0xB2E4, 0x2E]
           threadId w2)"

definition uploadAttachment :: "env \<Rightarrow> jsstring \<Rightarrow> jsFile \<Rightarrow> world \<Rightarrow> fileAsset option \<times> world" where
  "uploadAttachment e threadId attachment w =
     (case uploadFileAsset e attachment (js ''workflow-inputs'')
             (appendLog e Execution ([0xCCA8, 0xBD80, 0x20, 0xD30C, 0xC77C, 0x20, 0xC5C5, 0xB85C,
                 0xB4DC, 0x20, 0xC2DC, 0xC791, 0x3A, 0x20] @ f_name attachment) threadId w) of
        (Inr asset, w1) \<Rightarrow> (Some asset, appendLog e Execution [0xCCA8, 0xBD80, 0x20,
            0xD30C, 0xC77C, 0x20, 0xC5C5, 0xB85C, 0xB4DC, 0x20, 0xC644, 0xB8CC] threadId w1)
      | (Inl message, w1) \<Rightarrow>
          (None, appendLog e Execution (([0xCCA8, 0xBD80, 0x20, 0xC5C5, 0xB85C, 0xB4DC, 0x20,
              0xC2E4, 0xD328, 0x28, 0xACC4, 0xC18D, 0x20, 0xC9C4, 0xD589] @ js ''): '') @
                  message) threadId w1))"

definition executionStage ::
  "env \<Rightarrow> jsstring \<Rightarrow> jsstring list \<Rightarrow> world \<Rightarrow> fileAsset option \<times> world" where
  "executionStage e threadId collaborationMembers w =
     (let w1 = executionSetup e threadId collaborationMembers w in
      case workflowAttachmentFile w1 of
        None \<Rightarrow> (None, w1)
      | Some attachment \<Rightarrow> uploadAttachment e threadId attachment w1)"

definition reportPlanOf :: "env \<Rightarrow> nat \<Rightarrow> jsstring \<Rightarrow> jsstring \<Rightarrow> jsstring \<Rightarrow> planSource \<Rightarrow> actionPlanItem" where
  "reportPlanOf e t threadId memberId plan source =
     \<lparr> ap_id = makeId e t, ap_threadId = threadId, ap_memberId = memberId,
       ap_memberName = (case getMember memberId of
                          Some member \<Rightarrow> if cm_displayName member \<noteq> [] then cm_displayName member
                                         else memberId
                        | None \<Rightarrow> memberId),
       ap_plan = plan, ap_source = source, ap_createdAt = e_isoNow e t,
       ap_updatedAt = e_isoNow e t, ap_lastExecutedAt = None,
           ap_lastExecutionSummary = None \<rparr>"

definition reportPlansOf :: "env \<Rightarrow> nat \<Rightarrow> jsstring \<Rightarrow> collaborationOutcome \<Rightarrow> actionPlanItem list" where
  "reportPlansOf e t threadId outcome =
     [reportPlanOf e t threadId PO_TAN (co_poPlan outcome) Management,
      reportPlanOf e t threadId PM_TAN (co_pmPlan outcome) Management]
     @ map (\<lambda>item. reportPlanOf e t threadId (cn_memberId item) (cn_note item) Workflow)
         (cs_notes (co_session outcome))"

definition meetingLogOf :: "env \<Rightarrow> jsstring \<Rightarrow> jsstring \<Rightarrow> collaborationSessionResult \<Rightarrow> jsstring" where
  "meetingLogOf e trimmedTask strategy session =
     join [0x0A]
       [[0x23, 0x20, 0xD68C, 0xC758, 0x20, 0xB85C, 0xADF8],
        js ''- Session: '' @ cs_sessionId session,
        js ''- Task: '' @ trimmedTask,
        js ''- Strategy: '' @ strategy,
        [],
        join [0x0A, 0x0A]
          (map (\<lambda>turn. js ''- ['' @ e_formatTime e (mt_createdAt turn) @ js ''] ''
                   @ mt_speakerId turn @ js '': '' @ mt_text turn)
             (cs_transcript session))]"

text \<open>The end of a run that succeeds.\<close>

definition finishRun :: "world \<Rightarrow> world" where
  "finishRun w =
     setMembersToDesk [CEO_HOBBY] False (\<lambda>memberId. [0xB2E4, 0xC74C, 0x20, 0xC9C0, 0xC2DC,
         0x20, 0xB300, 0xAE30])
       (setMembersToDesk nonCeoMembers False (departmentStatus [0xB300, 0xAE30])
          ((setPhase Idle (w \<lparr> workflowAttachmentFile := None \<rparr>))
             \<lparr> running := False, activeMembers := [] \<rparr>))"

definition reportingSetup :: "world \<Rightarrow> world" where
  "reportingSetup w =
     setMembersToDesk [CEO_HOBBY] True (\<lambda>memberId. [0xCD5C, 0xC885, 0x20, 0xBCF4, 0xACE0,
         0x20, 0xC218, 0xC2E0, 0x20, 0xC911])
       (moveReportersToCEO [ATTENDANT_TAN, PM_TAN, js ''HOST-TAN''] (setPhase Reporting w))"

text \<open>
  The two auxiliary documents: an upload that throws gives no asset. The result is the
  report document, the meeting log and the state.
\<close>

definition uploadOrNone ::
  "env \<Rightarrow> jsstring \<Rightarrow> jsstring \<Rightarrow> world \<Rightarrow> fileAsset option \<times> world" where
  "uploadOrNone e content filename w =
     (case uploadTextAsset e content filename (js ''reports'') (js ''text/markdown'') w of
        (Inr asset, w1) \<Rightarrow> (Some asset, w1)
      | (Inl message, w1) \<Rightarrow> (None, w1))"

definition reportOf ::
  "env \<Rightarrow> nat \<Rightarrow> jsstring \<Rightarrow> jsstring \<Rightarrow> jsstring \<Rightarrow> jsstring list \<Rightarrow> fileAsset list \<Rightarrow> reportItem" where
  "reportOf e t trimmedTask threadId finalReportText collaborationMembers reportAssets =
     \<lparr> rp_id = [], rp_threadId = threadId,
       rp_title = js ''['' @ e_localeTime e t @ js ''] '' @ titleOf 42 trimmedTask,
       rp_body = finalReportText, rp_participants = collaborationMembers,
       rp_createdAt = e_isoNow e t, rp_assets = reportAssets, rp_source = Local \<rparr>"

definition reportMessageOf :: "jsstring \<Rightarrow> jsstring \<Rightarrow> fileAsset list \<Rightarrow> officeMessage" where
  "reportMessageOf threadId finalReportText reportAssets =
     \<lparr> om_id = [], om_threadId = threadId, om_senderId = ATTENDANT_TAN,
       om_senderName = ATTENDANT_TAN, om_senderRole = js ''DEO / Executive Attendant'',
       om_kind = KindReport, om_text = finalReportText, om_targetIds = [CEO_HOBBY],
       om_attachments = reportAssets, om_createdAt = [], om_source = Local \<rparr>"

definition deliverReport ::
  "env \<Rightarrow> jsstring \<Rightarrow> jsstring \<Rightarrow> brainstormPlan \<Rightarrow> jsstring list \<Rightarrow> collaborationOutcome \<Rightarrow>
   fileAsset option \<Rightarrow> jsstring \<Rightarrow> world \<Rightarrow> world" where
  "deliverReport e trimmedTask threadId brainstorm collaborationMembers outcome inboundAsset
     finalReportText w =
     (let session = co_session outcome;
          (reportDocumentAsset, w1) =
            uploadOrNone e finalReportText
              (js ''ceo-report-'' @ showNat (e_dateNow e (tick w)) @ js ''.md'') w;
          (meetingLogAsset, w2) =
            (if cs_transcript session \<noteq> []
             then uploadOrNone e (meetingLogOf e trimmedTask (bs_strategy brainstorm) session)
                    (js ''meeting-log-'' @ cs_sessionId session @ js ''.md'') w1
             else (None, w1));
          reportAssets = List.map_filter (\<lambda>asset. asset)
                           [reportDocumentAsset, meetingLogAsset, inboundAsset];
          w3 = persistReport e
                 (reportOf e (tick w2) trimmedTask threadId finalReportText collaborationMembers
                    reportAssets) (advance w2);
          w4 = persistOfficeMessage e (reportMessageOf threadId finalReportText reportAssets) w3;
          w5 = runGovernanceWatch e
                 ([0xC6CC, 0xD06C, 0xD50C, 0xB85C, 0xC6B0, 0x20, 0xCD5C, 0xC885, 0x20, 0xBCF4,
                     0xACE0, 0x3A, 0x20] @ trimmedTask @ [0xA, 0xC804, 0xB7B5, 0x3A, 0x20] @
                         bs_strategy brainstorm
                    @ [0xA, 0xCC38, 0xC5EC, 0xC790, 0x3A, 0x20] @
                        join (js '', '') collaborationMembers) threadId w4
      in appendLog e Reporting
           ((js ''CEO '' @ [0xC88C, 0xC11D, 0xC73C, 0xB85C, 0x20, 0xBCF4, 0xACE0, 0x20, 0xC804,
               0xB2EC, 0x20, 0xC644, 0xB8CC, 0x2E, 0x20, 0xCC38, 0xC5EC, 0xC790, 0x3A, 0x20]) @
                   join (js '', '') collaborationMembers)
           threadId w5)"

definition reportingStage ::
  "env \<Rightarrow> jsstring \<Rightarrow> jsstring \<Rightarrow> brainstormPlan \<Rightarrow> jsstring list \<Rightarrow> collaborationOutcome \<Rightarrow>
   fileAsset option \<Rightarrow> world \<Rightarrow> (jsstring + unit) \<times> world" where
  "reportingStage e trimmedTask threadId brainstorm collaborationMembers outcome inboundAsset w =
     (let w1 = reportingSetup w in
      case runFinalReport e trimmedTask (bs_strategy brainstorm) (cs_notes (co_session outcome))
             (reportPlansOf e (tick w1) threadId outcome) (advance w1) of
        (Inl message, w2) \<Rightarrow> (Inl message, w2)
      | (Inr finalReportText, w2) \<Rightarrow>
          (Inr (), finishRun (deliverReport e trimmedTask threadId brainstorm collaborationMembers
                                outcome inboundAsset finalReportText w2)))"

definition workflowBody :: "env \<Rightarrow> jsstring \<Rightarrow> jsstring \<Rightarrow> world \<Rightarrow> (jsstring + unit) \<times> world" where
  "workflowBody e trimmedTask threadId w =
     (case brainstormingStage e trimmedTask threadId w of
        (Inl message, w1) \<Rightarrow> (Inl message, w1)
      | (Inr brainstorm, w1) \<Rightarrow>
          (let collaborationMembers = collaborationMembersOf brainstorm in
           case collaborationStage e trimmedTask threadId brainstorm collaborationMembers w1 of
             (Inl message, w2) \<Rightarrow> (Inl message, w2)
           | (Inr outcome, w2) \<Rightarrow>
               (let (inboundAsset, w3) = executionStage e threadId collaborationMembers w2 in
                reportingStage e trimmedTask threadId brainstorm collaborationMembers outcome
                  inboundAsset w3)))"

definition emptyDirectiveMessage :: jsstring where
  "emptyDirectiveMessage = (js ''CEO '' @ [0xC9C0, 0xC2DC, 0x20, 0xBB38, 0xC7A5, 0xC744, 0x20,
      0xC785, 0xB825, 0xD558, 0xC138, 0xC694, 0x2E])"

definition alreadyRunningMessage :: jsstring where
  "alreadyRunningMessage = [0xC774, 0xBBF8, 0x20, 0xC6CC, 0xD06C, 0xD50C, 0xB85C, 0xC6B0, 0xAC00,
      0x20, 0xC2E4, 0xD589, 0x20, 0xC911, 0xC785, 0xB2C8, 0xB2E4, 0x2E]"

text \<open>The \<open>catch\<close> block.\<close>

definition failureLogMessage :: "jsstring \<Rightarrow> jsstring" where
  "failureLogMessage message = [0xC6CC, 0xD06C, 0xD50C, 0xB85C, 0xC6B0, 0x20, 0xC2E4, 0xD328, 0x3A,
      0x20] @ message"

definition workflowFailed :: "env \<Rightarrow> jsstring \<Rightarrow> jsstring \<Rightarrow> world \<Rightarrow> world" where
  "workflowFailed e message threadId w =
     setMembersToDesk (map cm_id COUNCIL_MEMBERS) False
       (\<lambda>memberId. if memberId = CEO_HOBBY then [0xB2E4, 0xC74C, 0x20, 0xC9C0, 0xC2DC,
           0x20, 0xB300, 0xAE30] else [0xC624, 0xB958, 0x20, 0xBCF5, 0xAD6C, 0x20, 0xB300, 0xAE30])
       ((setPhase Idle
           (appendLog e Reporting (failureLogMessage message) threadId
              (w \<lparr> workflowError := message \<rparr>)))
          \<lparr> running := False, activeMembers := [] \<rparr>)"

text \<open>The statements of an accepted call before the \<open>try\<close> block.\<close>

definition beginRun :: "env \<Rightarrow> jsstring \<Rightarrow> world \<Rightarrow> world" where
  "beginRun e task w =
     updateThreadTitle e (activeThreadId w) (titleOf 36 (trim task))
       (w \<lparr> workflowError := [], running := True \<rparr>)"

definition startWorkflow :: "env \<Rightarrow> jsstring \<Rightarrow> world \<Rightarrow> world" where
  "startWorkflow e task w =
     (if blank task then w \<lparr> workflowError := emptyDirectiveMessage \<rparr>
      else if running w then w \<lparr> workflowError := alreadyRunningMessage \<rparr>
      else
        (case workflowBody e (trim task) (activeThreadId w) (beginRun e task w) of
           (Inr done, w1) \<Rightarrow> w1
         | (Inl message, w1) \<Rightarrow> workflowFailed e message (activeThreadId w) w1))"

section \<open>The initial state and example environments\<close>

definition createInitialAgents :: "jsstring \<Rightarrow> agentState option" where
  "createInitialAgents memberId =
     (case getMember memberId of
        None \<Rightarrow> None
      | Some member \<Rightarrow>
          Some \<lparr> ag_zone = (if cm_id member = CEO_HOBBY then CeoZone else Desk),
                 ag_status = (if cm_id member = CEO_HOBBY then [0xCD5C, 0xC885, 0x20, 0xC2B9,
                     0xC778, 0x20, 0xB300, 0xAE30] else [0xC88C, 0xC11D, 0x20, 0xB300, 0xAE30]),
                 ag_active = False \<rparr>)"

definition createDefaultRoleConfig :: "jsstring \<Rightarrow> roleRuntimeConfig option" where
  "createDefaultRoleConfig memberId =
     (case getMember memberId of
        None \<Rightarrow> None
      | Some member \<Rightarrow>
          Some \<lparr> rc_provider = cm_defaultProvider member, rc_model = cm_defaultModel member,
                 rc_apiKey = [], rc_baseUrl = [] \<rparr>)"

definition createDefaultThread :: "jsstring \<Rightarrow> threadItem" where
  "createDefaultThread now =
     \<lparr> th_id = js ''thread-main'', th_title = js ''Create virtual HOBBYTAN office'',
       th_createdAt = now, th_updatedAt = now,
       th_vision =
         (js ''HOBBYTAN AI Digital Office'' @ [0xB294, 0x20, 0xC5ED, 0xD560, 0x20, 0xBD84, 0xB2F4,
             0xD615, 0x20, 0xC5D0, 0xC774, 0xC804, 0xD2B8, 0x20, 0xC870, 0xC9C1, 0xC73C, 0xB85C] @
                 js '', CEO '' @ [0xC9C0, 0xC2DC, 0xB97C, 0x20, 0xC2E4, 0xD589, 0x20, 0xAC00,
                     0xB2A5, 0xD55C, 0x20, 0xC0B0, 0xCD9C, 0xBB3C, 0xB85C, 0x20, 0xBE60, 0xB974,
                         0xAC8C, 0x20, 0xC804, 0xD658, 0xD55C, 0xB2E4, 0x2E]),
       th_goals =
         [(js ''goal-1'', [0xC6CC, 0xD06C, 0xD50C, 0xB85C, 0xC6B0, 0x20, 0xC790, 0xB3D9, 0xD654,
             0x20, 0xD488, 0xC9C8, 0x20, 0xD5A5, 0xC0C1],
           [0xBE0C, 0xB808, 0xC778, 0xC2A4, 0xD1A0, 0xBC0D, 0x2D, 0xD611, 0xC5C5, 0x2D, 0xBCF4,
               0xACE0, 0x20, 0xD30C, 0xC774, 0xD504, 0xB77C, 0xC778, 0x20, 0xC815, 0xD655, 0xB3C4,
                   0xC640, 0x20, 0xC18D, 0xB3C4, 0xB97C, 0x20, 0xAC1C, 0xC120, 0xD55C, 0xB2E4,
                       0x2E]),
          (js ''goal-2'', [0xBB38, 0xC11C, 0x2F, 0xD30C, 0xC77C, 0x20, 0xC804, 0xB2EC, 0x20,
              0xC2E0, 0xB8B0, 0xC131, 0x20, 0xAC15, 0xD654],
           [0xBBF8, 0xB9AC, 0xBCF4, 0xAE30, 0x2C, 0x20, 0xB2E4, 0xC6B4, 0xB85C, 0xB4DC, 0x2C, 0x20,
               0xBC84, 0xC804, 0x20, 0xD788, 0xC2A4, 0xD1A0, 0xB9AC, 0x20, 0xAD00, 0xB9AC, 0xB97C,
                   0x20, 0xC548, 0xC815, 0xD654, 0xD55C, 0xB2E4, 0x2E]),
          (js ''goal-3'', [0xAC70, 0xBC84, 0xB10C, 0xC2A4, 0x20, 0xC900, 0xC218, 0x20, 0xC790,
              0xB3D9, 0x20, 0xC810, 0xAC80],
           (js ''LEGAL/HR '' @ [0xAC10, 0xC2DC, 0x20, 0xADDC, 0xCE59, 0xC73C, 0xB85C, 0x20, 0xC704,
               0xBC18, 0x20, 0xAC00, 0xB2A5, 0xC131, 0xC744, 0x20, 0xC2E4, 0xC2DC, 0xAC04, 0x20,
                   0xAC10, 0xC9C0, 0xD55C, 0xB2E4, 0x2E]))] \<rparr>"

text \<open>The state of a freshly loaded application with nothing in the local storage.\<close>

definition initialWorld :: world where
  "initialWorld =
     \<lparr> phase = Idle, running = False, workflowError = [], agents = createInitialAgents,
       activeMembers = [], activityLogs = [], localReports = [], localMessages = [],
       meetingTurns = [], actionPlans = [], governanceAlerts = [],
       threads = [createDefaultThread (js ''2026-01-01T00:00:00.000Z'')],
       activeThreadId = js ''thread-main'', roleConfig = createDefaultRoleConfig,
       workflowAttachmentFile = None, cloudReportDocs = [], cloudMessageDocs = [],
       tick = 0, llmCalls = [], phaseTrace = [] \<rparr>"

text \<open>
  An environment without a user: no credential, every document stays local. The clock gives
  one millisecond per tick.
\<close>

definition offlineEnv :: env where
  "offlineEnv =
     \<lparr> e_uid = None, e_devMock = False, e_idToken = (\<lambda>t. None),
       e_fetch = (\<lambda>t request. ProxyRejected (js ''Failed to fetch'')),
       e_upload = (\<lambda>t. Inl (js ''storage/unauthorized'')),
       e_addDoc = (\<lambda>t. False),
       e_dateNow = (\<lambda>t. 1767225600000 + t),
       e_isoNow = (\<lambda>t. js ''2026-01-01T00:00:00.'' @ showNat t @ js ''Z''),
       e_random = (\<lambda>t. js ''r'' @ showNat t),
       e_objectUrl = (\<lambda>t. js ''blob:'' @ showNat t),
       e_localeTime = (\<lambda>t. js ''00:00:00''),
       e_formatTime = (\<lambda>iso. iso),
       e_jsonParse = (\<lambda>text. None) \<rparr>"

text \<open>
  An environment with a signed-in user whose proxy answers every request with the same text,
  which is not JSON,
      except that the request at tick \<open>failAt\<close> is answered with status 500.
\<close>

definition onlineEnv :: "nat \<Rightarrow> env" where
  "onlineEnv failAt =
     offlineEnv
       \<lparr> e_uid := Some (js ''uid-1''),
         e_idToken := (\<lambda>t. Some (js ''token'')),
         e_fetch := (\<lambda>t request. if t = failAt then ProxyNotOk 500 (js ''{}'')
                                   else ProxyPayload (Some (js ''Ship in two steps.''))),
         e_upload := (\<lambda>t. Inr (js ''https://storage.example/'' @ showNat t)),
         e_addDoc := (\<lambda>t. True) \<rparr>"

section \<open>The run without a credential\<close>

text \<open>
  What the functions above give when no credential is available: the members that speak in
  the session of the default plan, their canned notes, the canned management plans, and the
  report built from them. The report is a function of the directive alone; the identifiers
  and times of the plans it lists do not appear in its text.
\<close>

definition offlineTeam :: "councilMember list" where
  "offlineTeam = List.map_filter getMember (take 8 (collaborationMembersOf offlineBrainstorm))"

definition offlineNotes :: "jsstring \<Rightarrow> collaborationNote list" where
  "offlineNotes task =
     map (\<lambda>member. \<lparr> cn_memberId = cm_id member,
         cn_note = offlineNote member task \<rparr>) offlineTeam"

definition offlineOutcome :: "jsstring \<Rightarrow> collaborationOutcome" where
  "offlineOutcome task =
     \<lparr> co_poPlan = offlinePoPlan (join (js '', '') (collaborationMembersOf offlineBrainstorm)),
       co_pmPlan = offlinePmPlan,
       co_session = \<lparr> cs_sessionId = [], cs_notes = offlineNotes task,
           cs_transcript = [] \<rparr> \<rparr>"

definition cannedReport :: "jsstring \<Rightarrow> jsstring" where
  "cannedReport task =
     offlineReport task (bs_strategy offlineBrainstorm) (offlineNotes task)
       (reportPlansOf offlineEnv 0 [] (offlineOutcome task))"

section \<open>Properties of the plan registry\<close>

lemma findIndex_None: "findIndex P xs = None \<longleftrightarrow> (\<forall>x \<in> set xs. \<not> P x)"
  by (induction xs) auto

lemma findIndex_Some: "findIndex P xs = Some i \<Longrightarrow> i < length xs \<and> P (xs ! i)"
proof (induction xs arbitrary: i)
  case Nil
  then show ?case by simp
next
  case (Cons x xs)
  then show ?case by (auto split: if_splits)
qed

lemma planKey_update [simp]:
  "planKey (item \<lparr> ap_plan := t, ap_source := s, ap_updatedAt := u \<rparr>) = planKey item"
  by (simp add: planKey_def)

lemma keys_markExecuted [simp]:
  "map planKey (markExecuted planId reply e u ps) = map planKey ps"
  by (induction ps) (auto simp: markExecuted_def planKey_def)

lemma plans_markExecuted:
  "p \<in> set (markExecuted planId reply e u ps) \<Longrightarrow>
   \<exists>q \<in> set ps. planKey q = planKey p \<and> ap_plan q = ap_plan p"
  by (auto simp: markExecuted_def planKey_def split: if_splits)

lemma upsert_ignored:
  "getMember memberId = None \<or> blank plan \<Longrightarrow>
   upsertActionPlan memberId plan source threadId newId now ps = ps"
  by (auto simp: upsertActionPlan_def split: option.splits)

lemma upsert_existing:
  assumes "getMember memberId = Some member" "\<not> blank plan"
    and "findIndex (\<lambda>item. ap_threadId item = threadId \<and> ap_memberId item = memberId) ps = Some i"
  shows "upsertActionPlan memberId plan source threadId newId now ps =
         ps[i := (ps ! i) \<lparr> ap_plan := trim plan, ap_source := source,
             ap_updatedAt := now \<rparr>]"
  using assms by (simp add: upsertActionPlan_def)

lemma upsert_new:
  assumes "getMember memberId = Some member" "\<not> blank plan"
    and "findIndex (\<lambda>item. ap_threadId item = threadId \<and> ap_memberId item = memberId) ps = None"
  shows "upsertActionPlan memberId plan source threadId newId now ps =
         take 220 (\<lparr> ap_id = newId, ap_threadId = threadId, ap_memberId = memberId,
                      ap_memberName = cm_displayName member, ap_plan = trim plan,
                      ap_source = source, ap_createdAt = now, ap_updatedAt = now,
                      ap_lastExecutedAt = None, ap_lastExecutionSummary = None \<rparr> # ps)"
  using assms by (simp add: upsertActionPlan_def)

lemma keys_upsert_existing:
  assumes "i < length ps"
  shows "map planKey (ps[i := (ps ! i) \<lparr> ap_plan := t, ap_source := s,
      ap_updatedAt := u \<rparr>])
         = map planKey ps"
  using assms by (simp add: map_update list_update_same_conv)

lemma distinct_keys_upsert:
  assumes "distinct (map planKey ps)"
  shows "distinct (map planKey (upsertActionPlan memberId plan source threadId newId now ps))"
proof (cases "getMember memberId = None \<or> blank plan")
  case True
  then show ?thesis using assms by (simp add: upsert_ignored)
next
  case False
  then obtain member where m: "getMember memberId = Some member" and nb: "\<not> blank plan"
    by auto
  show ?thesis
  proof (cases "findIndex (\<lambda>item. ap_threadId item = threadId \<and> ap_memberId item = memberId) ps")
    case None
    then have fresh: "(threadId, memberId) \<notin> set (map planKey ps)"
      by (auto simp: findIndex_None planKey_def)
    let ?new = "\<lparr> ap_id = newId, ap_threadId = threadId, ap_memberId = memberId,
                      ap_memberName = cm_displayName member, ap_plan = trim plan,
                      ap_source = source, ap_createdAt = now, ap_updatedAt = now,
                      ap_lastExecutedAt = None, ap_lastExecutionSummary = None \<rparr>"
    have "distinct (map planKey (?new # ps))"
      using assms fresh by (simp add: planKey_def)
    then have "distinct (take 220 (map planKey (?new # ps)))"
      by (rule distinct_take)
    then show ?thesis
      by (simp only: upsert_new[OF m nb None] take_map)
  next
    case (Some i)
    then have "i < length ps" by (auto dest: findIndex_Some)
    then show ?thesis
      using Some m nb assms by (simp add: upsert_existing keys_upsert_existing)
  qed
qed

lemma distinct_keys_applyOp:
  "distinct (map planKey ps) \<Longrightarrow> distinct (map planKey (applyOp op ps))"
  by (cases op) (simp_all add: distinct_keys_upsert)

lemma runOps_snoc: "runOps (ops @ [op]) ps = applyOp op (runOps ops ps)"
  by (simp add: runOps_def)

lemma distinct_keys_runOps:
  "distinct (map planKey ps) \<Longrightarrow> distinct (map planKey (runOps ops ps))"
  by (induction ops rule: rev_induct) (simp_all add: runOps_snoc distinct_keys_applyOp,
      simp add: runOps_def)

lemma lastEffectiveText_snoc:
  "lastEffectiveText T A (ops @ [op]) =
     (case effectiveText T A op of Some t \<Rightarrow> Some t | None \<Rightarrow> lastEffectiveText T A ops)"
  by (simp add: lastEffectiveText_def cong: option.case_cong)

lemma textInv_upsert:
  assumes inv: "textInv ops ps" and d: "distinct (map planKey ps)"
  shows "textInv (ops @ [Upsert memberId plan source threadId newId now])
           (upsertActionPlan memberId plan source threadId newId now ps)"
proof (cases "getMember memberId = None \<or> blank plan")
  case True
  then have "effectiveText T A (Upsert memberId plan source threadId newId now) = None" for T A
    by auto
  then show ?thesis
    using True inv by (simp add: upsert_ignored textInv_def lastEffectiveText_snoc)
next
  case False
  then obtain member where m: "getMember memberId = Some member" and nb: "\<not> blank plan"
    by auto
  let ?op = "Upsert memberId plan source threadId newId now"
  have eff: "effectiveText T A ?op =
              (if T = threadId \<and> A = memberId then Some (trim plan) else None)" for T A
    using m nb by auto
  show ?thesis
  proof (cases "findIndex (\<lambda>item. ap_threadId item = threadId \<and> ap_memberId item = memberId) ps")
    case None
    then have fresh: "\<forall>p \<in> set ps. \<not> (ap_threadId p = threadId \<and> ap_memberId p = memberId)"
      by (simp add: findIndex_None)
    show ?thesis
      unfolding textInv_def upsert_new[OF m nb None]
    proof
      fix p
      assume "p \<in> set (take 220 (\<lparr> ap_id = newId, ap_threadId = threadId,
          ap_memberId = memberId,
                      ap_memberName = cm_displayName member, ap_plan = trim plan,
                      ap_source = source, ap_createdAt = now, ap_updatedAt = now,
                      ap_lastExecutedAt = None, ap_lastExecutionSummary = None \<rparr> # ps))"
      then have "p \<in> set (\<lparr> ap_id = newId, ap_threadId = threadId,
          ap_memberId = memberId,
                      ap_memberName = cm_displayName member, ap_plan = trim plan,
                      ap_source = source, ap_createdAt = now, ap_updatedAt = now,
                      ap_lastExecutedAt = None, ap_lastExecutionSummary = None \<rparr> # ps)"
        by (rule in_set_takeD)
      then show "lastEffectiveText (ap_threadId p) (ap_memberId p) (ops @ [?op]) = Some (ap_plan p)"
        using fresh inv m nb by (auto simp: lastEffectiveText_snoc textInv_def)
    qed
  next
    case (Some i)
    then have i: "i < length ps" and ki: "ap_threadId (ps ! i) = threadId" "ap_memberId (ps ! i) = memberId"
      by (auto dest: findIndex_Some)
    show ?thesis
      unfolding textInv_def upsert_existing[OF m nb Some]
    proof
      fix p
      assume "p \<in> set (ps[i := (ps ! i) \<lparr> ap_plan := trim plan, ap_source := source,
          ap_updatedAt := now \<rparr>])"
      then obtain j where j: "j < length ps"
        and pj: "p = (ps[i := (ps ! i) \<lparr> ap_plan := trim plan, ap_source := source,
            ap_updatedAt := now \<rparr>]) ! j"
        by (auto simp: in_set_conv_nth)
      show "lastEffectiveText (ap_threadId p) (ap_memberId p) (ops @ [?op]) = Some (ap_plan p)"
      proof (cases "j = i")
        case True
        then show ?thesis using pj i ki m nb by (simp add: lastEffectiveText_snoc)
      next
        case False
        then have p: "p = ps ! j" using pj by simp
        have "planKey (ps ! j) \<noteq> planKey (ps ! i)"
          using d i j False by (simp add: distinct_conv_nth)
        then have "\<not> (ap_threadId p = threadId \<and> ap_memberId p = memberId)"
          using p ki by (auto simp: planKey_def)
        moreover have "p \<in> set ps" using p j by simp
        ultimately show ?thesis
          using inv m nb by (auto simp: lastEffectiveText_snoc textInv_def)
      qed
    qed
  qed
qed

lemma textInv_markExecuted:
  assumes inv: "textInv ops ps"
  shows "textInv (ops @ [MarkExecuted planId reply e u]) (markExecuted planId reply e u ps)"
  unfolding textInv_def
proof
  fix p
  assume "p \<in> set (markExecuted planId reply e u ps)"
  then obtain q where "q \<in> set ps" "planKey q = planKey p" "ap_plan q = ap_plan p"
    by (blast dest: plans_markExecuted)
  then show "lastEffectiveText (ap_threadId p) (ap_memberId p) (ops @
      [MarkExecuted planId reply e u])
             = Some (ap_plan p)"
    using inv by (auto simp: textInv_def lastEffectiveText_snoc planKey_def)
qed

lemma registry_invariant:
  "distinct (map planKey (runOps ops [])) \<and> textInv ops (runOps ops [])"
proof (induction ops rule: rev_induct)
  case Nil
  then show ?case by (simp add: runOps_def textInv_def)
next
  case (snoc op ops)
  then show ?case
    by (cases op) (simp_all add: runOps_snoc distinct_keys_upsert textInv_upsert textInv_markExecuted)
qed

lemma getMember_PO_TAN: "getMember (js ''PO-TAN'') = Some member_PO_TAN"
  by (simp add: getMember_def COUNCIL_MEMBERS_def member_defs js_def)

lemma getMember_PM_TAN: "getMember (js ''PM-TAN'') = Some member_PM_TAN"
  by (simp add: getMember_def COUNCIL_MEMBERS_def member_defs js_def)

lemma filter_key_le_1:
  "distinct (map f xs) \<Longrightarrow> length (filter (\<lambda>x. f x = k) xs) \<le> 1"
proof (induction xs)
  case Nil
  then show ?case by simp
next
  case (Cons x xs)
  show ?case
  proof (cases "f x = k")
    case True
    moreover from Cons.prems have "f x \<notin> f ` set xs" by simp
    ultimately have "\<forall>y \<in> set xs. f y \<noteq> k" by (metis imageI)
    then have "filter (\<lambda>x. f x = k) xs = []" by (simp add: filter_empty_conv)
    then show ?thesis using True by simp
  next
    case False
    then show ?thesis using Cons by simp
  qed
qed










lemma exampleUpserts_run:
  "runOps exampleUpserts [] =
     [\<lparr> ap_id = js ''id-1'', ap_threadId = exampleThread, ap_memberId = js ''PO-TAN'',
        ap_memberName = js ''PO-TAN'', ap_plan = js ''ship it'', ap_source = Workflow,
        ap_createdAt = js ''2026-01-01T00:00:00.000Z'',
        ap_updatedAt = js ''2026-01-01T00:00:00.000Z'',
        ap_lastExecutedAt = None, ap_lastExecutionSummary = None \<rparr>]"
proof -
  have t: "trim (js '' ship it '') = js ''ship it''"
    by (simp add: trim_def isWhitespace_def js_def)
  have b1: "\<not> blank (js '' ship it '')"
    by (simp add: blank_def t) (simp add: js_def)
  have b2: "blank (js '' '')"
    by (simp add: blank_def trim_def isWhitespace_def js_def)
  show ?thesis
    by (simp add: exampleUpserts_def runOps_def upsertActionPlan_def getMember_PO_TAN
          member_PO_TAN_def t b1 b2)
qed

subsection \<open>Claim C1: one plan per thread and member\<close>

text \<open>
  C1, as amended. After any sequence of registry operations from the empty registry, at most
  one plan exists for thread \<open>T\<close> and member \<open>A\<close>,
      and the text of a plan that exists is the
  trimmed text of the most recent upsert for that key that took effect: an upsert whose
  member is not on the roster, or whose text is blank, changes nothing. An upsert that takes
  effect overwrites plan, source and updatedAt of the existing record in place
  (\<open>upsert_existing\<close>); it creates a record, with createdAt equal to updatedAt,
      only when the
  key has no record (\<open>upsert_new\<close>).
\<close>

theorem C1_plan_uniqueness:
  "length (filter (\<lambda>p. ap_threadId p = T \<and> ap_memberId p = A) (runOps ops [])) \<le> 1 \<and>
   (\<forall>p \<in> set (runOps ops []).
      ap_threadId p = T \<and> ap_memberId p = A \<longrightarrow> lastEffectiveText T A ops = Some (ap_plan p))"
proof -
  have "distinct (map planKey (runOps ops []))"
    using registry_invariant by blast
  then have "length (filter (\<lambda>p. planKey p = (T, A)) (runOps ops [])) \<le> 1"
    by (rule filter_key_le_1)
  moreover have "textInv ops (runOps ops [])"
    using registry_invariant by blast
  ultimately show ?thesis
    by (auto simp: planKey_def textInv_def)
qed

text \<open>
  The witness: a first upsert stores its trimmed text, a second upsert with a blank text for
  the same key is ignored.
\<close>

theorem C1_plan_uniqueness_witness:
  "map ap_plan (runOps exampleUpserts []) = [js ''ship it''] \<and>
   lastEffectiveText exampleThread (js ''PO-TAN'') exampleUpserts = Some (js ''ship it'')"
  using C1_plan_uniqueness [of exampleThread "js ''PO-TAN''" exampleUpserts]
  by (simp add: exampleUpserts_run)

text \<open>
  C1 as it is written fails: the most recent upsert for the key supplied the text \<open>" "\<close>,
  and the first one supplied \<open>" ship it "\<close>; the plan holds \<open>"ship it"\<close>,
      which is neither.
\<close>

theorem C1_counterexample:
  "map ap_plan (runOps exampleUpserts []) = [js ''ship it''] \<and>
   js ''ship it'' \<noteq> js '' ''"
  by (simp add: exampleUpserts_run) (simp add: js_def)

subsection \<open>Claim C9: plans are kept\<close>




section \<open>Properties of the dispatch boundary\<close>







lemma snd_respond [simp]: "snd (respond r) = snd r"
  by (simp add: respond_def split: sum.splits)


lemma configuredKeys_ok:
  "isConfiguredSecret (OPENAI_API_KEY configuredKeys)"
  "isConfiguredSecret (GEMINI_API_KEY configuredKeys)"
  by (simp_all add: configuredKeys_def isConfiguredSecret_def DISABLED_SECRET_VALUES_def
        toLowerCaseAscii_def trim_def isWhitespace_def js_def)

lemma searchRequest_not_blank: "\<not> blank (rb_input (searchRequest p))"
  by (simp add: searchRequest_def blank_def trim_def isWhitespace_def js_def)

lemma provider_names_differ:
  "js ''gemini'' \<noteq> js ''openai''" "js ''gemini'' \<noteq> js ''anthropic''" "js ''gemini'' \<noteq> js ''xai''"
  "js ''openai'' \<noteq> js ''gemini''" "js ''anthropic'' \<noteq> js ''gemini''" "js ''xai'' \<noteq> js ''gemini''"
  "js ''gemini'' \<noteq> []" "js ''openai'' \<noteq> []"
  by (simp_all add: js_def)

lemma searchRequest_fields:
  "rb_provider (searchRequest p) = p" "rb_useWebSearch (searchRequest p)"
  "rb_model (searchRequest p) = []" "rb_baseUrl (searchRequest p) = []"
  "rb_instructions (searchRequest p) = []"
  by (simp_all add: searchRequest_def)

lemma openai_example_retried:
  "map bp_tools (snd (handleLlmText configuredKeys alwaysBadRequest (searchRequest (js ''openai''))))
     = [[WebSearchPreview], []]"
  by (simp add: handleLlmText_def Let_def searchRequest_not_blank provider_names_differ
        requestOpenAIText_def configuredKeys_ok alwaysBadRequest_def openAIPayload_def
        searchRequest_fields)



subsection \<open>Claim C3: one retry without web search\<close>




section \<open>Properties of the governance watcher\<close>

lemma sliceLast_short: "length xs \<le> n \<Longrightarrow> sliceLast n xs = xs"
  by (simp add: sliceLast_def)

lemma example_values_differ:
  "firstTurn \<noteq> secondTurn" "js ''t1'' \<noteq> js ''t2''" "js ''thread-main'' \<noteq> js ''thread-2''"
  "js ''thread-2'' \<noteq> js ''thread-main''"
  by (simp_all add: firstTurn_def secondTurn_def turnOf_def js_def)

text \<open>
  What the body of the effect does guard: it sets a timer only for a fingerprint that differs
  from the recorded one, with the polling flag down and at least 45000 ms after the last
  audit finished.
\<close>

lemma effectBody_guards:
  assumes "w_timer (effectBody i w) \<noteq> w_timer w"
  shows "Some (signatureOf i) \<noteq> governanceSignature w \<and> \<not> governancePolling w \<and>
         int (governanceLastRun w) + 45000 \<le> int (ei_now i)"
  using assms by (auto simp: effectBody_def split: if_splits)

lemma effectBody_same_fingerprint:
  "governanceSignature w = Some (signatureOf i) \<Longrightarrow> effectBody i w = w"
  by (simp add: effectBody_def)

subsection \<open>Claim C5: one audit per fingerprint, one audit at a time\<close>

text \<open>
  C5. The watcher does not keep what the claim says. The cleanup function of the effect
  resets the polling flag also when the timer has already fired, so a run of the effect during
  an audit sets a new timer and a second audit starts while the first is in flight
  (\<open>overlappingAudits\<close>); when the window is again the one of the audit in flight,
      the same
  fingerprint is audited twice (\<open>repeatedAudit\<close>). The fingerprint is recorded when the timer is
  set, so a timer that the cleanup clears leaves a fingerprint that is never audited
  (\<open>cancelledAudit\<close>).
\<close>

theorem C5_audits_overlap:
  "w_inFlight (runWatcher overlappingAudits initialWatcher) = 2 \<and>
   w_inFlight (runWatcher repeatedAudit initialWatcher) = 2 \<and>
   w_audits (runWatcher repeatedAudit initialWatcher) =
     [auditContext (observe (js ''thread-main'') [firstTurn] 1767225601000),
      auditContext (observe (js ''thread-main'') [firstTurn] 1767225601000)] \<and>
   w_audits (runWatcher cancelledAudit initialWatcher) = []"
proof -
  have "w_inFlight (runWatcher overlappingAudits initialWatcher) = 2"
    by (simp add: runWatcher_def overlappingAudits_def initialWatcher_def effectBody_def
          effectCleanup_def observe_def signatureOf_def sliceLast_short example_values_differ)
  moreover have "w_inFlight (runWatcher repeatedAudit initialWatcher) = 2"
    by (simp add: runWatcher_def repeatedAudit_def initialWatcher_def effectBody_def
          effectCleanup_def observe_def signatureOf_def sliceLast_short example_values_differ)
  moreover have "w_audits (runWatcher repeatedAudit initialWatcher) =
     [auditContext (observe (js ''thread-main'') [firstTurn] 1767225601000),
      auditContext (observe (js ''thread-main'') [firstTurn] 1767225601000)]"
    by (simp add: runWatcher_def repeatedAudit_def initialWatcher_def effectBody_def
          effectCleanup_def observe_def signatureOf_def sliceLast_short example_values_differ
          auditContext_def)
  moreover have "w_audits (runWatcher cancelledAudit initialWatcher) = []"
    by (simp add: runWatcher_def cancelledAudit_def initialWatcher_def effectBody_def
          effectCleanup_def observe_def signatureOf_def sliceLast_short)
  ultimately show ?thesis by simp
qed

section \<open>Properties of \<open>startWorkflow\<close>\<close>

subsection \<open>The phases a step goes through\<close>

lemma phaseTrace_basic [simp]:
  "phaseTrace (advance w) = phaseTrace w"
  "phaseTrace (appendLog e p m t w) = phaseTrace w"
  "phaseTrace (appendMeetingTurn e sid r sp sn tx src t w) = phaseTrace w"
  "phaseTrace (upsertPlan e mid pl s t w) = phaseTrace w"
  "phaseTrace (updateThreadTitle e t ti w) = phaseTrace w"
  "phaseTrace (setMembersToDesk ms a f w) = phaseTrace w"
  "phaseTrace (moveMembersToRoom ms r st w) = phaseTrace w"
  "phaseTrace (moveReportersToCEO ms w) = phaseTrace w"
  "phaseTrace (addLocalMessage e msg w) = phaseTrace w"
  "phaseTrace (addLocalReport e rep w) = phaseTrace w"
  "phaseTrace (addGovernanceAlert e so me stt t w) = phaseTrace w"
  "phaseTrace (setPhase p w) = phaseTrace w @ [p]"
  by (simp_all add: advance_def appendLog_def appendMeetingTurn_def upsertPlan_def
        updateThreadTitle_def setMembersToDesk_def moveMembersToRoom_def moveReportersToCEO_def
        addLocalMessage_def addLocalReport_def addGovernanceAlert_def setPhase_def)

lemma phaseTrace_getProxyAuthToken [simp]:
  "phaseTrace (snd (getProxyAuthToken e w)) = phaseTrace w"
  by (simp add: getProxyAuthToken_def)

lemma phaseTrace_persist [simp]:
  "phaseTrace (persistOfficeMessage e msg w) = phaseTrace w"
  "phaseTrace (persistReport e rep w) = phaseTrace w"
  by (simp_all add: persistOfficeMessage_def persistReport_def Let_def)

lemma phaseTrace_upload [simp]:
  "phaseTrace (snd (uploadFileAsset e file cat w)) = phaseTrace w"
  "phaseTrace (snd (uploadTextAsset e content name cat mime w)) = phaseTrace w"
  by (simp_all add: uploadFileAsset_def uploadTextAsset_def Let_def split: option.splits sum.splits)

lemma phaseTrace_requestLlmText [simp]:
  "phaseTrace (snd (requestLlmText e req w)) = phaseTrace w"
  by (simp add: requestLlmText_def Let_def split: proxyOutcome.splits option.splits)

lemma phaseTrace_runBrainstorm [simp]:
  "phaseTrace (snd (runBrainstorm e task w)) = phaseTrace w"
proof -
  obtain tok w1 where g: "getProxyAuthToken e w = (tok, w1)" by (cases "getProxyAuthToken e w")
  then have w1: "phaseTrace w1 = phaseTrace w"
    using phaseTrace_getProxyAuthToken[of e w] by simp
  obtain r w2 where q: "requestLlmText e (brainstormRequest w task tok) w1 = (r, w2)"
    by (cases "requestLlmText e (brainstormRequest w task tok) w1")
  then have "phaseTrace w2 = phaseTrace w1"
    using phaseTrace_requestLlmText[of e "brainstormRequest w task tok" w1] by simp
  then show ?thesis
    using g q w1 by (simp add: runBrainstorm_def split: sum.splits option.splits)
qed

lemma startWorkflow_rejected:
  assumes "blank task \<or> running w"
  shows "startWorkflow e task w =
           w \<lparr> workflowError := (if blank task then emptyDirectiveMessage else alreadyRunningMessage) \<rparr>"
  using assms by (auto simp: startWorkflow_def)

lemma phaseTrace_runPoPmManagementPlan [simp]:
  "phaseTrace (snd (runPoPmManagementPlan e task strategy ps w)) = phaseTrace w"
  by (simp add: runPoPmManagementPlan_def Let_def split_beta split: sum.splits prod.splits)

lemma phaseTrace_turnNote [simp]:
  "phaseTrace (snd (turnNote e task strategy mc tok member s)) = phaseTrace (cl_world s)"
  by (simp add: turnNote_def split_beta)

lemma phaseTrace_collaborationTurn [simp]:
  "phaseTrace (cl_world (collaborationTurn e task strategy mc tok sid t member s)) =
   phaseTrace (cl_world s)"
  by (simp add: collaborationTurn_def Let_def split_beta)

lemma phaseTrace_collaborationTurns [simp]:
  "phaseTrace (cl_world (collaborationTurns e task strategy mc tok sid t ms s)) =
   phaseTrace (cl_world s)"
  by (induction ms arbitrary: s) (simp_all split: option.splits)

lemma phaseTrace_runCollaboration [simp]:
  "phaseTrace (snd (runCollaboration e task strategy ps mc w)) = phaseTrace w"
  by (simp add: runCollaboration_def Let_def split_beta startSession_def)

lemma phaseTrace_runFinalReport [simp]:
  "phaseTrace (snd (runFinalReport e task strategy notes plans w)) = phaseTrace w"
  by (simp add: runFinalReport_def Let_def split_beta)

lemma phaseTrace_runOfficerSingleReply [simp]:
  "phaseTrace (snd (runOfficerSingleReply e mid prompt atts target prior w)) = phaseTrace w"
  by (simp add: runOfficerSingleReply_def Let_def split_beta split: option.splits)

lemma phaseTrace_governanceCheck [simp]:
  "phaseTrace (governanceCheck e context t checker w) = phaseTrace w"
  by (simp add: governanceCheck_def Let_def split: sum.splits prod.splits)
     (metis phaseTrace_runOfficerSingleReply snd_conv)

lemma phaseTrace_runGovernanceWatch [simp]:
  "phaseTrace (runGovernanceWatch e context t w) = phaseTrace w"
  by (simp add: runGovernanceWatch_def)

lemma phaseTrace_upsertNotes [simp]:
  "phaseTrace (upsertNotes e t ns w) = phaseTrace w"
  unfolding upsertNotes_def by (induction ns arbitrary: w) simp_all

lemma phaseTrace_setups [simp]:
  "phaseTrace (brainstormingSetup e task t w) = phaseTrace w @ [Brainstorming]"
  "phaseTrace (recordStrategy e t brainstorm w) = phaseTrace w"
  "phaseTrace (collaborationSetup e t ms w) = phaseTrace w @ [Collaboration]"
  "phaseTrace (recordManagement e t poPlan pmPlan w) = phaseTrace w"
  "phaseTrace (reportingSetup w) = phaseTrace w @ [Reporting]"
  "phaseTrace (finishRun w) = phaseTrace w @ [Idle]"
  "phaseTrace (workflowFailed e message t w) = phaseTrace w @ [Idle]"
  by (simp_all add: brainstormingSetup_def recordStrategy_def collaborationSetup_def
        recordManagement_def reportingSetup_def finishRun_def workflowFailed_def Let_def)

lemma phaseTrace_brainstormingStage [simp]:
  "phaseTrace (snd (brainstormingStage e task t w)) = phaseTrace w @ [Brainstorming]"
proof -
  obtain r w1 where rb: "runBrainstorm e task (brainstormingSetup e task t w) = (r, w1)"
    by (cases "runBrainstorm e task (brainstormingSetup e task t w)")
  then have "phaseTrace w1 = phaseTrace w @ [Brainstorming]"
    using phaseTrace_runBrainstorm[of e task "brainstormingSetup e task t w"] by simp
  then show ?thesis
    using rb by (cases r) (simp_all add: brainstormingStage_def)
qed

lemma phaseTrace_collaborationStage [simp]:
  "phaseTrace (snd (collaborationStage e task t brainstorm ms w)) = phaseTrace w @ [Collaboration]"
proof -
  obtain r w1 where rp: "runPoPmManagementPlan e task (bs_strategy brainstorm) ms
                           (collaborationSetup e t ms w) = (r, w1)"
    by (cases "runPoPmManagementPlan e task (bs_strategy brainstorm) ms (collaborationSetup e t ms w)")
  then have w1: "phaseTrace w1 = phaseTrace w @ [Collaboration]"
    using phaseTrace_runPoPmManagementPlan[of e task "bs_strategy brainstorm" ms
            "collaborationSetup e t ms w"] by simp
  show ?thesis
  proof (cases r)
    case (Inl message)
    then show ?thesis
      using rp w1 by (simp add: collaborationStage_def)
  next
    case (Inr plans)
    obtain poPlan pmPlan where plans: "plans = (poPlan, pmPlan)" by (cases plans)
    show ?thesis
      using rp w1 Inr plans
      by (simp add: collaborationStage_def Let_def split_beta)
  qed
qed

lemma phaseTrace_uploadAttachment [simp]:
  "phaseTrace (snd (uploadAttachment e t attachment w)) = phaseTrace w"
proof -
  define w0 where "w0 = appendLog e Execution ([0xCCA8, 0xBD80, 0x20, 0xD30C, 0xC77C, 0x20, 0xC5C5,
      0xB85C, 0xB4DC, 0x20, 0xC2DC, 0xC791, 0x3A, 0x20] @ f_name attachment) t w"
  obtain r w1 where up: "uploadFileAsset e attachment (js ''workflow-inputs'') w0 = (r, w1)"
    by (cases "uploadFileAsset e attachment (js ''workflow-inputs'') w0")
  have "phaseTrace w1 = phaseTrace w0"
    using phaseTrace_upload(1)[of e attachment "js ''workflow-inputs''" w0] up by simp
  then show ?thesis
    using up unfolding uploadAttachment_def w0_def[symmetric]
    by (cases r) (simp_all add: w0_def)
qed

lemma phaseTrace_executionStage [simp]:
  "phaseTrace (snd (executionStage e t ms w)) = phaseTrace w @ [Execution]"
  by (simp add: executionStage_def Let_def executionSetup_def split: option.splits)

lemma phaseTrace_deliverReport [simp]:
  "phaseTrace (deliverReport e task t brainstorm ms outcome inbound text w) = phaseTrace w"
  by (simp add: deliverReport_def Let_def split_beta uploadOrNone_def split: sum.splits prod.splits)

lemma phaseTrace_reportingStage:
  "phaseTrace (snd (reportingStage e task t brainstorm ms outcome inbound w)) =
     phaseTrace w @ (case fst (reportingStage e task t brainstorm ms outcome inbound w) of
                       Inl message \<Rightarrow> [Reporting] | Inr done \<Rightarrow> [Reporting,
                           Idle])"
proof -
  define w1 where "w1 = reportingSetup w"
  obtain r w2 where rf: "runFinalReport e task (bs_strategy brainstorm) (cs_notes (co_session outcome))
             (reportPlansOf e (tick w1) t outcome) (advance w1) = (r, w2)"
    by (cases "runFinalReport e task (bs_strategy brainstorm) (cs_notes (co_session outcome))
             (reportPlansOf e (tick w1) t outcome) (advance w1)")
  have "phaseTrace w2 = phaseTrace (advance w1)"
    using phaseTrace_runFinalReport[of e task "bs_strategy brainstorm" "cs_notes (co_session outcome)"
            "reportPlansOf e (tick w1) t outcome" "advance w1"] rf by simp
  then have "phaseTrace w2 = phaseTrace w @ [Reporting]"
    by (simp add: w1_def)
  then show ?thesis
    using rf unfolding reportingStage_def Let_def w1_def[symmetric]
    by (cases r) simp_all
qed

lemma phaseTrace_beginRun [simp]: "phaseTrace (beginRun e task w) = phaseTrace w"
  by (simp add: beginRun_def)

text \<open>
  The phases of the body: brainstorming, collaboration, execution, reporting, in this order,
  up to the stage that throws; a body that returns has gone through all four and back to idle.
\<close>

lemma phaseTrace_workflowBody:
  "\<exists>n. 1 \<le> n \<and> n \<le> 4 \<and>
     phaseTrace (snd (workflowBody e task t w)) =
       phaseTrace w @ take n [Brainstorming, Collaboration, Execution, Reporting]
         @
             (case fst (workflowBody e task t w) of Inl message \<Rightarrow> [] | Inr done \<Rightarrow> [Idle]) \<and>
     (fst (workflowBody e task t w) = Inr () \<longrightarrow> n = 4) \<and>
     ((\<exists>brainstorm. fst (brainstormingStage e task t w) = Inr brainstorm) \<longrightarrow> 2 \<le> n)"
proof -
  obtain r1 w1 where s1: "brainstormingStage e task t w = (r1, w1)"
    by (cases "brainstormingStage e task t w")
  then have t1: "phaseTrace w1 = phaseTrace w @ [Brainstorming]"
    using phaseTrace_brainstormingStage[of e task t w] by simp
  show ?thesis
  proof (cases r1)
    case (Inl message)
    then have "workflowBody e task t w = (Inl message, w1)"
      using s1 by (simp add: workflowBody_def)
    then show ?thesis using t1 s1 Inl by (intro exI[of _ 1]) simp
  next
    case (Inr brainstorm)
    define ms where "ms = collaborationMembersOf brainstorm"
    obtain r2 w2 where s2: "collaborationStage e task t brainstorm ms w1 = (r2, w2)"
      by (cases "collaborationStage e task t brainstorm ms w1")
    then have t2: "phaseTrace w2 = phaseTrace w @ [Brainstorming, Collaboration]"
      using phaseTrace_collaborationStage[of e task t brainstorm ms w1] t1 by simp
    show ?thesis
    proof (cases r2)
      case (Inl message)
      then have "workflowBody e task t w = (Inl message, w2)"
        using s1 s2 Inr by (simp add: workflowBody_def Let_def ms_def)
      then show ?thesis using t2 by (intro exI[of _ 2]) (simp add: numeral_2_eq_2)
    next
      case outcome: (Inr outcome)
      obtain inbound w3 where s3: "executionStage e t ms w2 = (inbound, w3)"
        by (cases "executionStage e t ms w2")
      then have t3: "phaseTrace w3 = phaseTrace w @ [Brainstorming, Collaboration, Execution]"
        using phaseTrace_executionStage[of e t ms w2] t2 by simp
      have body: "workflowBody e task t w = reportingStage e task t brainstorm ms outcome inbound w3"
        using s1 s2 s3 Inr outcome by (simp add: workflowBody_def Let_def ms_def)
      show ?thesis
      proof (cases "fst (reportingStage e task t brainstorm ms outcome inbound w3)")
        case (Inl message)
        then show ?thesis
          using body t3 phaseTrace_reportingStage[of e task t brainstorm ms outcome inbound w3]
          by (intro exI[of _ 4]) simp
      next
        case (Inr finished)
        then show ?thesis
          using body t3 phaseTrace_reportingStage[of e task t brainstorm ms outcome inbound w3]
          by (intro exI[of _ 4]) simp
      qed
    qed
  qed
qed

lemma workflowBody_finishes:
  assumes "workflowBody e task t w = (Inr (), w')"
  shows "\<exists>w0. w' = finishRun w0"
proof -
  have r: "\<exists>w0. w' = finishRun w0"
    if "reportingStage e task t brainstorm ms outcome inbound w3 = (Inr (), w')"
    for brainstorm ms outcome inbound w3
    using that
    by (auto simp: reportingStage_def Let_def split: prod.splits sum.splits)
  show ?thesis
    using assms
    by (auto simp: workflowBody_def Let_def split: prod.splits sum.splits dest: r)
qed

lemma roster_member_cases:
  assumes "getMember m \<noteq> None"
  shows "m \<in> set (map cm_id COUNCIL_MEMBERS)" and "m \<noteq> CEO_HOBBY \<Longrightarrow> m \<in> set nonCeoMembers"
proof -
  obtain member where "find (\<lambda>member. cm_id member = m) COUNCIL_MEMBERS = Some member"
    using assms by (auto simp: getMember_def)
  then have "member \<in> set COUNCIL_MEMBERS" "cm_id member = m"
    by (auto simp: find_Some_iff in_set_conv_nth)
  then show "m \<in> set (map cm_id COUNCIL_MEMBERS)" by auto
  show "m \<in> set nonCeoMembers" if "m \<noteq> CEO_HOBBY"
    using \<open>member \<in> set COUNCIL_MEMBERS\<close> \<open>cm_id member = m\<close> that
    by (auto simp: nonCeoMembers_def)
qed

lemma finishRun_state:
  "phase (finishRun w) = Idle" "\<not> running (finishRun w)" "activeMembers (finishRun w) = []"
  "getMember m \<noteq> None \<Longrightarrow> \<exists>a. agents (finishRun w) m = Some a \<and> \<not> ag_active a"
proof -
  show "phase (finishRun w) = Idle" "\<not> running (finishRun w)" "activeMembers (finishRun w) = []"
    by (simp_all add: finishRun_def setMembersToDesk_def setPhase_def)
  show "\<exists>a. agents (finishRun w) m = Some a \<and> \<not> ag_active a" if "getMember m \<noteq> None"
    using that roster_member_cases(2)[OF that]
    by (cases "m = CEO_HOBBY") (simp_all add: finishRun_def setMembersToDesk_def setPhase_def)
qed

lemma workflowFailed_state:
  "phase (workflowFailed e message t w) = Idle" "\<not> running (workflowFailed e message t w)"
  "activeMembers (workflowFailed e message t w) = []"
  "workflowError (workflowFailed e message t w) = message"
  "getMember m \<noteq> None \<Longrightarrow> \<exists>a. agents (workflowFailed e message t w) m = Some a \<and> \<not> ag_active a"
  "activityLogs (workflowFailed e message t w) =
     take 140 (\<lparr> al_id = makeId e (tick w), al_threadId = t,
         al_createdAt = e_isoNow e (tick w),
                  al_phase = Reporting,
                      al_message = failureLogMessage message \<rparr> # activityLogs w)"
proof -
  show "phase (workflowFailed e message t w) = Idle" "\<not> running (workflowFailed e message t w)"
    "activeMembers (workflowFailed e message t w) = []"
    "workflowError (workflowFailed e message t w) = message"
    by (simp_all add: workflowFailed_def setMembersToDesk_def setPhase_def appendLog_def advance_def)
  show "\<exists>a. agents (workflowFailed e message t w) m = Some a \<and> \<not> ag_active a"
    if "getMember m \<noteq> None"
    using that roster_member_cases(1)[OF that]
    by (simp add: workflowFailed_def setMembersToDesk_def setPhase_def)
  show "activityLogs (workflowFailed e message t w) =
     take 140 (\<lparr> al_id = makeId e (tick w), al_threadId = t,
         al_createdAt = e_isoNow e (tick w),
                  al_phase = Reporting,
                      al_message = failureLogMessage message \<rparr> # activityLogs w)"
    by (simp add: workflowFailed_def setMembersToDesk_def setPhase_def appendLog_def advance_def
          del: take_Cons_numeral)
qed

subsection \<open>Claim C4: a rejected call changes nothing but the error message\<close>



subsection \<open>Claim C8: every run ends idle\<close>

text \<open>
  C8. An accepted call of \<open>startWorkflow\<close>,
      in which every awaited call returns or throws,
  ends with the phase idle, the running flag cleared, no active member and every agent of the
  roster inactive. Its phases are a prefix of brainstorming, collaboration, execution,
  reporting, followed by idle. When an error leaves the body of the \<open>try\<close> block,
      its message
  is the one error message shown, and the first entry of the activity log carries it. A
  directive that is not blank is accepted by the next call and enters brainstorming.
\<close>

theorem C8_run_ends_idle:
  assumes "\<not> blank task" "\<not> running w"
  shows "phase (startWorkflow e task w) = Idle
       \<and> \<not> running (startWorkflow e task w)
       \<and> activeMembers (startWorkflow e task w) = []
       \<and> (\<forall>m. getMember m \<noteq> None \<longrightarrow>
            (\<exists>a. agents (startWorkflow e task w) m = Some a \<and> \<not> ag_active a))
       \<and> (\<exists>n. 1 \<le> n \<and> n \<le> 4 \<and>
            phaseTrace (startWorkflow e task w) =
              phaseTrace w @ take n [Brainstorming, Collaboration, Execution, Reporting] @ [Idle])
       \<and> (\<forall>message w1.
            workflowBody e (trim task) (activeThreadId w) (beginRun e task w) = (Inl message,
                w1) \<longrightarrow>
              workflowError (startWorkflow e task w) = message \<and>
              activityLogs (startWorkflow e task w) =
                take 140 (\<lparr> al_id = makeId e (tick w1), al_threadId = activeThreadId w,
                             al_createdAt = e_isoNow e (tick w1), al_phase = Reporting,
                             al_message = failureLogMessage message \<rparr> # activityLogs w1))
       \<and> (\<forall>e' task'. \<not> blank task' \<longrightarrow>
            (\<exists>n. 1 \<le> n \<and> n \<le> 4 \<and>
               phaseTrace (startWorkflow e' task' (startWorkflow e task w)) =
                 phaseTrace (startWorkflow e task w)
                   @ take n [Brainstorming, Collaboration, Execution, Reporting] @ [Idle]))"
proof -
  have trace: "\<exists>n. 1 \<le> n \<and> n \<le> 4 \<and>
            phaseTrace (startWorkflow e0 task0 w0) =
              phaseTrace w0 @ take n [Brainstorming, Collaboration, Execution, Reporting] @ [Idle]"
    if "\<not> blank task0" "\<not> running w0" for e0 task0 w0
  proof -
    obtain r w1 where body: "workflowBody e0 (trim task0) (activeThreadId w0) (beginRun e0 task0 w0) = (r, w1)"
      by (cases "workflowBody e0 (trim task0) (activeThreadId w0) (beginRun e0 task0 w0)")
    obtain n where n: "1 \<le> n" "n \<le> 4"
      "phaseTrace w1 = phaseTrace w0 @ take n [Brainstorming, Collaboration, Execution, Reporting]
         @ (case r of Inl message \<Rightarrow> [] | Inr done \<Rightarrow> [Idle])"
      using phaseTrace_workflowBody[of e0 "trim task0" "activeThreadId w0" "beginRun e0 task0 w0"] body
      by auto
    show ?thesis
      using that body n by (cases r) (auto simp: startWorkflow_def)
  qed
  obtain r w1 where body: "workflowBody e (trim task) (activeThreadId w) (beginRun e task w) = (r,
      w1)"
    by (cases "workflowBody e (trim task) (activeThreadId w) (beginRun e task w)")
  have final: "phase (startWorkflow e task w) = Idle \<and> \<not> running (startWorkflow e task w)
       \<and> activeMembers (startWorkflow e task w) = []
       \<and> (\<forall>m. getMember m \<noteq> None \<longrightarrow>
            (\<exists>a. agents (startWorkflow e task w) m = Some a \<and> \<not> ag_active a))"
  proof (cases r)
    case (Inl message)
    then have "startWorkflow e task w = workflowFailed e message (activeThreadId w) w1"
      using assms body by (simp add: startWorkflow_def)
    then show ?thesis
      by (simp add: workflowFailed_state)
  next
    case (Inr u)
    then obtain w0 where "w1 = finishRun w0"
      using workflowBody_finishes[of e "trim task" "activeThreadId w" "beginRun e task w" w1] body
      by auto
    then have "startWorkflow e task w = finishRun w0"
      using assms body Inr by (simp add: startWorkflow_def)
    then show ?thesis
      by (simp add: finishRun_state)
  qed
  have failure: "workflowError (startWorkflow e task w) = message \<and>
              activityLogs (startWorkflow e task w) =
                take 140 (\<lparr> al_id = makeId e (tick w'), al_threadId = activeThreadId w,
                             al_createdAt = e_isoNow e (tick w'), al_phase = Reporting,
                             al_message = failureLogMessage message \<rparr> # activityLogs w')"
    if "workflowBody e (trim task) (activeThreadId w) (beginRun e task w) = (Inl message, w')"
    for message w'
  proof -
    have "startWorkflow e task w = workflowFailed e message (activeThreadId w) w'"
      using assms that by (simp add: startWorkflow_def)
    then show ?thesis
      by (simp only: workflowFailed_state)
  qed
  have "\<not> running (startWorkflow e task w)" using final by simp
  then have again: "\<forall>e' task'. \<not> blank task' \<longrightarrow>
            (\<exists>n. 1 \<le> n \<and> n \<le> 4 \<and>
               phaseTrace (startWorkflow e' task' (startWorkflow e task w)) =
                 phaseTrace (startWorkflow e task w)
                   @ take n [Brainstorming, Collaboration, Execution, Reporting] @ [Idle])"
    using trace by blast
  show ?thesis
    using final trace[OF assms] failure again by blast
qed

text \<open>
  The witness: signed in, with a proxy that answers the brainstorming request (the fetch at
  tick 3) with status 500.
\<close>

lemma launch_not_blank: "\<not> blank (js ''Launch a beta'')"
  by (simp add: blank_def trim_def isWhitespace_def js_def)

theorem C8_run_ends_idle_witness:
  "phase (startWorkflow (onlineEnv 3) (js ''Launch a beta'') initialWorld) = Idle \<and>
   \<not> running (startWorkflow (onlineEnv 3) (js ''Launch a beta'') initialWorld) \<and>
   activeMembers (startWorkflow (onlineEnv 3) (js ''Launch a beta'') initialWorld) = []"
proof -
  have r: "\<not> running initialWorld"
    by (simp add: initialWorld_def)
  show ?thesis
    using C8_run_ends_idle [OF launch_not_blank r, of "onlineEnv 3"] by blast
qed

subsection \<open>Claim C7: a response that does not parse\<close>

lemma roster_ids:
  "map cm_id COUNCIL_MEMBERS =
     [js ''CEO-HOBBY'', js ''HOST-TAN'', js ''ATTENDANT-TAN'', js ''PO-TAN'', js ''PM-TAN'',
      js ''BA-TAN'', js ''DEV-TAN'', js ''QA-TAN'', js ''UX-TAN'', js ''HR-TAN'', js ''LEGAL-TAN'',
      js ''MARKETING-TAN'', js ''CS-TAN'', js ''RESEARCHER-TAN'']"
  by (simp add: COUNCIL_MEMBERS_def member_defs)

lemma getMember_known: "getMember m \<noteq> None \<longleftrightarrow> m \<in> set (map cm_id COUNCIL_MEMBERS)"
  by (auto simp: getMember_def find_None_iff)

lemma getMember_known_ex:
  "(\<exists>member. getMember m = Some member) \<longleftrightarrow> m \<in> set (map cm_id COUNCIL_MEMBERS)"
  using getMember_known[of m] by auto

lemma getMember_id: "getMember m = Some member \<Longrightarrow> cm_id member = m"
  by (auto simp: getMember_def find_Some_iff)








section \<open>Properties of the collaboration session\<close>

lemma turnNote_frame [simp]:
  "meetingTurns (snd (turnNote e task strategy mc tok member s)) = meetingTurns (cl_world s)"
  "actionPlans (snd (turnNote e task strategy mc tok member s)) = actionPlans (cl_world s)"
  by (simp_all add: turnNote_def requestLlmText_def Let_def advance_def
        split: proxyOutcome.splits option.splits)

lemma turnNote_calls:
  "llmCalls (snd (turnNote e task strategy mc tok member s)) =
     (if tok = [] then llmCalls (cl_world s)
      else llmCalls (cl_world s)
             @
                 [collaborationRequest (cl_world s) member task strategy mc (cl_priorDialogue s) tok])"
  by (simp add: turnNote_def requestLlmText_def Let_def advance_def
        split: proxyOutcome.splits option.splits)

text \<open>What one turn adds to the state of the loop.\<close>

lemma collaborationTurn_adds:
  fixes e task strategy mc tok sid t member s
  defines "s' \<equiv> collaborationTurn e task strategy mc tok sid t member s"
    and "note \<equiv> fst (turnNote e task strategy mc tok member s)"
  shows "cl_notes s' = cl_notes s @ [\<lparr> cn_memberId = cm_id member, cn_note = note \<rparr>]"
    and "cl_priorDialogue s' = cl_priorDialogue s @ cm_id member @ js '': '' @ note @ [0x0A, 0x0A]"
    and "map mt_speakerId (cl_transcript s') = map mt_speakerId (cl_transcript s) @ [cm_id member]"
    and "map mt_text (cl_transcript s') = map mt_text (cl_transcript s) @ [note]"
    and "actionPlans (cl_world s') = actionPlans (cl_world s)"
    and "llmCalls (cl_world s') = llmCalls (snd (turnNote e task strategy mc tok member s))"
    and "\<forall>turn \<in> set (meetingTurns (cl_world s')).
           turn \<in> set (meetingTurns (cl_world s)) \<or> mt_speakerId turn = cm_id member"
proof -
  show "cl_notes s' = cl_notes s @ [\<lparr> cn_memberId = cm_id member, cn_note = note \<rparr>]"
    "cl_priorDialogue s' = cl_priorDialogue s @ cm_id member @ js '': '' @ note @ [0x0A, 0x0A]"
    "map mt_speakerId (cl_transcript s') = map mt_speakerId (cl_transcript s) @ [cm_id member]"
    "map mt_text (cl_transcript s') = map mt_text (cl_transcript s) @ [note]"
    by (simp_all add: s'_def note_def collaborationTurn_def Let_def split_beta)
  show "actionPlans (cl_world s') = actionPlans (cl_world s)"
    "llmCalls (cl_world s') = llmCalls (snd (turnNote e task strategy mc tok member s))"
    by (simp_all add: s'_def collaborationTurn_def Let_def split_beta appendLog_def
          appendMeetingTurn_def advance_def)
  show "\<forall>turn \<in> set (meetingTurns (cl_world s')).
           turn \<in> set (meetingTurns (cl_world s)) \<or> mt_speakerId turn = cm_id member"
    by (auto simp: s'_def collaborationTurn_def Let_def split_beta appendLog_def
          appendMeetingTurn_def advance_def dest!: in_set_takeD)
qed

lemma collaborationTurns_session:
  fixes e task strategy mc tok sid t ms s
  defines "s' \<equiv> collaborationTurns e task strategy mc tok sid t ms s"
  shows "map cn_memberId (cl_notes s') =
           map cn_memberId (cl_notes s) @
               filter (\<lambda>memberId. getMember memberId \<noteq> None) ms"
    and "map mt_speakerId (cl_transcript s') =
           map mt_speakerId (cl_transcript s) @
               filter (\<lambda>memberId. getMember memberId \<noteq> None) ms"
    and "actionPlans (cl_world s') = actionPlans (cl_world s)"
    and "\<forall>turn \<in> set (meetingTurns (cl_world s')).
           turn \<in> set (meetingTurns (cl_world s)) \<or> mt_speakerId turn \<in> set ms"
    and "map mt_text (cl_transcript s) = map cn_note (cl_notes s) \<Longrightarrow>
         map mt_text (cl_transcript s') = map cn_note (cl_notes s')"
  unfolding s'_def
proof (induction ms arbitrary: s)
  case Nil
  {
    case 1 show ?case by simp
  next
    case 2 show ?case by simp
  next
    case 3 show ?case by simp
  next
    case 4 show ?case by simp
  next
    case 5 then show ?case by simp
  }
next
  case (Cons memberId rest)
  {
    case 1
    show ?case
      using Cons.IH(1) by (auto simp: collaborationTurn_adds(1) dest: getMember_id split: option.splits)
  next
    case 2
    show ?case
      using Cons.IH(2) by (auto simp: collaborationTurn_adds(3) dest: getMember_id split: option.splits)
  next
    case 3
    show ?case
      using Cons.IH(3) by (simp add: collaborationTurn_adds(5) split: option.splits)
  next
    case 4
    show ?case
    proof (cases "getMember memberId")
      case None
      then show ?thesis using Cons.IH(4)[of s] by auto
    next
      case (Some member)
      then have id: "cm_id member = memberId" by (rule getMember_id)
      show ?thesis
        using Cons.IH(4)[of "collaborationTurn e task strategy mc tok sid t member s"]
          collaborationTurn_adds(7)[of e task strategy mc tok sid t member s] Some id
        by auto
    qed
  next
    case 5
    then show ?case
      using Cons.IH(5) by (simp add: collaborationTurn_adds(1,4) split: option.splits)
  }
qed

lemma getProxyAuthToken_frame [simp]:
  "meetingTurns (snd (getProxyAuthToken e w)) = meetingTurns w"
  "actionPlans (snd (getProxyAuthToken e w)) = actionPlans w"
  "llmCalls (snd (getProxyAuthToken e w)) = llmCalls w"
  "activeThreadId (snd (getProxyAuthToken e w)) = activeThreadId w"
  by (simp_all add: getProxyAuthToken_def advance_def)

text \<open>The session that \<open>runCollaboration\<close> returns,
    and what it leaves in the state.\<close>

lemma runCollaboration_session:
  fixes e task strategy participants mc w
  defines "session \<equiv> fst (runCollaboration e task strategy participants mc w)"
    and "w' \<equiv> snd (runCollaboration e task strategy participants mc w)"
  shows "map cn_memberId (cs_notes session) =
           filter (\<lambda>memberId. getMember memberId \<noteq> None) (take 8 participants)"
    and "map mt_speakerId (cs_transcript session) =
           filter (\<lambda>memberId. getMember memberId \<noteq> None) (take 8 participants)"
    and "map mt_text (cs_transcript session) = map cn_note (cs_notes session)"
    and "actionPlans w' = actionPlans w"
    and "\<forall>turn \<in> set (meetingTurns w').
           turn \<in> set (meetingTurns w) \<or> mt_speakerId turn \<in> set (take 8 participants)"
proof -
  define tok where "tok = fst (getProxyAuthToken e (advance w))"
  define w1 where "w1 = snd (getProxyAuthToken e (advance w))"
  define sid where "sid = js ''collab-'' @ showNat (e_dateNow e (tick w))"
  define s where "s = collaborationTurns e task strategy mc tok sid (activeThreadId w)
                        (take 8 participants) (startSession mc w1)"
  have session: "session = \<lparr> cs_sessionId = sid, cs_notes = cl_notes s,
      cs_transcript = cl_transcript s \<rparr>"
    and w': "w' = cl_world s"
    by (simp_all add: session_def w'_def runCollaboration_def Let_def split_beta s_def tok_def
          w1_def sid_def)
  have start: "cl_notes (startSession mc w1) = []" "cl_transcript (startSession mc w1) = []"
    "meetingTurns (cl_world (startSession mc w1)) = meetingTurns w"
    "actionPlans (cl_world (startSession mc w1)) = actionPlans w"
    by (simp_all add: startSession_def w1_def advance_def)
  show "map cn_memberId (cs_notes session) =
           filter (\<lambda>memberId. getMember memberId \<noteq> None) (take 8 participants)"
    using collaborationTurns_session(1)[of e task strategy mc tok sid "activeThreadId w"
            "take 8 participants" "startSession mc w1"]
    by (simp add: session s_def start)
  show "map mt_speakerId (cs_transcript session) =
           filter (\<lambda>memberId. getMember memberId \<noteq> None) (take 8 participants)"
    using collaborationTurns_session(2)[of e task strategy mc tok sid "activeThreadId w"
            "take 8 participants" "startSession mc w1"]
    by (simp add: session s_def start)
  show "map mt_text (cs_transcript session) = map cn_note (cs_notes session)"
    using collaborationTurns_session(5)[of "startSession mc w1" e task strategy mc tok sid
            "activeThreadId w" "take 8 participants"]
    by (simp add: session s_def start)
  show "actionPlans w' = actionPlans w"
    using collaborationTurns_session(3)[of e task strategy mc tok sid "activeThreadId w"
            "take 8 participants" "startSession mc w1"]
    by (simp add: w' s_def start)
  show "\<forall>turn \<in> set (meetingTurns w').
           turn \<in> set (meetingTurns w) \<or> mt_speakerId turn \<in> set (take 8 participants)"
    using collaborationTurns_session(4)[of e task strategy mc tok sid "activeThreadId w"
            "take 8 participants" "startSession mc w1"]
    by (simp add: w' s_def start)
qed

lemma upsertActionPlan_members:
  assumes "p \<in> set (upsertActionPlan memberId plan source threadId newId now ps)"
  shows "p \<in> set ps \<or> ap_memberId p = memberId"
proof (cases "getMember memberId = None \<or> blank plan")
  case True
  then show ?thesis using assms by (simp add: upsert_ignored)
next
  case False
  then obtain member where m: "getMember memberId = Some member" and nb: "\<not> blank plan"
    by auto
  show ?thesis
  proof (cases "findIndex (\<lambda>item. ap_threadId item = threadId \<and> ap_memberId item = memberId) ps")
    case None
    then show ?thesis
      using assms by (auto simp: upsert_new[OF m nb None] dest!: in_set_takeD)
  next
    case (Some i)
    then have i: "i < length ps" "ap_memberId (ps ! i) = memberId"
      by (auto dest: findIndex_Some)
    have "p \<in> insert ((ps ! i) \<lparr> ap_plan := trim plan, ap_source := source,
        ap_updatedAt := now \<rparr>) (set ps)"
      using assms set_update_subset_insert[of ps i] by (auto simp: upsert_existing[OF m nb Some])
    then show ?thesis using i by auto
  qed
qed

lemma upsertNotes_members:
  "p \<in> set (actionPlans (upsertNotes e t ns w)) \<Longrightarrow>
   p \<in> set (actionPlans w) \<or> ap_memberId p \<in> set (map cn_memberId ns)"
  unfolding upsertNotes_def
proof (induction ns arbitrary: w)
  case Nil
  then show ?case by simp
next
  case (Cons n ns)
  from Cons.IH[OF Cons.prems[simplified]]
  show ?case
    by (auto simp: upsertPlan_def advance_def dest: upsertActionPlan_members)
qed

subsection \<open>Claim C10: the first eight participants\<close>

text \<open>
  C10. \<open>runCollaboration\<close> takes the first eight entries of the participant list,
      whatever its
  length. The notes and the turns of the session are those of the entries among the first
  eight that are on the roster, in order, so there are at most eight of each; every meeting
  turn that the session adds to the state is spoken by one of the first eight; the session
  itself leaves the plan registry alone, and the upserts that follow it, one per note, leave
  every plan of a member outside the first eight as it was.
\<close>

theorem C10_first_eight_participants:
  "map cn_memberId (cs_notes (fst (runCollaboration e task strategy participants mc w))) =
     filter (\<lambda>memberId. getMember memberId \<noteq> None) (take 8 participants)
   \<and> map mt_speakerId (cs_transcript (fst (runCollaboration e task strategy participants mc w))) =
     filter (\<lambda>memberId. getMember memberId \<noteq> None) (take 8 participants)
   \<and> length (cs_notes (fst (runCollaboration e task strategy participants mc w))) \<le> 8
   \<and> length (cs_transcript (fst (runCollaboration e task strategy participants mc w))) \<le> 8
   \<and> (\<forall>turn \<in> set (meetingTurns (snd (runCollaboration e task strategy participants mc w))).
        turn \<in> set (meetingTurns w) \<or> mt_speakerId turn \<in> set (take 8 participants))
   \<and> actionPlans (snd (runCollaboration e task strategy participants mc w)) = actionPlans w
   \<and> (\<forall>p \<in> set (actionPlans
                    (upsertNotes e threadId
                       (cs_notes (fst (runCollaboration e task strategy participants mc w)))
                       (snd (runCollaboration e task strategy participants mc w)))).
        p \<in> set (actionPlans w) \<or> ap_memberId p \<in> set (take 8 participants))"
proof -
  let ?session = "fst (runCollaboration e task strategy participants mc w)"
  let ?w' = "snd (runCollaboration e task strategy participants mc w)"
  let ?first = "filter (\<lambda>memberId. getMember memberId \<noteq> None) (take 8 participants)"
  have ids: "map cn_memberId (cs_notes ?session) = ?first"
    and speakers: "map mt_speakerId (cs_transcript ?session) = ?first"
    and plans: "actionPlans ?w' = actionPlans w"
    and turns: "\<forall>turn \<in> set (meetingTurns ?w').
                  turn \<in> set (meetingTurns w) \<or> mt_speakerId turn \<in> set (take 8 participants)"
    by (rule runCollaboration_session)+
  have "length ?first \<le> length (take 8 participants)"
    by (rule length_filter_le)
  then have short: "length ?first \<le> 8" by simp
  have n8: "length (cs_notes ?session) \<le> 8"
    using short ids by (metis length_map)
  have t8: "length (cs_transcript ?session) \<le> 8"
    using short speakers by (metis length_map)
  have up: "p \<in> set (actionPlans w) \<or> ap_memberId p \<in> set (take 8 participants)"
    if "p \<in> set (actionPlans (upsertNotes e threadId (cs_notes ?session) ?w'))" for p
    using upsertNotes_members[OF that] plans ids by auto
  show ?thesis
    using ids speakers n8 t8 turns plans up by blast
qed

text \<open>The witness: the default team has eleven entries; the session has notes for the first eight.\<close>

theorem C10_first_eight_participants_witness:
  "length DEFAULT_COLLABORATION_TEAM = 11 \<and>
   map cn_memberId (cs_notes (fst (runCollaboration offlineEnv (js ''Launch a beta'') (js ''strategy'')
     DEFAULT_COLLABORATION_TEAM [] initialWorld))) =
     [js ''ATTENDANT-TAN'', js ''PO-TAN'', js ''PM-TAN'', js ''DEV-TAN'', js ''UX-TAN'',
         js ''QA-TAN'',
      js ''BA-TAN'', js ''LEGAL-TAN''] \<and>
   length (cs_transcript (fst (runCollaboration offlineEnv (js ''Launch a beta'') (js ''strategy'')
     DEFAULT_COLLABORATION_TEAM [] initialWorld))) \<le> 8"
proof -
  have "filter (\<lambda>memberId. getMember memberId \<noteq> None) (take 8 DEFAULT_COLLABORATION_TEAM) =
     [js ''ATTENDANT-TAN'', js ''PO-TAN'', js ''PM-TAN'', js ''DEV-TAN'', js ''UX-TAN'',
         js ''QA-TAN'',
      js ''BA-TAN'', js ''LEGAL-TAN'']"
    by (simp add: getMember_known getMember_known_ex roster_ids DEFAULT_COLLABORATION_TEAM_def)
  moreover have "length DEFAULT_COLLABORATION_TEAM = 11"
    by (simp add: DEFAULT_COLLABORATION_TEAM_def)
  ultimately show ?thesis
    using C10_first_eight_participants [of offlineEnv "js ''Launch a beta''" "js ''strategy''"
            DEFAULT_COLLABORATION_TEAM "[]" initialWorld "js ''thread-main''"]
    by simp
qed

subsection \<open>Claim C2: a turn sees the notes before it\<close>

lemma includes_str_refl [simp]: "includes_str s s"
  by (simp add: includes_str_def)

lemma includes_str_append [simp]:
  "includes_str (a @ x @ b) x" "includes_str (a @ x) x" "includes_str (x @ b) x"
  by (simp_all add: includes_str_def)

lemma includes_str_trans: "includes_str s x \<Longrightarrow> includes_str x y \<Longrightarrow> includes_str s y"
  unfolding includes_str_def by (rule sublist_order.order_trans)

lemma includes_str_join: "x \<in> set xs \<Longrightarrow> includes_str (join sep xs) x"
proof (induction sep xs rule: join.induct)
  case (1 sep)
  then show ?case by simp
next
  case (2 sep y)
  then show ?case by simp
next
  case (3 sep y z zs)
  show ?case
  proof (cases "x = y")
    case True
    then show ?thesis by simp
  next
    case False
    then have "includes_str (join sep (z # zs)) x" using 3 by simp
    moreover have "includes_str (y @ sep @ join sep (z # zs)) (join sep (z # zs))"
      using includes_str_append(2)[of "y @ sep" "join sep (z # zs)"] by simp
    ultimately show ?thesis
      using includes_str_trans by auto
  qed
qed

lemma request_embeds_prior:
  "prior \<noteq> [] \<Longrightarrow>
   includes_str (lr_input (collaborationRequest w member task strategy mc prior tok)) prior"
  by (simp add: collaborationRequest_def Let_def collaborationInput_def includes_str_join
        del: join.simps)

lemma turnNote_online:
  "tok \<noteq> [] \<Longrightarrow>
   fst (turnNote e task strategy mc tok member s) =
     noteOfResult (fst (requestLlmText e
        (collaborationRequest (cl_world s) member task strategy mc (cl_priorDialogue s) tok)
        (cl_world s)))"
  by (simp add: turnNote_def split_beta)

text \<open>
  C2. In a session with the participants \<open>P1\<close>, \<open>P2\<close>,
      \<open>P3\<close> of the roster and a credential,
  three requests are sent, one per participant and in this order. Each note is the text its
  request returned, or the substitute built from the error when the request threw. The input
  of the second request contains the line of \<open>P1\<close>,
      and the input of the third the lines of
  \<open>P1\<close> and \<open>P2\<close>,
      each in the form \<open>id: note\<close> followed by an empty line, so the notes
  are there verbatim.
\<close>

theorem C2_turn_sees_prior_notes:
  assumes "getMember P1 = Some m1" "getMember P2 = Some m2" "getMember P3 = Some m3"
    and "fst (getProxyAuthToken e (advance w)) \<noteq> []"
  shows "\<exists>r1 r2 r3 n1 n2 n3 w1 w2 w3.
           llmCalls (snd (runCollaboration e task strategy [P1, P2, P3] mc w)) = llmCalls w @ [r1,
               r2, r3]
         \<and> cs_notes (fst (runCollaboration e task strategy [P1, P2, P3] mc w)) =
             [\<lparr> cn_memberId = P1, cn_note = n1 \<rparr>, \<lparr> cn_memberId = P2,
                 cn_note = n2 \<rparr>,
              \<lparr> cn_memberId = P3, cn_note = n3 \<rparr>]
         \<and> n1 = noteOfResult (fst (requestLlmText e r1 w1))
         \<and> n2 = noteOfResult (fst (requestLlmText e r2 w2))
         \<and> n3 = noteOfResult (fst (requestLlmText e r3 w3))
         \<and> includes_str (lr_input r2) (P1 @ js '': '' @ n1 @ [0x0A, 0x0A])
         \<and> includes_str (lr_input r3) (P1 @ js '': '' @ n1 @ [0x0A, 0x0A] @ P2 @ js '': '' @
             n2 @ [0x0A, 0x0A])
         \<and> includes_str (lr_input r2) n1
         \<and> includes_str (lr_input r3) n1
         \<and> includes_str (lr_input r3) n2"
proof -
  define tok where "tok = fst (getProxyAuthToken e (advance w))"
  define w0 where "w0 = snd (getProxyAuthToken e (advance w))"
  define sid where "sid = js ''collab-'' @ showNat (e_dateNow e (tick w))"
  define s0 where "s0 = startSession mc w0"
  define s1 where "s1 = collaborationTurn e task strategy mc tok sid (activeThreadId w) m1 s0"
  define s2 where "s2 = collaborationTurn e task strategy mc tok sid (activeThreadId w) m2 s1"
  define s3 where "s3 = collaborationTurn e task strategy mc tok sid (activeThreadId w) m3 s2"
  define r1 where "r1 = collaborationRequest (cl_world s0) m1 task strategy mc (cl_priorDialogue s0) tok"
  define r2 where "r2 = collaborationRequest (cl_world s1) m2 task strategy mc (cl_priorDialogue s1) tok"
  define r3 where "r3 = collaborationRequest (cl_world s2) m3 task strategy mc (cl_priorDialogue s2) tok"
  define n1 where "n1 = fst (turnNote e task strategy mc tok m1 s0)"
  define n2 where "n2 = fst (turnNote e task strategy mc tok m2 s1)"
  define n3 where "n3 = fst (turnNote e task strategy mc tok m3 s2)"
  have tok: "tok \<noteq> []" using assms(4) by (simp add: tok_def)
  have ids: "cm_id m1 = P1" "cm_id m2 = P2" "cm_id m3 = P3"
    using assms(1-3) by (auto dest: getMember_id)
  have loop: "collaborationTurns e task strategy mc tok sid (activeThreadId w) [P1, P2, P3] s0 = s3"
    using assms(1-3) by (simp add: s1_def s2_def s3_def)
  have run: "runCollaboration e task strategy [P1, P2, P3] mc w =
               (\<lparr> cs_sessionId = sid, cs_notes = cl_notes s3,
                   cs_transcript = cl_transcript s3 \<rparr>,
                cl_world s3)"
    using loop by (simp add: runCollaboration_def Let_def split_beta tok_def w0_def sid_def s0_def)
  have session_notes: "cl_notes s3 = [\<lparr> cn_memberId = P1, cn_note = n1 \<rparr>,
      \<lparr> cn_memberId = P2, cn_note = n2 \<rparr>,
              \<lparr> cn_memberId = P3, cn_note = n3 \<rparr>]"
    by (simp add: s3_def s2_def s1_def collaborationTurn_adds(1) n1_def n2_def n3_def ids s0_def
          startSession_def)
  have calls: "llmCalls (cl_world s3) = llmCalls w @ [r1, r2, r3]"
    using tok
    by (simp add: s3_def s2_def s1_def collaborationTurn_adds(6) turnNote_calls r1_def r2_def r3_def
          s0_def startSession_def w0_def advance_def)
  have p1: "cl_priorDialogue s1 = cl_priorDialogue s0 @ P1 @ js '': '' @ n1 @ [0x0A, 0x0A]"
    by (simp add: s1_def collaborationTurn_adds(2) n1_def ids)
  have p2: "cl_priorDialogue s2 =
              cl_priorDialogue s0 @ (P1 @ js '': '' @ n1 @ [0x0A, 0x0A] @ P2 @ js '': '' @ n2 @
                  [0x0A, 0x0A])"
    by (simp add: s2_def collaborationTurn_adds(2) n2_def ids p1)
  have e2: "includes_str (lr_input r2) (cl_priorDialogue s1)"
    unfolding r2_def by (rule request_embeds_prior) (simp add: p1)
  have e3: "includes_str (lr_input r3) (cl_priorDialogue s2)"
    unfolding r3_def by (rule request_embeds_prior) (simp add: p2)
  have line1: "includes_str (lr_input r2) (P1 @ js '': '' @ n1 @ [0x0A, 0x0A])"
    by (rule includes_str_trans[OF e2]) (simp add: p1)
  have lines: "includes_str (lr_input r3)
                 (P1 @ js '': '' @ n1 @ [0x0A, 0x0A] @ P2 @ js '': '' @ n2 @ [0x0A, 0x0A])"
    by (rule includes_str_trans[OF e3]) (simp add: p2)
  have in1: "includes_str (P1 @ js '': '' @ n1 @ [0x0A, 0x0A]) n1"
    using includes_str_append(1)[of "P1 @ js '': ''" n1 "[0x0A, 0x0A]"] by simp
  have in31: "includes_str (P1 @ js '': '' @ n1 @ [0x0A, 0x0A] @ P2 @ js '': '' @ n2 @ [0x0A,
      0x0A]) n1"
    using includes_str_append(1)[of "P1 @ js '': ''" n1 "[0x0A, 0x0A] @ P2 @ js '': '' @ n2 @
        [0x0A, 0x0A]"]
    by simp
  have in32: "includes_str (P1 @ js '': '' @ n1 @ [0x0A, 0x0A] @ P2 @ js '': '' @ n2 @ [0x0A,
      0x0A]) n2"
    using includes_str_append(1)[of "P1 @ js '': '' @ n1 @ [0x0A, 0x0A] @ P2 @
        js '': ''" n2 "[0x0A, 0x0A]"]
    by simp
  have "n1 = noteOfResult (fst (requestLlmText e r1 (cl_world s0)))"
    "n2 = noteOfResult (fst (requestLlmText e r2 (cl_world s1)))"
    "n3 = noteOfResult (fst (requestLlmText e r3 (cl_world s2)))"
    using tok by (simp_all add: n1_def n2_def n3_def r1_def r2_def r3_def turnNote_online)
  then show ?thesis
    using run session_notes calls line1 lines includes_str_trans[OF line1 in1]
      includes_str_trans[OF lines in31] includes_str_trans[OF lines in32]
    by (intro exI[of _ r1] exI[of _ r2] exI[of _ r3] exI[of _ n1] exI[of _ n2] exI[of _ n3]
          exI[of _ "cl_world s0"] exI[of _ "cl_world s1"] exI[of _ "cl_world s2"]) simp
qed

text \<open>
  The witness: three members of the roster, signed in; the proxy answers the first request of
  the session (the fetch at tick 2) with status 500 and the others with a sentence.
\<close>

lemma getMember_DEV_TAN: "getMember (js ''DEV-TAN'') = Some member_DEV_TAN"
  by (simp add: getMember_def COUNCIL_MEMBERS_def member_defs js_def)

lemma online_token: "fst (getProxyAuthToken (onlineEnv failAt) w) = js ''token''"
  by (simp add: getProxyAuthToken_def onlineEnv_def offlineEnv_def)

theorem C2_turn_sees_prior_notes_witness:
  "\<exists>r1 r2 r3 n2 n3.
     llmCalls (snd (runCollaboration (onlineEnv 2) (js ''Launch a beta'') (js ''strategy'')
                      [js ''PO-TAN'', js ''PM-TAN'', js ''DEV-TAN''] [] initialWorld)) = [r1, r2,
                          r3]
   \<and> cs_notes (fst (runCollaboration (onlineEnv 2) (js ''Launch a beta'') (js ''strategy'')
                      [js ''PO-TAN'', js ''PM-TAN'', js ''DEV-TAN''] [] initialWorld)) =
       [\<lparr> cn_memberId = js ''PO-TAN'',
          cn_note = failureNote (js ''Proxy LLM request failed (500): {}'') \<rparr>,
        \<lparr> cn_memberId = js ''PM-TAN'', cn_note = n2 \<rparr>,
        \<lparr> cn_memberId = js ''DEV-TAN'', cn_note = n3 \<rparr>]
   \<and> includes_str (lr_input r3) (failureNote (js ''Proxy LLM request failed (500): {}''))
   \<and> includes_str (lr_input r3) n2"
proof -
  have tok: "fst (getProxyAuthToken (onlineEnv 2) (advance initialWorld)) \<noteq> []"
    by (simp add: online_token js_def)
  have calls0: "llmCalls initialWorld = []"
    by (simp add: initialWorld_def)
  have t2: "tick (snd (getProxyAuthToken (onlineEnv 2) (advance initialWorld))) = 2"
    by (simp add: getProxyAuthToken_def onlineEnv_def offlineEnv_def advance_def initialWorld_def)
  have first: "noteOfResult (fst (requestLlmText (onlineEnv 2) request
                  (snd (getProxyAuthToken (onlineEnv 2) (advance initialWorld))))) =
               failureNote (js ''Proxy LLM request failed (500): {}'')" for request
  proof -
    have f: "e_fetch (onlineEnv 2) 2 request = ProxyNotOk 500 (js ''{}'')"
      by (simp add: onlineEnv_def offlineEnv_def)
    have m: "js ''Proxy LLM request failed ('' @ showNat 500 @ js ''): '' @ js ''{}'' =
             js ''Proxy LLM request failed (500): {}''"
      by (simp add: js_def showNat.simps)
    show ?thesis
      by (simp add: requestLlmText_def Let_def t2 noteOfResult_def f m)
  qed
  have n1: "cn_note (hd (cs_notes (fst (runCollaboration (onlineEnv 2) (js ''Launch a beta'')
               (js ''strategy'') [js ''PO-TAN'', js ''PM-TAN'',
                   js ''DEV-TAN''] [] initialWorld)))) =
            failureNote (js ''Proxy LLM request failed (500): {}'')"
    using tok
    by (simp add: runCollaboration_def Let_def split_beta getMember_PO_TAN getMember_PM_TAN
          getMember_DEV_TAN collaborationTurn_adds(1) turnNote_online startSession_def first)
  obtain r1 r2 r3 n1' n2 n3 where
      c: "llmCalls (snd (runCollaboration (onlineEnv 2) (js ''Launch a beta'') (js ''strategy'')
                      [js ''PO-TAN'', js ''PM-TAN'', js ''DEV-TAN''] [] initialWorld)) = [r1, r2,
                          r3]"
    and n: "cs_notes (fst (runCollaboration (onlineEnv 2) (js ''Launch a beta'') (js ''strategy'')
                      [js ''PO-TAN'', js ''PM-TAN'', js ''DEV-TAN''] [] initialWorld)) =
             [\<lparr> cn_memberId = js ''PO-TAN'', cn_note = n1' \<rparr>,
              \<lparr> cn_memberId = js ''PM-TAN'', cn_note = n2 \<rparr>,
              \<lparr> cn_memberId = js ''DEV-TAN'', cn_note = n3 \<rparr>]"
    and i: "includes_str (lr_input r3) n1'" "includes_str (lr_input r3) n2"
    using C2_turn_sees_prior_notes [OF getMember_PO_TAN getMember_PM_TAN getMember_DEV_TAN tok,
            of "js ''Launch a beta''" "js ''strategy''" "[]"] calls0
    by auto
  have "n1' = failureNote (js ''Proxy LLM request failed (500): {}'')"
    using n1 n by simp
  then show ?thesis
    using c n i by blast
qed

end
